theory Spec2Isabelle
  imports Main "HOL-Library.Sublist" "HOL-Library.AList"
begin

section \<open>Values, dictionaries and exceptions\<close>

text \<open>
  Template values are JSON-like trees. A Python \<^verbatim>\<open>dict\<close> keeps insertion order and has
  unique keys; it is modelled as an association list whose update replaces the value of
  an existing key in place and appends a new key at the end (\<^const>\<open>AList.update\<close>).
  Floats and byte strings do not occur in the properties verified here.
\<close>

datatype val =
    VNull
  | VBool bool
  | VInt int
  | VStr string
  | VList "val list"
  | VDict "(string \<times> val) list"

type_synonym 'v dict = "(string \<times> 'v) list"

text \<open>
  Exceptions are values: the class of the exception and the text that \<^verbatim>\<open>str(e)\<close>
  yields. A botocore \<^verbatim>\<open>ParamValidationError\<close> carries the validator's report in its
  keyword arguments.
\<close>

datatype exn_class =
    DependencyNotYetSatisfied
  | NoStackUpdates
  | ParamValidationError "string option"
  | KeyError
  | TypeError
  | ValueError
  | IndexError
  | RecursionError
  | AttributeError
  | Exception

datatype exn = Raise exn_class string

fun str_exn :: "exn \<Rightarrow> string" where
  "str_exn (Raise c msg) = msg"

text \<open>Reading a dictionary: \<^verbatim>\<open>d.get(key)\<close> yields \<^verbatim>\<open>None\<close> for a missing key.\<close>

definition dict_get :: "val dict \<Rightarrow> string \<Rightarrow> val" where
  "dict_get d key = (case map_of d key of None \<Rightarrow> VNull | Some v \<Rightarrow> v)"

text \<open>Python's truth value of a value, as tested by \<^verbatim>\<open>if v\<close> and \<^verbatim>\<open>not v\<close>.\<close>

fun truthy :: "val \<Rightarrow> bool" where
  "truthy VNull = False"
| "truthy (VBool b) = b"
| "truthy (VInt i) = (i \<noteq> 0)"
| "truthy (VStr s) = (s \<noteq> [])"
| "truthy (VList xs) = (xs \<noteq> [])"
| "truthy (VDict kvs) = (kvs \<noteq> [])"

section \<open>Intrinsic evaluator: strings\<close>

text \<open>
  Python string operations used by the evaluator. Strings are ASCII here: \<^verbatim>\<open>lower\<close>
  maps \<open>A\<close> to \<open>Z\<close> only.
\<close>

definition lower_char :: "char \<Rightarrow> char" where
  "lower_char c =
     (case map_of (zip ''ABCDEFGHIJKLMNOPQRSTUVWXYZ'' ''abcdefghijklmnopqrstuvwxyz'') c of
        None \<Rightarrow> c | Some l \<Rightarrow> l)"

definition lower :: "string \<Rightarrow> string" where
  "lower s = map lower_char s"

text \<open>\<^verbatim>\<open>s.split(sep)\<close> for a non-empty separator; the empty separator raises \<^verbatim>\<open>ValueError\<close>.\<close>

function split_from :: "string \<Rightarrow> string \<Rightarrow> string \<Rightarrow> string list" where
  "split_from sep cur [] = [cur]"
| "split_from sep cur (c # cs) =
     (if sep \<noteq> [] \<and> prefix sep (c # cs)
      then cur # split_from sep [] (drop (length sep) (c # cs))
      else split_from sep (cur @ [c]) cs)"
  by pat_completeness auto
termination
  by (relation "measure (\<lambda>(sep, cur, s). length s)") (auto simp: neq_Nil_conv)

definition split :: "string \<Rightarrow> string \<Rightarrow> exn + string list" where
  "split s sep =
     (if sep = [] then Inl (Raise ValueError ''empty separator'') else Inr (split_from sep [] s))"

text \<open>\<^verbatim>\<open>sep.join(items)\<close>.\<close>

fun join :: "string \<Rightarrow> string list \<Rightarrow> string" where
  "join sep [] = []"
| "join sep [x] = x"
| "join sep (x # y # ys) = x @ sep @ join sep (y # ys)"

text \<open>\<^verbatim>\<open>s.replace(old, new)\<close> for a non-empty \<open>old\<close>: every occurrence, from the left.\<close>

function replace :: "string \<Rightarrow> string \<Rightarrow> string \<Rightarrow> string" where
  "replace old new [] = []"
| "replace old new (c # cs) =
     (if old \<noteq> [] \<and> prefix old (c # cs)
      then new @ replace old new (drop (length old) (c # cs))
      else c # replace old new cs)"
  by pat_completeness auto
termination
  by (relation "measure (\<lambda>(old, new, s). length s)") (auto simp: neq_Nil_conv)

text \<open>Decimal numerals, as \<^verbatim>\<open>str\<close> prints an integer.\<close>

function string_of_nat :: "nat \<Rightarrow> string" where
  "string_of_nat n =
     (if n < 10 then [''0123456789'' ! n]
      else string_of_nat (n div 10) @ [''0123456789'' ! (n mod 10)])"
  by pat_completeness auto
termination
  by (relation "measure (\<lambda>n. n)") auto

definition string_of_int :: "int \<Rightarrow> string" where
  "string_of_int i = (if i < 0 then ''-'' @ string_of_nat (nat (- i)) else string_of_nat (nat i))"

text \<open>
  \<^verbatim>\<open>REGEX_DYNAMIC_REF.match(s)\<close> for the pattern \<^verbatim>\<open>{{resolve:([^:]+):(.+)}}\<close>: the
  string starts with \<^verbatim>\<open>{{resolve:\<close>; the service is the non-empty run up to the next
  colon; the key is non-empty, stays on one line and extends to the last \<^verbatim>\<open>}}\<close> of
  that line. The result holds the two groups.
\<close>

definition last_closing :: "string \<Rightarrow> nat option" where
  "last_closing line = find (\<lambda>k. take 2 (drop k line) = ''}}'') (rev [1..<length line])"

definition match_dynamic_ref :: "string \<Rightarrow> (string \<times> string) option" where
  "match_dynamic_ref s =
     (if \<not> prefix ''{{resolve:'' s then None
      else (let rest = drop (length ''{{resolve:'') s;
                service = takeWhile (\<lambda>c. c \<noteq> CHR '':'') rest;
                after = drop (length service) rest
            in if service = [] \<or> after = [] then None
               else (let line = takeWhile (\<lambda>c. c \<noteq> CHR 0x0A) (tl after)
                     in case last_closing line of
                          None \<Rightarrow> None
                        | Some k \<Rightarrow> Some (service, take k line))))"

text \<open>
  The placeholders \<^verbatim>\<open>${name}\<close> of a string, as \<^verbatim>\<open>re.sub\<close> with the pattern
  \<^verbatim>\<open>\$\{([^\}]+)\}\<close> finds them from the left: literal text is \<open>Inl\<close>, the name of a
  placeholder is \<open>Inr\<close>.
\<close>

function placeholders :: "string \<Rightarrow> string \<Rightarrow> (string + string) list" where
  "placeholders lit [] = (if lit = [] then [] else [Inl lit])"
| "placeholders lit (c # cs) =
     (let name = takeWhile (\<lambda>x. x \<noteq> CHR ''}'') (drop 2 (c # cs))
      in if prefix ''${'' (c # cs) \<and> name \<noteq> [] \<and> length name + 2 < length (c # cs)
         then (if lit = [] then [] else [Inl lit]) @
              Inr name # placeholders [] (drop (length name + 3) (c # cs))
         else placeholders (lit @ [c]) cs)"
  by pat_completeness auto
termination
  by (relation "measure (\<lambda>(lit, s). length s)") auto

section \<open>Intrinsic evaluator: operations on values\<close>

text \<open>
  \<^verbatim>\<open>repr\<close> and \<^verbatim>\<open>str\<close> of a value, for strings of printable ASCII characters: a string
  is quoted with single quotes unless it contains a single quote and no double quote.
\<close>

definition repr_char :: "char \<Rightarrow> char \<Rightarrow> string" where
  "repr_char q c =
     (if c = CHR 0x5C then [CHR 0x5C, CHR 0x5C]
      else if c = q then [CHR 0x5C, q]
      else if c = CHR 0x0A then [CHR 0x5C, CHR ''n'']
      else if c = CHR 0x0D then [CHR 0x5C, CHR ''r'']
      else if c = CHR 0x09 then [CHR 0x5C, CHR ''t'']
      else [c])"

definition repr_str :: "string \<Rightarrow> string" where
  "repr_str s =
     (let q = (if CHR 0x27 \<in> set s \<and> CHR 0x22 \<notin> set s then CHR 0x22 else CHR 0x27)
      in [q] @ concat (map (repr_char q) s) @ [q])"

fun repr :: "val \<Rightarrow> string"
  and repr_list :: "val list \<Rightarrow> string list"
  and repr_items :: "(string \<times> val) list \<Rightarrow> string list" where
  "repr VNull = ''None''"
| "repr (VBool b) = (if b then ''True'' else ''False'')"
| "repr (VInt i) = string_of_int i"
| "repr (VStr s) = repr_str s"
| "repr (VList xs) = ''['' @ join '', '' (repr_list xs) @ '']''"
| "repr (VDict kvs) = ''{'' @ join '', '' (repr_items kvs) @ ''}''"
| "repr_list [] = []"
| "repr_list (x # xs) = repr x # repr_list xs"
| "repr_items [] = []"
| "repr_items (kv # kvs) = (repr_str (fst kv) @ '': '' @ repr (snd kv)) # repr_items kvs"

definition str :: "val \<Rightarrow> string" where
  "str v = (case v of VStr s \<Rightarrow> s | _ \<Rightarrow> repr v)"

definition quoted :: "string \<Rightarrow> string" where
  "quoted s = [CHR 0x27] @ s @ [CHR 0x27]"

definition type_name :: "val \<Rightarrow> string" where
  "type_name v =
     (case v of VNull \<Rightarrow> ''NoneType'' | VBool b \<Rightarrow> ''bool'' | VInt i \<Rightarrow> ''int''
      | VStr s \<Rightarrow> ''str'' | VList xs \<Rightarrow> ''list'' | VDict kvs \<Rightarrow> ''dict'')"

text \<open>
  Dictionary keys are strings. Looking up a list or a dictionary raises \<^verbatim>\<open>TypeError\<close>
  (unhashable), any other key that is not a string is simply absent.
\<close>

definition lookup :: "val dict \<Rightarrow> val \<Rightarrow> exn + val option" where
  "lookup d key =
     (case key of
        VStr k \<Rightarrow> Inr (map_of d k)
      | VList xs \<Rightarrow> Inl (Raise TypeError (''unhashable type: '' @ quoted ''list''))
      | VDict kvs \<Rightarrow> Inl (Raise TypeError (''unhashable type: '' @ quoted ''dict''))
      | _ \<Rightarrow> Inr None)"

text \<open>\<^verbatim>\<open>obj.get(key)\<close>: only a dictionary has the method.\<close>

definition get :: "val \<Rightarrow> val \<Rightarrow> exn + val" where
  "get obj key =
     (case obj of
        VDict d \<Rightarrow>
          (case lookup d key of
             Inl e \<Rightarrow> Inl e
           | Inr None \<Rightarrow> Inr VNull
           | Inr (Some v) \<Rightarrow> Inr v)
      | _ \<Rightarrow> Inl (Raise AttributeError (quoted (type_name obj) @ '' object has no attribute '' @ quoted ''get'')))"

text \<open>\<^verbatim>\<open>key in obj\<close> for a dictionary.\<close>

definition index_of :: "val \<Rightarrow> int option" where
  "index_of v = (case v of VInt i \<Rightarrow> Some i | VBool b \<Rightarrow> Some (if b then 1 else 0) | _ \<Rightarrow> None)"

definition at_index :: "'a list \<Rightarrow> int \<Rightarrow> 'a option" where
  "at_index xs i =
     (let j = (if i < 0 then i + int (length xs) else i)
      in if 0 \<le> j \<and> j < int (length xs) then Some (xs ! nat j) else None)"

text \<open>The subscript \<^verbatim>\<open>obj[key]\<close>.\<close>

definition getitem :: "val \<Rightarrow> val \<Rightarrow> exn + val" where
  "getitem obj key =
     (case obj of
        VDict d \<Rightarrow>
          (case lookup d key of
             Inl e \<Rightarrow> Inl e
           | Inr None \<Rightarrow> Inl (Raise KeyError (repr key))
           | Inr (Some v) \<Rightarrow> Inr v)
      | VList xs \<Rightarrow>
          (case index_of key of
             None \<Rightarrow> Inl (Raise TypeError (''list indices must be integers or slices, not '' @ type_name key))
           | Some i \<Rightarrow>
               (case at_index xs i of
                  None \<Rightarrow> Inl (Raise IndexError ''list index out of range'')
                | Some v \<Rightarrow> Inr v))
      | VStr s \<Rightarrow>
          (case index_of key of
             None \<Rightarrow> Inl (Raise TypeError ''string indices must be integers'')
           | Some i \<Rightarrow>
               (case at_index s i of
                  None \<Rightarrow> Inl (Raise IndexError ''string index out of range'')
                | Some c \<Rightarrow> Inr (VStr [c])))
      | _ \<Rightarrow> Inl (Raise TypeError (quoted (type_name obj) @ '' object is not subscriptable'')))"

text \<open>Iteration, as a comprehension or an unpacking assignment performs it.\<close>

definition iter :: "val \<Rightarrow> exn + val list" where
  "iter v =
     (case v of
        VList xs \<Rightarrow> Inr xs
      | VStr s \<Rightarrow> Inr (map (\<lambda>c. VStr [c]) s)
      | VDict d \<Rightarrow> Inr (map (\<lambda>kv. VStr (fst kv)) d)
      | _ \<Rightarrow> Inl (Raise TypeError (quoted (type_name v) @ '' object is not iterable'')))"

definition unpack2 :: "val \<Rightarrow> exn + val \<times> val" where
  "unpack2 v =
     (case iter v of
        Inl e \<Rightarrow> Inl e
      | Inr [a, b] \<Rightarrow> Inr (a, b)
      | Inr _ \<Rightarrow> Inl (Raise ValueError ''wrong number of values to unpack (expected 2)''))"

definition unpack3 :: "val \<Rightarrow> exn + val \<times> val \<times> val" where
  "unpack3 v =
     (case iter v of
        Inl e \<Rightarrow> Inl e
      | Inr [a, b, c] \<Rightarrow> Inr (a, b, c)
      | Inr _ \<Rightarrow> Inl (Raise ValueError ''wrong number of values to unpack (expected 3)''))"

text \<open>
  \<^verbatim>\<open>int(v)\<close>: a string holds an optional sign and decimal digits, which single
  underscores may group, between optional blanks.
\<close>

definition is_space :: "char \<Rightarrow> bool" where
  "is_space c = (of_char c \<in> {9, 10, 11, 12, 13, 28, 29, 30, 31, 32 :: nat})"

definition is_digit :: "char \<Rightarrow> bool" where
  "is_digit c = (c \<in> set ''0123456789'')"

definition digit_value :: "char \<Rightarrow> nat" where
  "digit_value c = of_char c - of_char CHR ''0''"

fun grouped :: "string \<Rightarrow> bool" where
  "grouped [] = True"
| "grouped [c] = is_digit c"
| "grouped (c # d # cs) = ((is_digit c \<or> (c = CHR ''_'' \<and> is_digit d)) \<and> grouped (d # cs))"

definition nat_of_digits :: "string \<Rightarrow> nat option" where
  "nat_of_digits s =
     (if s \<noteq> [] \<and> is_digit (hd s) \<and> grouped s
      then Some (foldl (\<lambda>n c. 10 * n + digit_value c) 0 (filter is_digit s))
      else None)"

definition strip :: "string \<Rightarrow> string" where
  "strip s = rev (dropWhile is_space (rev (dropWhile is_space s)))"

definition parse_int :: "string \<Rightarrow> int option" where
  "parse_int s =
     (let t = strip s
      in if prefix ''-'' t then map_option (\<lambda>n. - int n) (nat_of_digits (tl t))
         else if prefix ''+'' t then map_option int (nat_of_digits (tl t))
         else map_option int (nat_of_digits t))"

definition py_int :: "val \<Rightarrow> exn + int" where
  "py_int v =
     (case v of
        VInt i \<Rightarrow> Inr i
      | VBool b \<Rightarrow> Inr (if b then 1 else 0)
      | VStr s \<Rightarrow>
          (case parse_int s of
             None \<Rightarrow> Inl (Raise ValueError (''invalid literal for int() with base 10: '' @ repr v))
           | Some i \<Rightarrow> Inr i)
      | _ \<Rightarrow> Inl (Raise TypeError ''int() argument must be a string or a real number''))"

text \<open>\<^verbatim>\<open>s.split()\<close> without a separator: the runs of characters between blanks.\<close>

function split_whitespace :: "string \<Rightarrow> string list" where
  "split_whitespace s =
     (let t = dropWhile is_space s
      in if t = [] then []
         else takeWhile (\<lambda>c. \<not> is_space c) t # split_whitespace (dropWhile (\<lambda>c. \<not> is_space c) t))"
  by pat_completeness auto
termination
proof (relation "measure length", goal_cases)
  case 1
  show ?case by simp
next
  case (2 s t)
  from 2 have "t \<noteq> []"
    by simp
  then obtain c cs where t: "t = c # cs"
    by (cases t) simp_all
  have "\<not> is_space (hd t)"
    using 2 hd_dropWhile [of is_space s] by simp
  hence "dropWhile (\<lambda>c. \<not> is_space c) t = dropWhile (\<lambda>c. \<not> is_space c) cs"
    by (simp add: t)
  moreover have "length (dropWhile (\<lambda>c. \<not> is_space c) cs) \<le> length cs"
    by (rule length_dropWhile_le)
  ultimately have "length (dropWhile (\<lambda>c. \<not> is_space c) t) < length t"
    by (simp add: t)
  also have "length t \<le> length s"
    unfolding 2(1) by (rule length_dropWhile_le)
  finally show ?case by simp
qed

text \<open>\<^verbatim>\<open>string.split(delimiter)\<close>, the method of a string.\<close>

definition split_method :: "val \<Rightarrow> val \<Rightarrow> exn + val" where
  "split_method string delimiter =
     (case string of
        VStr s \<Rightarrow>
          (case delimiter of
             VStr d \<Rightarrow> map_sum id (\<lambda>parts. VList (map VStr parts)) (split s d)
           | VNull \<Rightarrow> Inr (VList (map VStr (split_whitespace s)))
           | _ \<Rightarrow> Inl (Raise TypeError (''must be str or None, not '' @ type_name delimiter)))
      | _ \<Rightarrow> Inl (Raise AttributeError (quoted (type_name string) @ '' object has no attribute '' @ quoted ''split'')))"

text \<open>\<^verbatim>\<open>result.replace(old, val)\<close>, the method of a string.\<close>

definition replace_method :: "val \<Rightarrow> string \<Rightarrow> val \<Rightarrow> exn + val" where
  "replace_method result old new =
     (case result of
        VStr s \<Rightarrow>
          (case new of
             VStr n \<Rightarrow> Inr (VStr (replace old n s))
           | _ \<Rightarrow> Inl (Raise TypeError (''replace() argument 2 must be str, not '' @ type_name new)))
      | _ \<Rightarrow> Inl (Raise AttributeError (quoted (type_name result) @ '' object has no attribute '' @ quoted ''replace'')))"

text \<open>\<^verbatim>\<open>sep.join(items)\<close>, the method of a string.\<close>

definition join_method :: "val \<Rightarrow> string list \<Rightarrow> exn + val" where
  "join_method sep items =
     (case sep of
        VStr s \<Rightarrow> Inr (VStr (join s items))
      | _ \<Rightarrow> Inl (Raise AttributeError (quoted (type_name sep) @ '' object has no attribute '' @ quoted ''join'')))"

text \<open>
  \<^verbatim>\<open>values[index]\<close> of \<^verbatim>\<open>Fn::Select\<close>, tried again with \<^verbatim>\<open>int(index)\<close> after a
  \<^verbatim>\<open>TypeError\<close>.
\<close>

definition select :: "val \<Rightarrow> val \<Rightarrow> exn + val" where
  "select values index =
     (case getitem values index of
        Inl (Raise TypeError msg) \<Rightarrow>
          (case py_int index of Inl e \<Rightarrow> Inl e | Inr i \<Rightarrow> getitem values (VInt i))
      | r \<Rightarrow> r)"

text \<open>Standard base64 of the bytes of an ASCII string.\<close>

definition b64_alphabet :: string where
  "b64_alphabet = ''ABCDEFGHIJKLMNOPQRSTUVWXYZabcdefghijklmnopqrstuvwxyz0123456789+/''"

fun b64encode :: "nat list \<Rightarrow> string" where
  "b64encode [] = []"
| "b64encode [a] =
     [b64_alphabet ! (a div 4), b64_alphabet ! ((a mod 4) * 16), CHR ''='', CHR ''='']"
| "b64encode [a, b] =
     [b64_alphabet ! (a div 4), b64_alphabet ! ((a mod 4) * 16 + b div 16),
      b64_alphabet ! ((b mod 16) * 4), CHR ''='']"
| "b64encode (a # b # c # rest) =
     [b64_alphabet ! (a div 4), b64_alphabet ! ((a mod 4) * 16 + b div 16),
      b64_alphabet ! ((b mod 16) * 4 + c div 64), b64_alphabet ! (c mod 64)] @ b64encode rest"

definition base64 :: "val \<Rightarrow> exn + val" where
  "base64 v =
     (case v of
        VStr s \<Rightarrow> Inr (VStr (b64encode (map of_char s)))
      | _ \<Rightarrow> Inl (Raise TypeError (''a bytes-like object is required, not '' @ type_name v)))"

text \<open>
  \<^verbatim>\<open>REGEX_OUTPUT_APIGATEWAY.match(s)\<close> for the pattern
  \<^verbatim>\<open>^(https?://.+\.execute-api\.)(?:[^-]+-){2,3}\d\.(amazonaws\.com|localhost\.localstack\.cloud)/?(.*)$\<close>.
  The first group is greedy: the last occurrence of \<^verbatim>\<open>.execute-api.\<close> that lets the
  rest of the pattern match ends it. A run \<^verbatim>\<open>[^-]+-\<close> ends at the next hyphen, so
  three runs are tried before two. The result holds the three groups.
\<close>

definition AWS_URL_SUFFIX :: string where
  "AWS_URL_SUFFIX = ''localhost.localstack.cloud''"

fun strip_runs :: "nat \<Rightarrow> string \<Rightarrow> string option" where
  "strip_runs 0 r = Some r"
| "strip_runs (Suc k) r =
     (let run = takeWhile (\<lambda>c. c \<noteq> CHR ''-'') r
      in if run = [] \<or> length run = length r then None
         else strip_runs k (drop (length run + 1) r))"

definition match_path :: "string \<Rightarrow> string option" where
  "match_path p =
     (let line = takeWhile (\<lambda>c. c \<noteq> CHR 0x0A) p
      in if line = p \<or> line @ [CHR 0x0A] = p then Some line else None)"

definition match_host :: "string \<Rightarrow> (string \<times> string) option" where
  "match_host r =
     (case r of
        d # dot # rest \<Rightarrow>
          (if is_digit d \<and> dot = CHR ''.''
           then (case find (\<lambda>h. prefix h rest) [''amazonaws.com'', AWS_URL_SUFFIX] of
                   None \<Rightarrow> None
                 | Some h \<Rightarrow>
                     (let p = drop (length h) rest
                      in map_option (\<lambda>path. (h, path))
                           (match_path (if prefix ''/'' p then tl p else p))))
           else None)
      | _ \<Rightarrow> None)"

definition match_region :: "string \<Rightarrow> (string \<times> string) option" where
  "match_region r =
     (case Option.bind (strip_runs 3 r) match_host of
        Some m \<Rightarrow> Some m
      | None \<Rightarrow> Option.bind (strip_runs 2 r) match_host)"

fun first_match :: "string \<Rightarrow> nat list \<Rightarrow> (string \<times> string \<times> string) option" where
  "first_match s [] = None"
| "first_match s (i # candidates) =
     (case match_region (drop i s) of
        Some m \<Rightarrow> Some (take i s, m)
      | None \<Rightarrow> first_match s candidates)"

definition match_apigateway :: "string \<Rightarrow> (string \<times> string \<times> string) option" where
  "match_apigateway s =
     (let marker = ''.execute-api.'';
          scheme = (if prefix ''https://'' s then 8 else if prefix ''http://'' s then 7 else 0);
          ends = filter (\<lambda>i. scheme + length marker < i
                          \<and> take (length marker) (drop (i - length marker) s) = marker
                          \<and> CHR 0x0A \<notin> set (take (i - length marker - scheme) (drop scheme s)))
                   (rev [0..<Suc (length s)])
      in if scheme = 0 then None else first_match s ends)"

section \<open>Action invoker: \<^verbatim>\<open>check_not_found_exception\<close> and \<^verbatim>\<open>invoke_function\<close>\<close>

definition markers :: "string list" where
  "markers =
     [''NoSuchBucket'', ''ResourceNotFound'', ''NoSuchEntity'', ''NotFoundException'',
      ''404'', ''not found'', ''not exist'']"

text \<open>\<^verbatim>\<open>m in str(e)\<close> on strings is the substring test, \<^const>\<open>sublist\<close>.\<close>

definition check_not_found_exception :: "exn \<Rightarrow> string \<Rightarrow> val \<Rightarrow> val option \<Rightarrow> bool" where
  "check_not_found_exception e resource_type resource resource_status =
     (let markers_hit = filter (\<lambda>m. sublist m (str_exn e)) markers
      in if markers_hit = [] then False else True)"

text \<open>
  The service method \<open>function\<close> is external: it maps the call parameters to a response
  or to the exception it raises. \<open>fix_params\<close> is
  \<^verbatim>\<open>fix_boto_parameters_based_on_report\<close> of \<^verbatim>\<open>deployment_utils\<close>. A report is falsy
  when it is absent or empty. A \<^verbatim>\<open>return\<close> without value yields \<^const>\<open>VNull\<close>.

  The debug message at the head of the outer \<^verbatim>\<open>try\<close> reads \<^verbatim>\<open>func_details["function"]\<close>:
  a \<open>func_details\<close> without that entry raises there, before the service is called, and
  the exception meets the same handler as a failure of the call.
\<close>

definition report_of :: "exn \<Rightarrow> string option" where
  "report_of e =
     (case e of
        Raise (ParamValidationError (Some r)) msg \<Rightarrow> (if r = [] then None else Some r)
      | _ \<Rightarrow> None)"

definition is_param_validation :: "exn \<Rightarrow> bool" where
  "is_param_validation e =
     (case e of Raise (ParamValidationError r) msg \<Rightarrow> True | _ \<Rightarrow> False)"

definition invoke_function ::
  "(val dict \<Rightarrow> string \<Rightarrow> exn + val dict) \<Rightarrow> (val dict \<Rightarrow> exn + val) \<Rightarrow> val dict \<Rightarrow>
   string \<Rightarrow> val \<Rightarrow> string \<Rightarrow> val \<Rightarrow> exn + val" where
  "invoke_function fix_params function params resource_type func_details action_name resource =
     (let attempt =
        (case getitem func_details (VStr ''function'') of
           Inl e \<Rightarrow> Inl e
         | Inr logged \<Rightarrow>
             (case function params of
                Inr result \<Rightarrow> Inr result
              | Inl e \<Rightarrow>
                  if is_param_validation e then
                    (case report_of e of
                       None \<Rightarrow> Inl e
                     | Some report \<Rightarrow>
                         (case fix_params params report of
                            Inl e' \<Rightarrow> Inl e'
                          | Inr converted_params \<Rightarrow> function converted_params))
                  else Inl e))
      in case attempt of
           Inl e \<Rightarrow>
             if action_name = ''delete'' \<and> check_not_found_exception e resource_type resource None
             then Inr VNull
             else Inl e
         | Inr result \<Rightarrow> Inr result)"

section \<open>Stacks, change sets and resources\<close>

text \<open>
  Modelled from the spec: the classes \<^verbatim>\<open>Stack\<close> and \<^verbatim>\<open>StackChangeSet\<close> live in
  \<^verbatim>\<open>engine/entities.py\<close>, which is not among the sources. Section 3 of the
  specification gives their data: a stack owns a template, a mutable map of live
  resources, per-resource status, a stack-level status, outputs, attached change sets and
  a parameter list of entries \<^verbatim>\<open>{Key, Value, ResolvedValue?, UsePreviousValue?}\<close>; a
  change set is a stack object of its own that is attached to one stack.

  Stack objects are shared and mutated in place (\<^verbatim>\<open>deploy_stack\<close> passes the same object
  as the existing and as the new stack), so they live in a store addressed by references.
\<close>

datatype pvalue = PNone | PStr string | PEntry param
  and param =
    Param (ParameterKey: string) (ParameterValue: pvalue)
          (ResolvedValue: "string option") (UsePreviousValue: bool)

record tparam =
  tp_Type :: "string option"
  tp_Default :: "string option"

text \<open>
  A resource is a dictionary with the keys \<^verbatim>\<open>LogicalResourceId\<close> and \<^verbatim>\<open>Type\<close>, an
  optional \<^verbatim>\<open>Properties\<close> dictionary, and any further keys (\<^verbatim>\<open>PhysicalResourceId\<close>,
  \<^verbatim>\<open>Condition\<close>, \<^verbatim>\<open>DependsOn\<close>, \<open>\<dots>\<close>), kept as a dictionary of their own.
\<close>

record resource =
  LogicalResourceId :: string
  ResourceType :: string
  Properties :: "val dict option"
  other_keys :: "val dict"

record rstate =
  PreviousResourceStatus :: "string option"
  ResourceStatus :: "string option"

record change =
  rc_Action :: string
  rc_LogicalResourceId :: string
  rc_PhysicalResourceId :: val
  rc_ResourceType :: string
  rc_Replacement :: "string option"
  rc_deployed :: "bool option"

type_synonym ref = nat

record stack =
  stack_name :: string
  status :: string
  metadata_Parameters :: "param list"
  metadata_Capabilities :: val
  metadata_Status :: "string option"
  metadata_ExecutionStatus :: "string option"
  metadata_StatusReason :: "string option"
  template_Parameters :: "tparam dict"
  template_Resources :: "resource dict"
  template_original_Resources :: "resource dict"
  resource_states :: "rstate dict"
  outputs :: "val dict"
  conditions :: "val dict"
  change_sets :: "ref list"
  is_StackChangeSet :: bool
  parent_stack :: ref
  changeset_changes :: "change list"
  time_attributes :: "string list"
  resolved_outputs :: "val list"

type_synonym heap = "ref \<Rightarrow> stack"

text \<open>
  Modelled from the spec: \<^verbatim>\<open>Stack.resources\<close> is a property of the absent
  \<^verbatim>\<open>engine/entities.py\<close>. By section 3 the resources of the template carry the live
  state, a resource enters the stack with an Add and leaves it when a successful Remove
  takes it out of the template; the live resources are the resources of the stack's
  template.
\<close>

definition resources :: "stack \<Rightarrow> resource dict" where
  "resources s = template_Resources s"

section \<open>Stack controller: parameter merging\<close>

text \<open>
  \<open>ssm\<close> stands for \<^verbatim>\<open>resolve_ssm_parameter_value\<close> of \<^verbatim>\<open>engine/entities.py\<close>, an
  external lookup that may fail.
\<close>

definition resolve_param ::
  "(string \<Rightarrow> string option \<Rightarrow> exn + string option) \<Rightarrow> string \<Rightarrow> string option \<Rightarrow>
   string option \<Rightarrow> exn + string option" where
  "resolve_param ssm logical_id param_type default_value =
     (if param_type = Some ''AWS::SSM::Parameter::Value<String>''
      then ssm ''AWS::SSM::Parameter::Value<String>'' default_value
      else Inr None)"

text \<open>The loop over \<^verbatim>\<open>new_stack.template["Parameters"].items()\<close>.\<close>

fun overlay_template_parameters ::
  "(string \<Rightarrow> string option \<Rightarrow> exn + string option) \<Rightarrow> (string \<times> tparam) list \<Rightarrow>
   param dict \<Rightarrow> exn + param dict" where
  "overlay_template_parameters ssm [] parameters = Inr parameters"
| "overlay_template_parameters ssm ((logical_id, value) # rest) parameters =
     (let default = tp_Default value;
          provided_param_value = map_of parameters logical_id;
          pv = (case default of
                  None \<Rightarrow> (case provided_param_value of None \<Rightarrow> PNone | Some p \<Rightarrow> PEntry p)
                | Some d \<Rightarrow> PStr d)
      in case default of
           None \<Rightarrow>
             overlay_template_parameters ssm rest
               (AList.update logical_id (Param logical_id pv None False) parameters)
         | Some d \<Rightarrow>
             (case resolve_param ssm logical_id (tp_Type value) default of
                Inl e \<Rightarrow> Inl e
              | Inr resolved_value \<Rightarrow>
                  overlay_template_parameters ssm rest
                    (AList.update logical_id (Param logical_id pv resolved_value False) parameters)))"

definition update_params :: "param list \<Rightarrow> param dict \<Rightarrow> param dict" where
  "update_params params_list parameters =
     fold (\<lambda>param ps. if \<not> UsePreviousValue param
                       then AList.update (ParameterKey param) param ps else ps)
          params_list parameters"

definition apply_parameter_changes ::
  "(string \<Rightarrow> string option \<Rightarrow> exn + string option) \<Rightarrow> heap \<Rightarrow> ref \<Rightarrow> ref \<Rightarrow> (exn + unit) \<times> heap" where
  "apply_parameter_changes ssm h old_stack new_stack =
     (let parameters = fold (\<lambda>p ps. AList.update (ParameterKey p) p ps)
                            (metadata_Parameters (h old_stack)) []
      in case overlay_template_parameters ssm (template_Parameters (h new_stack)) parameters of
           Inl e \<Rightarrow> (Inl e, h)
         | Inr parameters1 \<Rightarrow>
             (let parameters2 = update_params (metadata_Parameters (h new_stack)) parameters1;
                  parameters3 = fold (\<lambda>change_set ps. update_params (metadata_Parameters (h change_set)) ps)
                                     (change_sets (h new_stack)) parameters2
              in (Inr (), h(old_stack := (h old_stack)\<lparr>metadata_Parameters := map snd parameters3\<rparr>))))"

text \<open>Concrete stacks used to exercise the definitions.\<close>

definition empty_stack :: stack where
  "empty_stack =
     \<lparr>stack_name = ''stack'', status = ''CREATE_COMPLETE'', metadata_Parameters = [],
      metadata_Capabilities = VNull, metadata_Status = None, metadata_ExecutionStatus = None,
      metadata_StatusReason = None, template_Parameters = [], template_Resources = [],
      template_original_Resources = [], resource_states = [], outputs = [],
      conditions = [], change_sets = [], is_StackChangeSet = False, parent_stack = 0,
      changeset_changes = [], time_attributes = [],
      resolved_outputs = []\<rparr>"

definition no_ssm :: "string \<Rightarrow> string option \<Rightarrow> exn + string option" where
  "no_ssm t d = Inr None"

definition params_old_stack :: stack where
  "params_old_stack =
     empty_stack\<lparr>metadata_Parameters :=
       [Param ''Env'' (PStr ''prod'') None False, Param ''Size'' (PStr ''small'') None False]\<rparr>"

definition params_new_stack :: stack where
  "params_new_stack =
     empty_stack\<lparr>template_Parameters :=
       [(''Env'', \<lparr>tp_Type = Some ''String'', tp_Default = Some ''dev''\<rparr>)],
      metadata_Parameters :=
       [Param ''Size'' (PStr ''large'') None False, Param ''Env'' PNone None True]\<rparr>"

definition params_heap :: heap where
  "params_heap r = (if r = 0 then params_old_stack else params_new_stack)"

section \<open>Change planner\<close>

text \<open>
  Python's \<^verbatim>\<open>==\<close> on values: dictionaries are equal when they have the same keys with
  equal values, whatever the order, and \<^verbatim>\<open>True == 1\<close>, \<^verbatim>\<open>False == 0\<close>.
\<close>

fun py_eq :: "val \<Rightarrow> val \<Rightarrow> bool"
  and py_eq_list :: "val list \<Rightarrow> val list \<Rightarrow> bool"
  and py_eq_items :: "(string \<times> val) list \<Rightarrow> (string \<times> val) list \<Rightarrow> bool" where
  "py_eq VNull b = (b = VNull)"
| "py_eq (VBool x) b =
     (case b of VBool y \<Rightarrow> x = y | VInt j \<Rightarrow> (if x then 1 else 0) = j | _ \<Rightarrow> False)"
| "py_eq (VInt i) b =
     (case b of VInt j \<Rightarrow> i = j | VBool y \<Rightarrow> i = (if y then 1 else 0) | _ \<Rightarrow> False)"
| "py_eq (VStr s) b = (b = VStr s)"
| "py_eq (VList xs) b = (case b of VList ys \<Rightarrow> py_eq_list xs ys | _ \<Rightarrow> False)"
| "py_eq (VDict xs) b =
     (case b of
        VDict ys \<Rightarrow> set (map fst xs) = set (map fst ys) \<and> py_eq_items xs ys
      | _ \<Rightarrow> False)"
| "py_eq_list [] ys = (ys = [])"
| "py_eq_list (x # xs) ys =
     (case ys of [] \<Rightarrow> False | y # ys' \<Rightarrow> py_eq x y \<and> py_eq_list xs ys')"
| "py_eq_items [] ys = True"
| "py_eq_items ((k, x) # xs) ys =
     ((case map_of ys k of None \<Rightarrow> False | Some y \<Rightarrow> py_eq x y) \<and> py_eq_items xs ys)"

definition resource_get :: "resource \<Rightarrow> string \<Rightarrow> val" where
  "resource_get resource key =
     (case map_of (other_keys resource) key of None \<Rightarrow> VNull | Some v \<Rightarrow> v)"

definition get_change_config :: "string \<Rightarrow> resource \<Rightarrow> string option \<Rightarrow> change" where
  "get_change_config action resource change_set_id =
     \<lparr>rc_Action = action,
      rc_LogicalResourceId = LogicalResourceId resource,
      rc_PhysicalResourceId = resource_get resource ''PhysicalResourceId'',
      rc_ResourceType = ResourceType resource,
      rc_Replacement = (if action = ''Modify'' then Some ''False'' else None),
      rc_deployed = None\<rparr>"

text \<open>
  Modelled from the spec: \<^verbatim>\<open>Stack.set_stack_status\<close> and \<^verbatim>\<open>Stack.set_resource_status\<close>
  are methods of the absent \<^verbatim>\<open>engine/entities.py\<close>. Per sections 3 and 4.7 the first
  records the stack-level status and the second the status of one resource, keeping the
  status it replaces as the previous one.
\<close>

definition set_stack_status :: "heap \<Rightarrow> ref \<Rightarrow> string \<Rightarrow> heap" where
  "set_stack_status h s st = h(s := (h s)\<lparr>status := st\<rparr>)"

definition set_resource_status :: "heap \<Rightarrow> ref \<Rightarrow> string \<Rightarrow> string \<Rightarrow> heap" where
  "set_resource_status h s resource_id st =
     (let states = resource_states (h s);
          previous = (case map_of states resource_id of None \<Rightarrow> None | Some old \<Rightarrow> ResourceStatus old)
      in h(s := (h s)\<lparr>resource_states :=
             AList.update resource_id
               \<lparr>PreviousResourceStatus = previous, ResourceStatus = Some st\<rparr> states\<rparr>))"

text \<open>
  \<^verbatim>\<open>init_resource_status(resources, action=...)\<close>: an empty (falsy) \<open>resources\<close> argument
  falls back to the deployer's own \<^verbatim>\<open>self.resources\<close>; the stack is \<^verbatim>\<open>self.stack\<close>.
\<close>

definition init_resource_status :: "ref \<Rightarrow> heap \<Rightarrow> resource dict \<Rightarrow> string \<Rightarrow> heap" where
  "init_resource_status self h resources_arg action =
     (let rs = (if resources_arg = [] then resources (h self) else resources_arg)
      in fold (\<lambda>(resource_id, resource) h'.
                 set_resource_status h' self resource_id (action @ ''_IN_PROGRESS''))
              rs h)"

definition previous_state_of :: "rstate option \<Rightarrow> string" where
  "previous_state_of old_status =
     (case old_status of
        None \<Rightarrow> ''''
      | Some st \<Rightarrow>
          (case PreviousResourceStatus st of
             Some (c # cs) \<Rightarrow> c # cs
           | _ \<Rightarrow> (case ResourceStatus st of Some s \<Rightarrow> s | None \<Rightarrow> '''')))"

definition ignored_keys :: "string list" where
  "ignored_keys = [''LogicalResourceId'', ''PhysicalResourceId'']"

definition resource_config_differs :: "ref \<Rightarrow> heap \<Rightarrow> resource \<Rightarrow> exn + bool" where
  "resource_config_differs self h resource_new =
     (let resource_id = LogicalResourceId resource_new
      in case map_of (resources (h self)) resource_id of
           None \<Rightarrow> Inl (Raise KeyError resource_id)
         | Some resource_old \<Rightarrow>
             (case Properties resource_old of
                None \<Rightarrow> Inl (Raise KeyError ''Properties'')
              | Some props_old \<Rightarrow>
                  (case Properties resource_new of
                     None \<Rightarrow> Inl (Raise KeyError ''Properties'')
                   | Some props_new \<Rightarrow>
                       (let old_keys = filter (\<lambda>k. k \<notin> set ignored_keys) (map fst props_old);
                            new_keys = filter (\<lambda>k. k \<notin> set ignored_keys) (map fst props_new)
                        in if set old_keys \<noteq> set new_keys then Inr True
                           else if list_ex (\<lambda>key.
                                     case (map_of props_old key, map_of props_new key) of
                                       (Some a, Some b) \<Rightarrow> \<not> py_eq a b
                                     | _ \<Rightarrow> True) old_keys
                           then Inr True
                           else (let old_status = map_of (resource_states (h self)) resource_id;
                                     previous_state = previous_state_of old_status
                                 in if old_status \<noteq> None \<and> sublist ''DELETE'' previous_state
                                    then Inr True else Inr False)))))"

text \<open>
  \<^verbatim>\<open>merge_properties\<close>. The merged old resource is stored before the properties of the
  new resource are read, as in the source, where both may be the same object.
\<close>

definition merge_other_keys :: "val dict \<Rightarrow> val dict \<Rightarrow> val dict" where
  "merge_other_keys new_keys old_keys =
     fold (\<lambda>(key, value) d. if key \<in> set (map fst d) then d else AList.update key value d)
          new_keys old_keys"

definition merge_properties :: "string \<Rightarrow> heap \<Rightarrow> ref \<Rightarrow> ref \<Rightarrow> (exn + unit) \<times> heap" where
  "merge_properties resource_id h old_stack new_stack =
     (case map_of (template_Resources (h new_stack)) resource_id of
        None \<Rightarrow> (Inl (Raise KeyError resource_id), h)
      | Some new_resource \<Rightarrow>
          (let old_resource0 =
                 (case map_of (template_Resources (h old_stack)) resource_id of
                    None \<Rightarrow> new_resource\<lparr>Properties := None, other_keys := []\<rparr>
                  | Some r \<Rightarrow> r);
               old_resource1 = old_resource0
                 \<lparr>other_keys := merge_other_keys (other_keys new_resource) (other_keys old_resource0),
                  Properties := Some (case Properties old_resource0 of None \<Rightarrow> [] | Some p \<Rightarrow> p)\<rparr>;
               h1 = h(old_stack := (h old_stack)\<lparr>template_Resources :=
                        AList.update resource_id old_resource1 (template_Resources (h old_stack))\<rparr>)
           in case map_of (template_Resources (h1 new_stack)) resource_id of
                None \<Rightarrow> (Inl (Raise KeyError resource_id), h1)
              | Some new_resource1 \<Rightarrow>
                  (case Properties new_resource1 of
                     None \<Rightarrow> (Inl (Raise KeyError ''Properties''), h1)
                   | Some new_props \<Rightarrow>
                       (let old_res_props =
                              fold (\<lambda>(key, value) d. AList.update key value d) new_props
                                   (case Properties old_resource1 of None \<Rightarrow> [] | Some p \<Rightarrow> p);
                            old_resource2 = old_resource1\<lparr>Properties := Some old_res_props\<rparr>;
                            h2 = h1(old_stack := (h1 old_stack)\<lparr>template_Resources :=
                                   AList.update resource_id old_resource2
                                     (template_Resources (h1 old_stack))\<rparr>)
                        in case map_of (template_original_Resources (h2 new_stack)) resource_id of
                             None \<Rightarrow> (Inl (Raise KeyError resource_id), h2)
                           | Some original \<Rightarrow>
                               (Inr (), h2(old_stack := (h2 old_stack)\<lparr>template_original_Resources :=
                                          AList.update resource_id original
                                            (template_original_Resources (h2 old_stack))\<rparr>))))))"

text \<open>
  \<^verbatim>\<open>construct_changes\<close>. The three comprehensions are taken first; then the items are
  visited in the order Remove, Add, Modify. Visiting an item gives it an empty
  \<^verbatim>\<open>Properties\<close> dictionary if it has none; the item is an object of the template that
  owns it, so the change is written back there.
\<close>

definition with_default_properties :: "resource \<Rightarrow> resource" where
  "with_default_properties item =
     item\<lparr>Properties := Some (case Properties item of None \<Rightarrow> [] | Some p \<Rightarrow> p)\<rparr>"

fun construct_changes_loop ::
  "ref \<Rightarrow> bool \<Rightarrow> string option \<Rightarrow> (string \<times> ref \<times> string \<times> resource) list \<Rightarrow> heap \<Rightarrow>
   change list \<Rightarrow> (exn + change list) \<times> heap" where
  "construct_changes_loop self filter_unchanged_resources change_set_id [] h changes =
     (Inr changes, h)"
| "construct_changes_loop self filter_unchanged_resources change_set_id
       ((action, owner, key, item) # rest) h changes =
     (let item' = with_default_properties item;
          h1 = h(owner := (h owner)\<lparr>template_Resources :=
                   AList.update key item' (template_Resources (h owner))\<rparr>)
      in if \<not> filter_unchanged_resources \<or> action \<noteq> ''Modify''
         then construct_changes_loop self filter_unchanged_resources change_set_id rest h1
                (changes @ [get_change_config action item' change_set_id])
         else (case resource_config_differs self h1 item' of
                 Inl e \<Rightarrow> (Inl e, h1)
               | Inr differs \<Rightarrow>
                   construct_changes_loop self filter_unchanged_resources change_set_id rest h1
                     (if differs then changes @ [get_change_config action item' change_set_id]
                      else changes)))"

definition construct_changes ::
  "ref \<Rightarrow> heap \<Rightarrow> ref \<Rightarrow> ref \<Rightarrow> bool \<Rightarrow> string option \<Rightarrow> bool \<Rightarrow> bool \<Rightarrow>
   (exn + change list) \<times> heap" where
  "construct_changes self h existing_stack new_stack initialize change_set_id
       append_to_changeset filter_unchanged_resources =
     (let old_resources = template_Resources (h existing_stack);
          new_resources = template_Resources (h new_stack);
          deletes = filter (\<lambda>(key, val). key \<notin> set (map fst new_resources)) old_resources;
          adds = filter (\<lambda>(key, val). initialize \<or> key \<notin> set (map fst old_resources)) new_resources;
          modifies = filter (\<lambda>(key, val). \<not> initialize \<and> key \<in> set (map fst old_resources))
                            new_resources;
          items = map (\<lambda>(key, val). (''Remove'', existing_stack, key, val)) deletes @
                  map (\<lambda>(key, val). (''Add'', new_stack, key, val)) adds @
                  map (\<lambda>(key, val). (''Modify'', new_stack, key, val)) modifies
      in case construct_changes_loop self filter_unchanged_resources change_set_id items h [] of
           (Inl e, h1) \<Rightarrow> (Inl e, h1)
         | (Inr changes, h1) \<Rightarrow>
             if append_to_changeset \<and> is_StackChangeSet (h1 new_stack)
             then (Inr changes,
                   h1(new_stack := (h1 new_stack)\<lparr>changeset_changes :=
                          changeset_changes (h1 new_stack) @ changes\<rparr>))
             else (Inr changes, h1))"

text \<open>Two templates for exercising the planner: the old one holds \<open>A\<close> and \<open>B\<close>, the new one \<open>B\<close> and \<open>C\<close>.\<close>

definition res :: "string \<Rightarrow> string \<Rightarrow> val dict \<Rightarrow> resource" where
  "res logical_id type props =
     \<lparr>LogicalResourceId = logical_id, ResourceType = type, Properties = Some props, other_keys = []\<rparr>"

definition plan_old_stack :: stack where
  "plan_old_stack =
     empty_stack\<lparr>template_Resources :=
         [(''A'', res ''A'' ''AWS::SNS::Topic'' []),
          (''B'', res ''B'' ''AWS::SQS::Queue'' [(''QueueName'', VStr ''q'')])],
       template_original_Resources :=
         [(''A'', res ''A'' ''AWS::SNS::Topic'' []),
          (''B'', res ''B'' ''AWS::SQS::Queue'' [(''QueueName'', VStr ''q'')])]\<rparr>"

definition plan_new_stack :: stack where
  "plan_new_stack =
     empty_stack\<lparr>template_Resources :=
         [(''B'', res ''B'' ''AWS::SQS::Queue'' [(''QueueName'', VStr ''q'')]),
          (''C'', res ''C'' ''AWS::S3::Bucket'' [])],
       template_original_Resources :=
         [(''B'', res ''B'' ''AWS::SQS::Queue'' [(''QueueName'', VStr ''q'')]),
          (''C'', res ''C'' ''AWS::S3::Bucket'' [])]\<rparr>"

definition plan_heap :: heap where
  "plan_heap r = (if r = 0 then plan_old_stack else plan_new_stack)"

section \<open>Deployment loop\<close>

text \<open>
  The world of a deployment is the store of stack objects together with the state \<open>ext\<close>
  of everything outside the engine (the emulated services). The loop reaches the
  intrinsic evaluator, the resource providers and the service clients through the
  operations below; each may change the world and may raise. The loop, 
  \<^verbatim>\<open>prepare_should_deploy_change\<close> and \<^verbatim>\<open>apply_change\<close> are verified for every behaviour
  of these operations. \<^verbatim>\<open>get_action_name_for_resource_change\<close> belongs to the absent
  \<^verbatim>\<open>deployment_utils\<close>.
\<close>

record 'x world =
  heap :: heap
  ext :: 'x

record 'x ops =
  add_default_resource_props :: "ref \<Rightarrow> string \<Rightarrow> 'x world \<Rightarrow> (exn + unit) \<times> 'x world"
  evaluate_resource_condition :: "ref \<Rightarrow> string \<Rightarrow> 'x world \<Rightarrow> (exn + bool) \<times> 'x world"
  resolve_resource_refs :: "ref \<Rightarrow> string \<Rightarrow> 'x world \<Rightarrow> (exn + unit) \<times> 'x world"
  is_deployable_resource :: "ref \<Rightarrow> string \<Rightarrow> 'x world \<Rightarrow> bool"
  is_deployed :: "ref \<Rightarrow> string \<Rightarrow> 'x world \<Rightarrow> (exn + bool) \<times> 'x world"
  is_updateable :: "ref \<Rightarrow> string \<Rightarrow> 'x world \<Rightarrow> (exn + bool) \<times> 'x world"
  all_resource_dependencies_satisfied :: "ref \<Rightarrow> string \<Rightarrow> 'x world \<Rightarrow> (exn + bool) \<times> 'x world"
  execute_resource_action :: "ref \<Rightarrow> string \<Rightarrow> string \<Rightarrow> 'x world \<Rightarrow> (exn + val) \<times> 'x world"
  update_resource :: "ref \<Rightarrow> string \<Rightarrow> 'x world \<Rightarrow> (exn + val) \<times> 'x world"
  update_resource_details :: "ref \<Rightarrow> string \<Rightarrow> val \<Rightarrow> string \<Rightarrow> 'x world \<Rightarrow> (exn + val) \<times> 'x world"
  get_action_name_for_resource_change :: "string \<Rightarrow> string"
  resolve_outputs :: "ref \<Rightarrow> 'x world \<Rightarrow> (exn + val list) \<times> 'x world"

definition ACTION_CREATE :: string where "ACTION_CREATE = ''create''"
definition ACTION_DELETE :: string where "ACTION_DELETE = ''delete''"

text \<open>
  \<^verbatim>\<open>prepare_should_deploy_change\<close> returns \<^verbatim>\<open>None\<close>, \<^verbatim>\<open>False\<close> or \<^verbatim>\<open>True\<close>; its callers
  only test the truth value, so \<^verbatim>\<open>None\<close> is \<^const>\<open>False\<close> here. The change is a
  dictionary of the change list: writing \<^verbatim>\<open>_deployed\<close> changes the list entry, so the
  updated change is returned with the result.
\<close>

definition prepare_should_deploy_change ::
  "'x ops \<Rightarrow> ref \<Rightarrow> string \<Rightarrow> change \<Rightarrow> ref \<Rightarrow> 'x world \<Rightarrow> (exn + bool) \<times> change \<times> 'x world" where
  "prepare_should_deploy_change ops self resource_id change stack w =
     (case map_of (resources (heap w stack)) resource_id of
        None \<Rightarrow> (Inl (Raise KeyError resource_id), change, w)
      | Some resource \<Rightarrow>
          (let action = rc_Action change
           in case evaluate_resource_condition ops stack resource_id w of
                (Inl e, w1) \<Rightarrow> (Inl e, change, w1)
              | (Inr False, w1) \<Rightarrow> (Inr False, change, w1)
              | (Inr True, w1) \<Rightarrow>
                  (case resolve_resource_refs ops stack resource_id w1 of
                     (Inl e, w2) \<Rightarrow> (Inl e, change, w2)
                   | (Inr u, w2) \<Rightarrow>
                       if action \<in> set [''Add'', ''Modify''] then
                         if action = ''Add'' \<and> \<not> is_deployable_resource ops stack resource_id w2
                         then (Inr False, change, w2)
                         else
                           (case is_deployed ops self resource_id w2 of
                              (Inl e, w3) \<Rightarrow> (Inl e, change, w3)
                            | (Inr deployed, w3) \<Rightarrow>
                                (let change' = change\<lparr>rc_deployed := Some deployed\<rparr>
                                 in if \<not> deployed then (Inr True, change', w3)
                                    else if action = ''Add'' then (Inr False, change', w3)
                                    else if action = ''Modify'' then
                                      (case is_updateable ops self resource_id w3 of
                                         (Inl e, w4) \<Rightarrow> (Inl e, change', w4)
                                       | (Inr updateable, w4) \<Rightarrow>
                                           if \<not> updateable then (Inr False, change', w4)
                                           else (Inr True, change', w4))
                                    else (Inr True, change', w3)))
                       else if action = ''Remove'' then
                         (Inr (is_deployable_resource ops stack resource_id w2), change, w2)
                       else (Inr True, change, w2))))"

text \<open>
  \<^verbatim>\<open>apply_change\<close>. \<^verbatim>\<open>change_details.pop("_deployed", None)\<close> removes the cached flag
  from the change; \<^verbatim>\<open>is_deployed is False\<close> holds only for the flag \<^verbatim>\<open>False\<close>, not for
  a missing one.
\<close>

definition apply_change ::
  "'x ops \<Rightarrow> ref \<Rightarrow> change \<Rightarrow> ref \<Rightarrow> 'x world \<Rightarrow> (exn + val) \<times> change \<times> 'x world" where
  "apply_change ops self change stack w =
     (let action = rc_Action change;
          resource_id = rc_LogicalResourceId change
      in case map_of (resources (heap w stack)) resource_id of
           None \<Rightarrow> (Inl (Raise KeyError resource_id), change, w)
         | Some resource \<Rightarrow>
             (let is_deployed = rc_deployed change;
                  change' = change\<lparr>rc_deployed := None\<rparr>
              in case evaluate_resource_condition ops stack resource_id w of
                   (Inl e, w1) \<Rightarrow> (Inl e, change', w1)
                 | (Inr False, w1) \<Rightarrow> (Inr VNull, change', w1)
                 | (Inr True, w1) \<Rightarrow>
                     (case (if action = ''Add'' \<or> is_deployed = Some False
                            then execute_resource_action ops self resource_id ACTION_CREATE w1
                            else if action = ''Remove''
                            then execute_resource_action ops self resource_id ACTION_DELETE w1
                            else if action = ''Modify''
                            then update_resource ops stack resource_id w1
                            else (Inr VNull, w1)) of
                        (Inl e, w2) \<Rightarrow> (Inl e, change', w2)
                      | (Inr result, w2) \<Rightarrow>
                          (let stack_action = get_action_name_for_resource_change ops action
                           in case update_resource_details ops stack resource_id result stack_action w2 of
                                (Inl e, w3) \<Rightarrow> (Inl e, change', w3)
                              | (Inr physical_id, w3) \<Rightarrow> (Inr result, change', w3)))))"

text \<open>
  The body of the inner \<^verbatim>\<open>while\<close> loop for the change at index \<open>j\<close>: the change is
  dropped from the list, postponed (\<open>j\<close> advances: its dependencies are not satisfied or
  \<^verbatim>\<open>DependencyNotYetSatisfied\<close> was raised), applied, or another exception leaves the
  loop.
\<close>

datatype step = Dropped | Postponed | Applied | Failed exn

definition on_exception :: "exn \<Rightarrow> step" where
  "on_exception e =
     (case e of Raise DependencyNotYetSatisfied msg \<Rightarrow> Postponed | _ \<Rightarrow> Failed e)"

definition apply_step ::
  "'x ops \<Rightarrow> ref \<Rightarrow> change \<Rightarrow> ref \<Rightarrow> 'x world \<Rightarrow> step \<times> change \<times> 'x world" where
  "apply_step ops self change stack w =
     (case apply_change ops self change stack w of
        (Inl e, change', w') \<Rightarrow> (on_exception e, change', w')
      | (Inr result, change', w') \<Rightarrow> (Applied, change', w'))"

definition loop_body ::
  "'x ops \<Rightarrow> ref \<Rightarrow> ref \<Rightarrow> change \<Rightarrow> 'x world \<Rightarrow> step \<times> change \<times> 'x world" where
  "loop_body ops self stack change w =
     (let action = rc_Action change;
          is_add_or_modify = action \<in> set [''Add'', ''Modify''];
          resource_id = rc_LogicalResourceId change
      in if is_add_or_modify then
           (case map_of (resources (heap w stack)) resource_id of
              None \<Rightarrow> (Failed (Raise KeyError resource_id), change, w)
            | Some resource \<Rightarrow>
                (case prepare_should_deploy_change ops self resource_id change stack w of
                   (Inl e, change1, w1) \<Rightarrow> (on_exception e, change1, w1)
                 | (Inr should_deploy, change1, w1) \<Rightarrow>
                     if \<not> should_deploy then
                       (let stack_action = get_action_name_for_resource_change ops action
                        in (Dropped, change1,
                            w1\<lparr>heap := set_resource_status (heap w1) stack resource_id
                                          (stack_action @ ''_COMPLETE'')\<rparr>))
                     else
                       (case all_resource_dependencies_satisfied ops self resource_id w1 of
                          (Inl e, w2) \<Rightarrow> (on_exception e, change1, w2)
                        | (Inr False, w2) \<Rightarrow> (Postponed, change1, w2)
                        | (Inr True, w2) \<Rightarrow> apply_step ops self change1 stack w2)))
         else if action = ''Remove'' then
           (case prepare_should_deploy_change ops self resource_id change stack w of
              (Inl e, change1, w1) \<Rightarrow> (on_exception e, change1, w1)
            | (Inr should_remove, change1, w1) \<Rightarrow>
                if \<not> should_remove then (Dropped, change1, w1)
                else apply_step ops self change1 stack w1)
         else apply_step ops self change stack w)"

text \<open>
  The inner \<^verbatim>\<open>while j < len(changes)\<close> loop. \<open>n\<close> counts its iterations; it is not a
  variable of the source.
\<close>

record 'x pass_result =
  raised :: "exn option"
  pass_changes :: "change list"
  pass_changes_done :: "change list"
  pass_updated :: bool
  pass_steps :: nat
  pass_world :: "'x world"

function pass_loop ::
  "'x ops \<Rightarrow> ref \<Rightarrow> ref \<Rightarrow> nat \<Rightarrow> change list \<Rightarrow> change list \<Rightarrow> bool \<Rightarrow> nat \<Rightarrow> 'x world \<Rightarrow>
   'x pass_result" where
  "pass_loop ops self stack j changes changes_done updated n w =
     (if j < length changes then
        (case loop_body ops self stack (changes ! j) w of
           (Dropped, change', w') \<Rightarrow>
             pass_loop ops self stack j (take j changes @ drop (Suc j) changes)
               changes_done updated (Suc n) w'
         | (Postponed, change', w') \<Rightarrow>
             pass_loop ops self stack (Suc j) (changes[j := change'])
               changes_done updated (Suc n) w'
         | (Applied, change', w') \<Rightarrow>
             pass_loop ops self stack j (take j changes @ drop (Suc j) changes)
               (changes_done @ [change']) True (Suc n) w'
         | (Failed e, change', w') \<Rightarrow>
             \<lparr>raised = Some e, pass_changes = changes[j := change'],
              pass_changes_done = changes_done, pass_updated = updated,
              pass_steps = Suc n, pass_world = w'\<rparr>)
      else
        \<lparr>raised = None, pass_changes = changes, pass_changes_done = changes_done,
         pass_updated = updated, pass_steps = n, pass_world = w\<rparr>)"
  by pat_completeness auto
termination
  by (relation "measure (\<lambda>(ops, self, stack, j, changes, changes_done, updated, n, w).
                           length changes - j)") auto

text \<open>
  The outer \<^verbatim>\<open>for i in range(max_iters)\<close> loop from iteration \<open>i\<close> on. The result holds
  the exception that left the loop, if any, the pending and the applied changes, and two
  counters that are not variables of the source: the passes and the inner iterations run.
\<close>

definition max_iters :: nat where "max_iters = 30"

record 'x loop_result =
  loop_raised :: "exn option"
  pending :: "change list"
  changes_done :: "change list"
  passes :: nat
  steps :: nat
  loop_world :: "'x world"

function deployment_loop ::
  "'x ops \<Rightarrow> ref \<Rightarrow> ref \<Rightarrow> nat \<Rightarrow> change list \<Rightarrow> change list \<Rightarrow> nat \<Rightarrow> 'x world \<Rightarrow>
   'x loop_result" where
  "deployment_loop ops self stack i changes done n w =
     (if i < max_iters then
        (let p = pass_loop ops self stack 0 changes done False n w
         in case raised p of
              Some e \<Rightarrow>
                \<lparr>loop_raised = Some e, pending = pass_changes p,
                 changes_done = pass_changes_done p, passes = Suc i,
                 steps = pass_steps p, loop_world = pass_world p\<rparr>
            | None \<Rightarrow>
                if pass_changes p = [] then
                  \<lparr>loop_raised = None, pending = [], changes_done = pass_changes_done p,
                   passes = Suc i, steps = pass_steps p, loop_world = pass_world p\<rparr>
                else if \<not> pass_updated p then
                  \<lparr>loop_raised = Some (Raise Exception
                      ''Resource deployment loop completed, pending resource changes''),
                   pending = pass_changes p, changes_done = pass_changes_done p,
                   passes = Suc i, steps = pass_steps p, loop_world = pass_world p\<rparr>
                else deployment_loop ops self stack (Suc i) (pass_changes p)
                       (pass_changes_done p) (pass_steps p) (pass_world p))
      else
        \<lparr>loop_raised = None, pending = changes, changes_done = done, passes = i,
         steps = n, loop_world = w\<rparr>)"
  by pat_completeness auto
termination
  by (relation "measure (\<lambda>(ops, self, stack, i, changes, done, n, w). max_iters - i)") auto

text \<open>The loop over \<^verbatim>\<open>new_resources.items()\<close> that applies the default properties.\<close>

fun apply_defaults :: "'x ops \<Rightarrow> ref \<Rightarrow> string list \<Rightarrow> 'x world \<Rightarrow> (exn + unit) \<times> 'x world" where
  "apply_defaults ops stack [] w = (Inr (), w)"
| "apply_defaults ops stack (resource_id # rest) w =
     (case add_default_resource_props ops stack resource_id w of
        (Inl e, w') \<Rightarrow> (Inl e, w')
      | (Inr u, w') \<Rightarrow> apply_defaults ops stack rest w')"

definition pop_deleted :: "change list \<Rightarrow> resource dict \<Rightarrow> resource dict" where
  "pop_deleted deletes template_resources =
     fold (\<lambda>delete rs. AList.delete (rc_LogicalResourceId delete) rs) deletes template_resources"

definition do_apply_changes_in_loop ::
  "'x ops \<Rightarrow> ref \<Rightarrow> change list \<Rightarrow> ref \<Rightarrow> 'x world \<Rightarrow> 'x loop_result" where
  "do_apply_changes_in_loop ops self changes stack w =
     (case apply_defaults ops stack (map fst (resources (heap w stack))) w of
        (Inl e, w0) \<Rightarrow>
          \<lparr>loop_raised = Some e, pending = changes, changes_done = [], passes = 0, steps = 0,
           loop_world = w0\<rparr>
      | (Inr u, w0) \<Rightarrow>
          (let r = deployment_loop ops self stack 0 changes [] 0 w0
           in case loop_raised r of
                Some e \<Rightarrow> r
              | None \<Rightarrow>
                  (let deletes = filter (\<lambda>c. rc_Action c = ''Remove'') (changes_done r);
                       w1 = loop_world r;
                       w2 = w1\<lparr>heap := (heap w1)(stack := (heap w1 stack)
                              \<lparr>template_Resources :=
                                 pop_deleted deletes (template_Resources (heap w1 stack))\<rparr>)\<rparr>
                   in case resolve_outputs ops stack w2 of
                        (Inl e, w3) \<Rightarrow> r\<lparr>loop_raised := Some e, loop_world := w3\<rparr>
                      | (Inr outs, w3) \<Rightarrow>
                          r\<lparr>loop_world := w3\<lparr>heap := (heap w3)(stack := (heap w3 stack)
                                \<lparr>resolved_outputs := outs\<rparr>)\<rparr>\<rparr>)))"

text \<open>
  A world for exercising the loop: the external state is the log of the resource actions
  carried out. A resource counts as deployed once its \<^verbatim>\<open>create\<close> is in the log, and
  resource \<open>B\<close> depends on resource \<open>A\<close>.
\<close>

definition log_ops :: "string list ops" where
  "log_ops =
     \<lparr>add_default_resource_props = (\<lambda>stack resource_id w. (Inr (), w)),
      evaluate_resource_condition = (\<lambda>stack resource_id w. (Inr True, w)),
      resolve_resource_refs = (\<lambda>stack resource_id w. (Inr (), w)),
      is_deployable_resource = (\<lambda>stack resource_id w. True),
      is_deployed = (\<lambda>self resource_id w. (Inr ((''create '' @ resource_id) \<in> set (ext w)), w)),
      is_updateable = (\<lambda>self resource_id w. (Inr True, w)),
      all_resource_dependencies_satisfied =
        (\<lambda>self resource_id w. (Inr (resource_id = ''B'' \<longrightarrow> ''create A'' \<in> set (ext w)), w)),
      execute_resource_action =
        (\<lambda>self resource_id action_name w.
           (Inr VNull, w\<lparr>ext := ext w @ [action_name @ '' '' @ resource_id]\<rparr>)),
      update_resource =
        (\<lambda>stack resource_id w. (Inr VNull, w\<lparr>ext := ext w @ [''update '' @ resource_id]\<rparr>)),
      update_resource_details =
        (\<lambda>stack resource_id result action w.
           (Inr VNull,
            w\<lparr>heap := set_resource_status (heap w) stack resource_id (action @ ''_COMPLETE'')\<rparr>)),
      get_action_name_for_resource_change =
        (\<lambda>a. if a = ''Add'' then ''CREATE'' else if a = ''Remove'' then ''DELETE''
             else if a = ''Modify'' then ''UPDATE'' else ''None''),
      resolve_outputs = (\<lambda>stack w. (Inr [], w))\<rparr>"

definition loop_stack :: stack where
  "loop_stack =
     empty_stack\<lparr>status := ''CREATE_IN_PROGRESS'',
       template_Resources :=
         [(''A'', res ''A'' ''AWS::SNS::Topic'' []), (''B'', res ''B'' ''AWS::SQS::Queue'' [])],
       template_original_Resources :=
         [(''A'', res ''A'' ''AWS::SNS::Topic'' []), (''B'', res ''B'' ''AWS::SQS::Queue'' [])]\<rparr>"

definition loop_world0 :: "string list world" where
  "loop_world0 = \<lparr>heap = (\<lambda>r. loop_stack), ext = []\<rparr>"

definition add_change :: "string \<Rightarrow> string \<Rightarrow> change" where
  "add_change logical_id type = get_change_config ''Add'' (res logical_id type []) None"

definition modify_change :: "string \<Rightarrow> string \<Rightarrow> change" where
  "modify_change logical_id type = get_change_config ''Modify'' (res logical_id type []) None"

text \<open>\<open>B\<close> is queued before \<open>A\<close>, on which it depends.\<close>

definition loop_run_example :: "string list loop_result" where
  "loop_run_example =
     do_apply_changes_in_loop log_ops 0
       [add_change ''B'' ''AWS::SQS::Queue'', add_change ''A'' ''AWS::SNS::Topic''] 0 loop_world0"

text \<open>Only \<open>B\<close> is queued, and \<open>A\<close> is never created.\<close>

definition loop_stuck_example :: "string list loop_result" where
  "loop_stuck_example =
     do_apply_changes_in_loop log_ops 0 [add_change ''B'' ''AWS::SQS::Queue''] 0 loop_world0"

text \<open>
  Operations that also log the look-ups of \<^verbatim>\<open>prepare_should_deploy_change\<close>: the
  resolution of the references of a resource and the fetch of its deployed state, which
  \<^verbatim>\<open>is_deployed\<close> makes through \<^verbatim>\<open>retrieve_resource_details\<close>.
\<close>

definition probe_ops :: "string list ops" where
  "probe_ops =
     log_ops\<lparr>resolve_resource_refs :=
       (\<lambda>stack resource_id w. (Inr (), w\<lparr>ext := ext w @ [''resolve_refs '' @ resource_id]\<rparr>)),
      is_deployed :=
       (\<lambda>self resource_id w.
          (Inr ((''create '' @ resource_id) \<in> set (ext w)),
           w\<lparr>ext := ext w @ [''fetch_state '' @ resource_id]\<rparr>))\<rparr>"

section \<open>Stack controller\<close>

text \<open>
  \<^verbatim>\<open>apply_changes_in_loop\<close> hands the function \<^verbatim>\<open>_run\<close> to a worker thread. The model
  runs \<^verbatim>\<open>_run\<close> to its end: it describes the state once the worker has finished. \<^verbatim>\<open>_run\<close>
  catches every exception of the deployment loop, so the call returns normally.
\<close>

definition apply_changes_in_loop ::
  "'x ops \<Rightarrow> ref \<Rightarrow> change list \<Rightarrow> ref \<Rightarrow> string \<Rightarrow> ref \<Rightarrow> 'x world \<Rightarrow> (exn + unit) \<times> 'x world" where
  "apply_changes_in_loop ops self changes stack action new_stack w =
     (let r = do_apply_changes_in_loop ops self changes stack w;
          st = (case loop_raised r of None \<Rightarrow> action @ ''_COMPLETE''
                | Some e \<Rightarrow> action @ ''_FAILED'');
          w1 = loop_world r;
          h1 = set_stack_status (heap w1) stack st;
          h2 = (if is_StackChangeSet (h1 new_stack) then
                  h1(new_stack := (h1 new_stack)
                       \<lparr>metadata_Status := Some st,
                        metadata_ExecutionStatus :=
                          Some (if sublist ''FAILED'' st then ''EXECUTE_FAILED'' else ''EXECUTE_COMPLETE''),
                        metadata_StatusReason :=
                          Some (''Deployment '' @ (if sublist ''FAILED'' st then ''failed'' else ''succeeded''))\<rparr>)
                else h1)
      in (Inr (), w1\<lparr>heap := h2\<rparr>))"

text \<open>
  The loop of \<^verbatim>\<open>apply_changes\<close> that looks for actual changes and merges the properties
  of added and modified resources into the existing stack.
\<close>

fun check_and_merge ::
  "ref \<Rightarrow> ref \<Rightarrow> ref \<Rightarrow> change list \<Rightarrow> heap \<Rightarrow> bool \<Rightarrow> (exn + bool) \<times> heap" where
  "check_and_merge self existing_stack new_stack [] h contains_changes = (Inr contains_changes, h)"
| "check_and_merge self existing_stack new_stack (change # rest) h contains_changes =
     (let res_action = rc_Action change;
          resource = map_of (template_Resources (h new_stack)) (rc_LogicalResourceId change)
      in case (if res_action \<noteq> ''Modify'' then Inr True
               else (case resource of
                       None \<Rightarrow> Inl (Raise TypeError ''NoneType object is not subscriptable'')
                     | Some r \<Rightarrow> resource_config_differs self h r)) of
           Inl e \<Rightarrow> (Inl e, h)
         | Inr differs \<Rightarrow>
             (let contains_changes' = (contains_changes \<or> differs)
              in if res_action \<in> set [''Modify'', ''Add''] then
                   (case resource of
                      None \<Rightarrow> (Inl (Raise TypeError ''NoneType object is not subscriptable''), h)
                    | Some r \<Rightarrow>
                        (case merge_properties (LogicalResourceId r) h existing_stack new_stack of
                           (Inl e, h') \<Rightarrow> (Inl e, h')
                         | (Inr u, h') \<Rightarrow>
                             check_and_merge self existing_stack new_stack rest h' contains_changes'))
                 else check_and_merge self existing_stack new_stack rest h contains_changes'))"

definition dict_update :: "'v dict \<Rightarrow> 'v dict \<Rightarrow> 'v dict" where
  "dict_update d other = fold (\<lambda>(key, value) acc. AList.update key value acc) other d"

text \<open>
  The part of \<^verbatim>\<open>apply_changes\<close> before the deployment loop starts: it yields the changes
  to apply, or raises.
\<close>

definition plan_changes ::
  "(string \<Rightarrow> string option \<Rightarrow> exn + string option) \<Rightarrow> ref \<Rightarrow> ref \<Rightarrow> ref \<Rightarrow> string option \<Rightarrow>
   bool \<Rightarrow> heap \<Rightarrow> (exn + change list) \<times> heap" where
  "plan_changes ssm self existing_stack new_stack change_set_id initialize h =
     (let old_resources = template_Resources (h existing_stack);
          h1 = init_resource_status self h old_resources ''UPDATE''
      in case apply_parameter_changes ssm h1 existing_stack new_stack of
           (Inl e, h2) \<Rightarrow> (Inl e, h2)
         | (Inr u, h2) \<Rightarrow>
             (case construct_changes self h2 existing_stack new_stack initialize change_set_id
                     False False of
                (Inl e, h3) \<Rightarrow> (Inl e, h3)
              | (Inr changes, h3) \<Rightarrow>
                  (case check_and_merge self existing_stack new_stack changes h3 False of
                     (Inl e, h4) \<Rightarrow> (Inl e, h4)
                   | (Inr contains_changes, h4) \<Rightarrow>
                       if \<not> contains_changes
                       then (Inl (Raise NoStackUpdates ''No updates are to be performed.''), h4)
                       else
                         (Inr changes,
                          h4(existing_stack := (h4 existing_stack)
                               \<lparr>outputs := dict_update (outputs (h4 existing_stack))
                                             (outputs (h4 new_stack)),
                                conditions := dict_update (conditions (h4 existing_stack))
                                                (conditions (h4 new_stack))\<rparr>)))))"

definition apply_changes ::
  "'x ops \<Rightarrow> (string \<Rightarrow> string option \<Rightarrow> exn + string option) \<Rightarrow> ref \<Rightarrow> ref \<Rightarrow> ref \<Rightarrow>
   string option \<Rightarrow> bool \<Rightarrow> string option \<Rightarrow> 'x world \<Rightarrow> (exn + unit) \<times> 'x world" where
  "apply_changes ops ssm self existing_stack new_stack change_set_id initialize action w =
     (let action' = (case action of None \<Rightarrow> ''CREATE'' | Some a \<Rightarrow> if a = [] then ''CREATE'' else a)
      in case plan_changes ssm self existing_stack new_stack change_set_id initialize (heap w) of
           (Inl e, h') \<Rightarrow> (Inl e, w\<lparr>heap := h'\<rparr>)
         | (Inr changes, h') \<Rightarrow>
             apply_changes_in_loop ops self changes existing_stack action' new_stack
               (w\<lparr>heap := h'\<rparr>))"

definition deploy_stack ::
  "'x ops \<Rightarrow> (string \<Rightarrow> string option \<Rightarrow> exn + string option) \<Rightarrow> ref \<Rightarrow> 'x world \<Rightarrow>
   (exn + unit) \<times> 'x world" where
  "deploy_stack ops ssm self w =
     (let w1 = w\<lparr>heap := set_stack_status (heap w) self ''CREATE_IN_PROGRESS''\<rparr>
      in case apply_changes ops ssm self self self None True (Some ''CREATE'') w1 of
           (Inl e, w2) \<Rightarrow> (Inl e, w2\<lparr>heap := set_stack_status (heap w2) self ''CREATE_FAILED''\<rparr>)
         | (Inr u, w2) \<Rightarrow> (Inr (), w2))"

definition apply_change_set ::
  "'x ops \<Rightarrow> (string \<Rightarrow> string option \<Rightarrow> exn + string option) \<Rightarrow> ref \<Rightarrow> ref \<Rightarrow> 'x world \<Rightarrow>
   (exn + unit) \<times> 'x world" where
  "apply_change_set ops ssm self change_set w =
     (let cs_stack = parent_stack (heap w change_set);
          action = (if status (heap w cs_stack) \<in> set [''CREATE_COMPLETE'', ''UPDATE_COMPLETE'']
                    then ''UPDATE'' else ''CREATE'');
          h1 = set_stack_status (heap w) cs_stack (action @ ''_IN_PROGRESS'');
          h2 = h1(cs_stack := (h1 cs_stack)
                    \<lparr>metadata_Capabilities := metadata_Capabilities (h1 change_set)\<rparr>)
      in case apply_changes ops ssm self cs_stack change_set None False (Some action)
                (w\<lparr>heap := h2\<rparr>) of
           (Inl e, w3) \<Rightarrow>
             (let h3 = (heap w3)(change_set := (heap w3 change_set)
                          \<lparr>metadata_Status := Some (action @ ''_FAILED'')\<rparr>)
              in (Inl e, w3\<lparr>heap := set_stack_status h3 self (action @ ''_FAILED'')\<rparr>))
         | (Inr u, w3) \<Rightarrow> (Inr (), w3))"

text \<open>
  Modelled from the spec: \<^verbatim>\<open>Stack.set_time_attribute\<close> of the absent
  \<^verbatim>\<open>engine/entities.py\<close> stamps the named attribute; the model records the name, not the
  time.
\<close>

definition set_time_attribute :: "heap \<Rightarrow> ref \<Rightarrow> string \<Rightarrow> heap" where
  "set_time_attribute h s attribute = h(s := (h s)\<lparr>time_attributes := time_attributes (h s) @ [attribute]\<rparr>)"

definition update_stack ::
  "'x ops \<Rightarrow> (string \<Rightarrow> string option \<Rightarrow> exn + string option) \<Rightarrow> ref \<Rightarrow> ref \<Rightarrow> 'x world \<Rightarrow>
   (exn + unit) \<times> 'x world" where
  "update_stack ops ssm self new_stack w =
     (let w1 = w\<lparr>heap := set_stack_status (heap w) self ''UPDATE_IN_PROGRESS''\<rparr>
      in case apply_changes ops ssm self self new_stack None False (Some ''UPDATE'') w1 of
           (Inl e, w2) \<Rightarrow> (Inl e, w2)
         | (Inr u, w2) \<Rightarrow>
             (Inr (), w2\<lparr>heap := set_time_attribute (heap w2) self ''LastUpdatedTime''\<rparr>))"

text \<open>
  \<^verbatim>\<open>delete_stack\<close>. Modelled from the spec: \<^verbatim>\<open>Stack.resource_status\<close> (absent) looks the
  status of a resource up and raises when there is none; \<^verbatim>\<open>_safe_lookup_is_deleted\<close>
  turns that exception into \<^verbatim>\<open>True\<close>. Every exception of a resource deletion is caught
  and logged.
\<close>

definition safe_lookup_is_deleted :: "heap \<Rightarrow> ref \<Rightarrow> string \<Rightarrow> bool" where
  "safe_lookup_is_deleted h self r_id =
     (case map_of (resource_states (h self)) r_id of
        None \<Rightarrow> True
      | Some st \<Rightarrow> ResourceStatus st = Some ''DELETE_COMPLETE'')"

fun delete_resources :: "'x ops \<Rightarrow> ref \<Rightarrow> string list \<Rightarrow> 'x world \<Rightarrow> 'x world" where
  "delete_resources ops self [] w = w"
| "delete_resources ops self (resource_id # rest) w =
     (case evaluate_resource_condition ops self resource_id w of
        (Inl e, w1) \<Rightarrow> delete_resources ops self rest w1
      | (Inr False, w1) \<Rightarrow> delete_resources ops self rest w1
      | (Inr True, w1) \<Rightarrow>
          (case execute_resource_action ops self resource_id ACTION_DELETE w1 of
             (Inl e, w2) \<Rightarrow> delete_resources ops self rest w2
           | (Inr result, w2) \<Rightarrow>
               delete_resources ops self rest
                 (w2\<lparr>heap := set_resource_status (heap w2) self resource_id ''DELETE_COMPLETE''\<rparr>)))"

definition max_cycle :: nat where "max_cycle = 10"

function delete_cycles :: "'x ops \<Rightarrow> ref \<Rightarrow> nat \<Rightarrow> string list \<Rightarrow> 'x world \<Rightarrow> 'x world" where
  "delete_cycles ops self iteration_cycle resource_ids w =
     (if iteration_cycle < max_cycle + 1 then
        (let remaining = filter (\<lambda>r_id. \<not> safe_lookup_is_deleted (heap w) self r_id) resource_ids
         in if length remaining = 0 then w
            else delete_cycles ops self (Suc iteration_cycle) remaining
                   (delete_resources ops self remaining w))
      else w)"
  by pat_completeness auto
termination
  by (relation "measure (\<lambda>(ops, self, iteration_cycle, resource_ids, w).
                           max_cycle + 1 - iteration_cycle)") auto

definition delete_stack :: "'x ops \<Rightarrow> ref \<Rightarrow> 'x world \<Rightarrow> (exn + unit) \<times> 'x world" where
  "delete_stack ops self w =
     (let w1 = w\<lparr>heap := set_stack_status (heap w) self ''DELETE_IN_PROGRESS''\<rparr>;
          stack_resources = map snd (resources (heap w1 self));
          resource_ids = map fst (fold (\<lambda>r d. AList.update (LogicalResourceId r) r d) stack_resources []);
          w2 = delete_cycles ops self 1 resource_ids w1;
          h3 = set_stack_status (heap w2) self ''DELETE_COMPLETE''
      in (Inr (), w2\<lparr>heap := set_time_attribute h3 self ''DeletionTime''\<rparr>))"

text \<open>
  A stack whose only resource \<open>B\<close> waits for a resource \<open>A\<close> that is never created, and
  operations whose \<^verbatim>\<open>delete\<close> action always fails.
\<close>

definition stuck_stack :: stack where
  "stuck_stack =
     empty_stack\<lparr>status := ''REVIEW_IN_PROGRESS'',
       template_Resources := [(''B'', res ''B'' ''AWS::SQS::Queue'' [])],
       template_original_Resources := [(''B'', res ''B'' ''AWS::SQS::Queue'' [])]\<rparr>"

definition stuck_world :: "string list world" where
  "stuck_world = \<lparr>heap = (\<lambda>r. stuck_stack), ext = []\<rparr>"

definition failing_ops :: "string list ops" where
  "failing_ops =
     log_ops\<lparr>execute_resource_action :=
       (\<lambda>self resource_id action_name w.
          (Inl (Raise Exception ''AccessDenied''),
           w\<lparr>ext := ext w @ [''failed '' @ action_name @ '' '' @ resource_id]\<rparr>))\<rparr>"

definition deployed_stack :: stack where
  "deployed_stack =
     loop_stack\<lparr>status := ''CREATE_COMPLETE'',
       resource_states :=
         [(''A'', \<lparr>PreviousResourceStatus = None, ResourceStatus = Some ''CREATE_COMPLETE''\<rparr>)]\<rparr>"

definition deployed_world :: "string list world" where
  "deployed_world = \<lparr>heap = (\<lambda>r. deployed_stack), ext = []\<rparr>"

text \<open>An update of an empty stack by a template that holds the stuck resource \<open>B\<close>.\<close>

definition update_world :: "string list world" where
  "update_world = \<lparr>heap = (\<lambda>r. if r = 0 then empty_stack else stuck_stack), ext = []\<rparr>"

text \<open>A stack and a new template that declares the same resource with the same properties.\<close>

definition unchanged_old_stack :: stack where
  "unchanged_old_stack =
     empty_stack\<lparr>status := ''CREATE_COMPLETE'',
       template_Resources := [(''B'', res ''B'' ''AWS::SQS::Queue'' [(''QueueName'', VStr ''q'')])],
       template_original_Resources :=
         [(''B'', res ''B'' ''AWS::SQS::Queue'' [(''QueueName'', VStr ''q'')])],
       resource_states :=
         [(''B'', \<lparr>PreviousResourceStatus = None, ResourceStatus = Some ''CREATE_COMPLETE''\<rparr>)]\<rparr>"

definition unchanged_new_stack :: stack where
  "unchanged_new_stack =
     empty_stack\<lparr>status := ''REVIEW_IN_PROGRESS'',
       template_Resources := [(''B'', res ''B'' ''AWS::SQS::Queue'' [(''QueueName'', VStr ''q'')])],
       template_original_Resources :=
         [(''B'', res ''B'' ''AWS::SQS::Queue'' [(''QueueName'', VStr ''q'')])]\<rparr>"

definition unchanged_world :: "string list world" where
  "unchanged_world =
     \<lparr>heap = (\<lambda>r. if r = 0 then unchanged_old_stack else unchanged_new_stack), ext = []\<rparr>"

text \<open>
  The same pair as \<^verbatim>\<open>update_stack\<close> and \<^verbatim>\<open>apply_change_set\<close> hand it to
  \<^verbatim>\<open>apply_changes\<close>: the status of the existing stack is already \<^verbatim>\<open>UPDATE_IN_PROGRESS\<close>.
  The new stack has no capabilities, so the write of \<^verbatim>\<open>apply_change_set\<close> to the
  capabilities of the existing stack changes nothing.
\<close>

definition unchanged_entered_world :: "string list world" where
  "unchanged_entered_world =
     unchanged_world\<lparr>heap := set_stack_status (heap unchanged_world) 0 ''UPDATE_IN_PROGRESS''\<rparr>"

section \<open>Route 53 record set provider\<close>

text \<open>
  The Route 53 client is external. It is modelled by the answers it gives and by the log
  of the calls it has received. \<^verbatim>\<open>list_hosted_zones_by_name\<close> answers with the list
  under \<^verbatim>\<open>HostedZones\<close>; a zone is a dictionary.
\<close>

datatype route53_call =
    ListHostedZonesByName val
  | ChangeResourceRecordSets val string "val dict"

record route53_client =
  hosted_zones :: "val \<Rightarrow> exn + val dict list"
  change_response :: "val \<Rightarrow> val dict \<Rightarrow> exn + val"
  calls :: "route53_call list"

definition list_hosted_zones_by_name ::
  "route53_client \<Rightarrow> val \<Rightarrow> (exn + val dict list) \<times> route53_client" where
  "list_hosted_zones_by_name client dns_name =
     (hosted_zones client dns_name,
      client\<lparr>calls := calls client @ [ListHostedZonesByName dns_name]\<rparr>)"

text \<open>
  \<^verbatim>\<open>change_resource_record_sets\<close> with a change batch of one change: the action and the
  record set.
\<close>

definition change_resource_record_sets ::
  "route53_client \<Rightarrow> val \<Rightarrow> string \<Rightarrow> val dict \<Rightarrow> (exn + val) \<times> route53_client" where
  "change_resource_record_sets client hosted_zone_id action resource_record_set =
     (change_response client hosted_zone_id resource_record_set,
      client\<lparr>calls := calls client @
         [ChangeResourceRecordSets hosted_zone_id action resource_record_set]\<rparr>)"

definition format_name :: "val \<Rightarrow> string" where
  "format_name v = (case v of VStr s \<Rightarrow> s | _ \<Rightarrow> ''None'')"

definition get_hosted_zone_id_from_name ::
  "val \<Rightarrow> route53_client \<Rightarrow> (exn + val) \<times> route53_client" where
  "get_hosted_zone_id_from_name hosted_zone_name client =
     (if \<not> truthy hosted_zone_name
      then (Inl (Raise Exception ''Either HostedZoneId or HostedZoneName must be present.''), client)
      else
        (case list_hosted_zones_by_name client hosted_zone_name of
           (Inl e, client') \<Rightarrow> (Inl e, client')
         | (Inr zones, client') \<Rightarrow>
             if length zones \<noteq> 1
             then (Inl (Raise Exception
                     (''Ambiguous HostedZoneName '' @ format_name hosted_zone_name @ '' provided.'')),
                   client')
             else
               (case map_of (hd zones) ''Id'' of
                  None \<Rightarrow> (Inl (Raise KeyError ''Id''), client')
                | Some hosted_zone_id \<Rightarrow> (Inr hosted_zone_id, client'))))"

definition attr_names :: "string list" where
  "attr_names =
     [''Name'', ''Type'', ''SetIdentifier'', ''Weight'', ''Region'', ''GeoLocation'', ''Failover'',
      ''MultiValueAnswer'', ''TTL'', ''ResourceRecords'', ''AliasTarget'', ''HealthCheckId'']"

text \<open>
  Lines 108 to 120 of \<^verbatim>\<open>create\<close>: the attributes of the record set. \<open>select_attributes\<close>
  is a helper of the absent \<^verbatim>\<open>provider_utils\<close> and \<open>int_of_str\<close> is Python's \<^verbatim>\<open>int\<close> on
  a string, \<^const>\<open>None\<close> where it raises \<^verbatim>\<open>ValueError\<close>; both are parameters. The
  selected \<^verbatim>\<open>AliasTarget\<close> is the dictionary that the model holds, so the default for
  \<^verbatim>\<open>EvaluateTargetHealth\<close> is written to both. \<^verbatim>\<open>in\<close> and the comprehension follow
  Python also on values that are not a dictionary or a list.
\<close>

definition record_set_attributes ::
  "(val dict \<Rightarrow> string list \<Rightarrow> val dict) \<Rightarrow> (string \<Rightarrow> int option) \<Rightarrow> val dict \<Rightarrow>
   exn + val dict \<times> val dict" where
  "record_set_attributes select_attributes int_of_str model =
     (let attrs = select_attributes model attr_names
      in case (case map_of attrs ''AliasTarget'' of
                 Some alias \<Rightarrow>
                   (case alias of
                      VDict target \<Rightarrow>
                        if ''EvaluateTargetHealth'' \<notin> fst ` set target
                        then (let target' = VDict (AList.update ''EvaluateTargetHealth'' (VBool False) target)
                              in Inr (AList.update ''AliasTarget'' target' attrs,
                                      if ''AliasTarget'' \<in> fst ` set model
                                      then AList.update ''AliasTarget'' target' model else model))
                        else Inr (attrs, model)
                    | VStr s \<Rightarrow>
                        if sublist ''EvaluateTargetHealth'' s then Inr (attrs, model)
                        else Inl (Raise TypeError ''str object does not support item assignment'')
                    | VList xs \<Rightarrow>
                        if list_ex (\<lambda>x. x = VStr ''EvaluateTargetHealth'') xs then Inr (attrs, model)
                        else Inl (Raise TypeError ''list indices must be integers'')
                    | _ \<Rightarrow> Inl (Raise TypeError ''argument is not iterable''))
               | None \<Rightarrow>
                   (case map_of attrs ''ResourceRecords'' of
                      None \<Rightarrow> Inl (Raise KeyError ''ResourceRecords'')
                    | Some (VList records) \<Rightarrow>
                        Inr (AList.update ''ResourceRecords''
                               (VList (map (\<lambda>record. VDict [(''Value'', record)]) records)) attrs,
                             model)
                    | Some (VStr s) \<Rightarrow>
                        Inr (AList.update ''ResourceRecords''
                               (VList (map (\<lambda>c. VDict [(''Value'', VStr [c])]) s)) attrs,
                             model)
                    | Some (VDict kvs) \<Rightarrow>
                        Inr (AList.update ''ResourceRecords''
                               (VList (map (\<lambda>(k, v). VDict [(''Value'', VStr k)]) kvs)) attrs,
                             model)
                    | Some other \<Rightarrow> Inl (Raise TypeError ''object is not iterable''))) of
           Inl e \<Rightarrow> Inl e
         | Inr (attrs1, model1) \<Rightarrow>
             (case map_of attrs1 ''TTL'' of
                Some (VStr ttl) \<Rightarrow>
                  (case int_of_str ttl of
                     None \<Rightarrow> Inl (Raise ValueError ''invalid literal for int()'')
                   | Some i \<Rightarrow> Inr (AList.update ''TTL'' (VInt i) attrs1, model1))
              | _ \<Rightarrow> Inr (attrs1, model1)))"

record progress_event =
  pe_status :: string
  resource_model :: "val dict"

definition create ::
  "(val dict \<Rightarrow> string list \<Rightarrow> val dict) \<Rightarrow> (string \<Rightarrow> int option) \<Rightarrow> val dict \<Rightarrow>
   route53_client \<Rightarrow> (exn + progress_event) \<times> route53_client" where
  "create select_attributes int_of_str desired_state route53 =
     (let model = desired_state
      in case (if \<not> truthy (dict_get model ''HostedZoneId'')
               then (let hosted_zone_name = dict_get model ''HostedZoneName''
                     in case get_hosted_zone_id_from_name hosted_zone_name route53 of
                          (Inl e, client) \<Rightarrow> (Inl e, client)
                        | (Inr hosted_zone_id, client) \<Rightarrow>
                            (Inr (AList.update ''HostedZoneId'' hosted_zone_id model), client))
               else (Inr model, route53)) of
           (Inl e, client) \<Rightarrow> (Inl e, client)
         | (Inr model1, client) \<Rightarrow>
             (case record_set_attributes select_attributes int_of_str model1 of
                Inl e \<Rightarrow> (Inl e, client)
              | Inr (attrs, model2) \<Rightarrow>
                  (case map_of model2 ''HostedZoneId'' of
                     None \<Rightarrow> (Inl (Raise KeyError ''HostedZoneId''), client)
                   | Some hosted_zone_id \<Rightarrow>
                       (case change_resource_record_sets client hosted_zone_id ''UPSERT'' attrs of
                          (Inl e, client') \<Rightarrow> (Inl e, client')
                        | (Inr response, client') \<Rightarrow>
                            (case map_of model2 ''Name'' of
                               None \<Rightarrow> (Inl (Raise KeyError ''Name''), client')
                             | Some name \<Rightarrow>
                                 (Inr \<lparr>pe_status = ''SUCCESS'',
                                       resource_model = AList.update ''Id'' name model2\<rparr>,
                                  client'))))))"






section \<open>Intrinsic evaluator\<close>

text \<open>
  The evaluator reads and rewrites the resources of the stack, a dictionary from logical
  ids to resource dictionaries, and may raise. A computation takes the resources and
  returns its outcome with the resources as it leaves them; an exception keeps the
  rewrites made before it.

  Python rewrites dictionaries and lists in place. Here a rewritten container is the
  value that the evaluator returns: where the source returns its argument after
  rewriting it, the result is that object. A resource that \<^verbatim>\<open>Ref\<close> resolves in place is
  written back to the resources. Rewrites in place of the arguments of an intrinsic
  (the variable map of \<^verbatim>\<open>Fn::Sub\<close>, the list of \<^verbatim>\<open>Fn::Select\<close>) do not show in the
  result and are not tracked, and neither is a tree that shares objects with the
  resources.
\<close>

type_synonym resource_map = "val dict"

type_synonym 'a comp = "resource_map \<Rightarrow> (exn + 'a) \<times> resource_map"

type_synonym evaluator = "val \<Rightarrow> val comp"

definition ret :: "'a \<Rightarrow> 'a comp" where
  "ret v = (\<lambda>rs. (Inr v, rs))"

definition raise :: "exn_class \<Rightarrow> string \<Rightarrow> 'a comp" where
  "raise c msg = (\<lambda>rs. (Inl (Raise c msg), rs))"

definition lift :: "exn + 'a \<Rightarrow> 'a comp" where
  "lift r = (\<lambda>rs. (r, rs))"

definition and_then :: "'a comp \<Rightarrow> ('a \<Rightarrow> 'b comp) \<Rightarrow> 'b comp" where
  "and_then m f = (\<lambda>rs. case m rs of (Inl e, rs') \<Rightarrow> (Inl e, rs') | (Inr v, rs') \<Rightarrow> f v rs')"

primrec map_comp :: "('a \<Rightarrow> 'b comp) \<Rightarrow> 'a list \<Rightarrow> 'b list comp" where
  "map_comp f [] = ret []"
| "map_comp f (x # xs) = and_then (f x) (\<lambda>y. and_then (map_comp f xs) (\<lambda>ys. ret (y # ys)))"

text \<open>
  What the evaluator reads from outside the stack. A resource model class is known by
  the three methods that the evaluator calls on an instance built from the logical id
  and the resource; the clients of SSM and Secrets Manager and \<^verbatim>\<open>json.loads\<close> are
  functions of their arguments.

  Modelled from the spec: \<^verbatim>\<open>exports_map\<close> is not among the sources; the exports are
  an external map of stack export names to dictionaries with a \<^verbatim>\<open>Value\<close>.
\<close>

record model_class =
  get_ref :: "val \<Rightarrow> val \<Rightarrow> exn + val"
  get_cfn_attribute :: "val \<Rightarrow> val \<Rightarrow> val \<Rightarrow> exn + val"
  fetch_and_update_state :: "string \<Rightarrow> val \<Rightarrow> val comp"

record env =
  env_stack_name :: string
  get_region :: string
  get_aws_account_id :: string
  service_port_apigateway :: int
  exports_map :: "val dict"
  RESOURCE_MODELS :: "string \<Rightarrow> model_class option"
  ssm_get_parameter :: "string \<Rightarrow> bool \<Rightarrow> exn + val"
  get_secret_value :: "string \<Rightarrow> string option \<Rightarrow> string option \<Rightarrow> exn + val"
  json_loads :: "val \<Rightarrow> exn + val"
  resolve_ssm_parameter_value :: "val \<Rightarrow> val \<Rightarrow> exn + val"

definition STATIC_REFS :: "string list" where
  "STATIC_REFS = [''AWS::Region'', ''AWS::Partition'', ''AWS::StackName'', ''AWS::AccountId'']"

text \<open>
  Modelled from the spec: the constant is not among the sources; \<^verbatim>\<open>AWS::NoValue\<close>
  resolves to a sentinel that callers strip from containers.
\<close>

definition PLACEHOLDER_AWS_NO_VALUE :: string where
  "PLACEHOLDER_AWS_NO_VALUE = ''__aws_no_value__''"

definition get_resource_type :: "val \<Rightarrow> exn + val" where
  "get_resource_type resource = getitem resource (VStr ''Type'')"

text \<open>\<^verbatim>\<open>RESOURCE_MODELS.get(resource_type)\<close>.\<close>

definition model_for :: "env \<Rightarrow> val \<Rightarrow> exn + model_class option" where
  "model_for env resource_type =
     (case resource_type of
        VStr t \<Rightarrow> Inr (RESOURCE_MODELS env t)
      | VList xs \<Rightarrow> Inl (Raise TypeError (''unhashable type: '' @ quoted ''list''))
      | VDict kvs \<Rightarrow> Inl (Raise TypeError (''unhashable type: '' @ quoted ''dict''))
      | _ \<Rightarrow> Inr None)"

text \<open>An exception of the model instance is logged and the result is \<^verbatim>\<open>None\<close>.\<close>

definition get_attr_from_model_instance :: "env \<Rightarrow> val \<Rightarrow> val \<Rightarrow> val \<Rightarrow> val \<Rightarrow> exn + val" where
  "get_attr_from_model_instance env resource attribute resource_type resource_id =
     (case model_for env resource_type of
        Inl e \<Rightarrow> Inl e
      | Inr None \<Rightarrow> Inr VNull
      | Inr (Some m) \<Rightarrow>
          (case get_cfn_attribute m resource_id resource attribute of
             Inl e \<Rightarrow> Inr VNull
           | Inr v \<Rightarrow> Inr v))"

definition get_ref_from_model :: "env \<Rightarrow> resource_map \<Rightarrow> val \<Rightarrow> exn + val" where
  "get_ref_from_model env rs logical_resource_id =
     (case getitem (VDict rs) logical_resource_id of
        Inl e \<Rightarrow> Inl e
      | Inr resource \<Rightarrow>
          (case get_resource_type resource of
             Inl e \<Rightarrow> Inl e
           | Inr resource_type \<Rightarrow>
               (case model_for env resource_type of
                  Inl e \<Rightarrow> Inl e
                | Inr None \<Rightarrow> Inr VNull
                | Inr (Some m) \<Rightarrow> get_ref m logical_resource_id resource)))"

text \<open>
  Modelled from the spec: \<^verbatim>\<open>get_resource_model_instance\<close> is not among the sources;
  the registry is looked up by the type string of the resource and yields the provider
  or nothing.
\<close>

definition get_resource_model_instance :: "env \<Rightarrow> val \<Rightarrow> resource_map \<Rightarrow> exn + model_class option" where
  "get_resource_model_instance env resource_id rs =
     (case getitem (VDict rs) resource_id of
        Inl e \<Rightarrow> Inl e
      | Inr resource \<Rightarrow>
          (case get_resource_type resource of
             Inl e \<Rightarrow> Inl e
           | Inr resource_type \<Rightarrow> model_for env resource_type))"

definition or_else :: "val \<Rightarrow> val \<Rightarrow> val" where
  "or_else a b = (if truthy a then a else b)"

text \<open>
  The details of a resource. Every exception inside the \<^verbatim>\<open>try\<close> block ends in the
  result \<^verbatim>\<open>None\<close>: \<^verbatim>\<open>DependencyNotYetSatisfied\<close> directly, any other after the check
  for a "not found" error, whose outcome is not used.
\<close>

definition retrieve_resource_details :: "env \<Rightarrow> val \<Rightarrow> val \<Rightarrow> val comp" where
  "retrieve_resource_details env resource_id resource_status =
     and_then (\<lambda>rs. (get (VDict rs) resource_id, rs)) (\<lambda>found.
     and_then (lift (get resource_status (VStr ''PhysicalResourceId''))) (\<lambda>physical.
       let resource = or_else found (VDict []);
           resource_id = or_else physical resource_id
       in and_then (lift (get_resource_type resource)) (\<lambda>resource_type.
          and_then (lift (get resource (VStr ''Properties''))) (\<lambda>resource_props.
            if resource_props = VNull
            then raise Exception (''Unable to find properties for resource '' @ str resource_id)
            else (\<lambda>rs.
              case (case get_resource_model_instance env resource_id rs of
                      Inl e \<Rightarrow> (Inl e, rs)
                    | Inr (Some m) \<Rightarrow> fetch_and_update_state m (env_stack_name env) resource_id rs
                    | Inr None \<Rightarrow>
                        (if resource_type = VStr ''Parameter'' then (Inr resource_props, rs)
                         else (Inr VNull, rs))) of
                (Inl e, rs') \<Rightarrow> (Inr VNull, rs')
              | (Inr state, rs') \<Rightarrow> (Inr state, rs'))))))"

text \<open>
  Modelled from the spec: \<^verbatim>\<open>first_char_to_lower\<close> is not among the sources; the
  attribute is looked up under its name and under its name with the first character in
  lower case.
\<close>

definition first_char_to_lower :: "val \<Rightarrow> exn + val" where
  "first_char_to_lower s =
     (case s of
        VStr [] \<Rightarrow> Inr s
      | VStr (c # cs) \<Rightarrow> Inr (VStr (lower_char c # cs))
      | _ \<Rightarrow> if truthy s then Inl (Raise TypeError (type_name s @ '' is not a string''))
             else Inr s)"

text \<open>\<^verbatim>\<open>d.get(key, default)\<close>.\<close>

definition get_default :: "val \<Rightarrow> val \<Rightarrow> val \<Rightarrow> exn + val" where
  "get_default obj key dflt =
     (case obj of
        VDict d \<Rightarrow>
          (case lookup d key of
             Inl e \<Rightarrow> Inl e
           | Inr None \<Rightarrow> Inr dflt
           | Inr (Some v) \<Rightarrow> Inr v)
      | _ \<Rightarrow> Inl (Raise AttributeError (quoted (type_name obj) @ '' object has no attribute '' @ quoted ''get'')))"

definition bind_exn :: "exn + 'a \<Rightarrow> ('a \<Rightarrow> exn + 'b) \<Rightarrow> exn + 'b" where
  "bind_exn r f = (case r of Inl e \<Rightarrow> Inl e | Inr v \<Rightarrow> f v)"

text \<open>
  The attribute of a stack parameter. The defaults of the nested \<^verbatim>\<open>get\<close> calls are
  evaluated before the lookup that may not need them.
\<close>

definition extract_parameter_attribute :: "env \<Rightarrow> val \<Rightarrow> val \<Rightarrow> val \<Rightarrow> exn + val" where
  "extract_parameter_attribute env attribute resource resource_props =
     (let is_ref_attr_or_arn = (attribute \<in> {VStr ''PhysicalResourceId'', VStr ''Ref'', VStr ''Arn''})
      in bind_exn (get_default resource_props (VStr ''Properties'') (VDict [])) (\<lambda>nested.
         bind_exn (get nested (VStr ''Value'')) (\<lambda>nested_value.
         bind_exn (get_default resource (VStr ''Value'') nested_value) (\<lambda>resource_value.
         bind_exn (get_default resource_props (VStr ''Value'') resource_value) (\<lambda>param_value.
         bind_exn (get resource_props (VStr ''ParameterType'')) (\<lambda>parameter_type.
         bind_exn (case or_else parameter_type (VStr []) of
                     VStr t \<Rightarrow>
                       (if prefix ''AWS::SSM::Parameter::Value'' t
                        then bind_exn (get resource_props (VStr ''ParameterValue''))
                               (resolve_ssm_parameter_value env (VStr t))
                        else Inr param_value)
                   | other \<Rightarrow>
                       Inl (Raise AttributeError
                             (quoted (type_name other) @ '' object has no attribute '' @ quoted ''startswith'')))
           (\<lambda>param_value.
         bind_exn (if is_ref_attr_or_arn then Inr param_value
                   else (case param_value of VDict d \<Rightarrow> get param_value attribute | _ \<Rightarrow> Inr VNull))
           (\<lambda>result. if result \<noteq> VNull then Inr result else Inr (VStr [])))))))))"

text \<open>
  The attribute of a resource from its fetched state. A state is a value here, so the
  branch for a state that is itself a model instance does not arise.
\<close>

definition ref_fallback :: "val \<Rightarrow> val \<Rightarrow> val \<Rightarrow> string \<Rightarrow> exn + val" where
  "ref_fallback resource_state resource result attr =
     (if result = VNull
      then bind_exn (get resource_state (VStr attr)) (\<lambda>a.
           let result = or_else result a
           in if truthy result then Inr result
              else bind_exn (get resource (VStr attr)) (\<lambda>b. Inr b))
      else Inr result)"

definition extract_resource_attribute ::
  "env \<Rightarrow> val \<Rightarrow> val \<Rightarrow> val \<Rightarrow> val \<Rightarrow> val \<Rightarrow> val comp" where
  "extract_resource_attribute env resource_type resource_state attribute resource_id resource =
     (let is_ref_attribute = (attribute \<in> {VStr ''PhysicalResourceId'', VStr ''Ref''});
          resource = or_else resource (VDict [])
      in and_then (\<lambda>rs. (if \<not> truthy resource \<and> rs \<noteq> [] then getitem (VDict rs) resource_id
                          else Inr resource, rs)) (\<lambda>resource.
         and_then (if \<not> truthy resource_state
                   then and_then (retrieve_resource_details env resource_id (VDict [])) (\<lambda>state.
                          if \<not> truthy state
                          then raise DependencyNotYetSatisfied
                                 (''Unable to fetch details for resource '' @ str resource_id)
                          else ret state)
                   else ret resource_state) (\<lambda>resource_state.
         lift
          (bind_exn (get_default resource (VStr ''Properties'') (VDict [])) (\<lambda>resource_props.
             if resource_type = VStr ''Parameter''
             then extract_parameter_attribute env attribute resource resource_props
             else
               bind_exn (first_char_to_lower attribute) (\<lambda>attribute_lower.
               bind_exn (get resource_state attribute) (\<lambda>s1.
               bind_exn (if truthy s1 then Inr s1 else get resource_state attribute_lower) (\<lambda>result.
               bind_exn
                 (if result = VNull \<and> (case resource of VDict d \<Rightarrow> True | _ \<Rightarrow> False)
                  then bind_exn (get resource_props attribute) (\<lambda>p1.
                       bind_exn (if truthy p1 then Inr p1 else get resource_props attribute_lower)
                         (\<lambda>result.
                            if result = VNull
                            then get_attr_from_model_instance env resource attribute
                                   resource_type resource_id
                            else Inr result))
                  else Inr result) (\<lambda>result.
               if is_ref_attribute
               then bind_exn (ref_fallback resource_state resource result ''Id'') (\<lambda>result.
                    bind_exn (ref_fallback resource_state resource result ''PhysicalResourceId'')
                      (\<lambda>result. ref_fallback resource_state resource result ''Ref''))
               else Inr result)))))))))"

text \<open>
  \<^verbatim>\<open>resolve_ref\<close>. The recursion of the evaluator is the parameter \<open>rec\<close>. A resource
  other than a parameter is resolved in place before its model yields the reference.
\<close>

definition resolve_ref :: "evaluator \<Rightarrow> env \<Rightarrow> val \<Rightarrow> val \<Rightarrow> val comp" where
  "resolve_ref rec env ref attribute =
     (if ref = VStr ''AWS::Region'' then ret (VStr (get_region env))
      else if ref = VStr ''AWS::Partition'' then ret (VStr ''aws'')
      else if ref = VStr ''AWS::StackName'' then ret (VStr (env_stack_name env))
      else if ref = VStr ''AWS::StackId'' then ret (VStr (env_stack_name env))
      else if ref = VStr ''AWS::AccountId'' then ret (VStr (get_aws_account_id env))
      else if ref = VStr ''AWS::NoValue'' then ret (VStr PLACEHOLDER_AWS_NO_VALUE)
      else if ref = VStr ''AWS::NotificationARNs'' then ret (VDict [])
      else if ref = VStr ''AWS::URLSuffix'' then ret (VStr AWS_URL_SUFFIX)
      else if attribute = VStr ''Ref'' then
        and_then (\<lambda>rs. (get (VDict rs) ref, rs)) (\<lambda>resource.
          if \<not> truthy resource then raise Exception ''Should be detected earlier''
          else and_then (lift (getitem resource (VStr ''Type''))) (\<lambda>resource_type.
            if resource_type = VStr ''Parameter''
            then lift (bind_exn (getitem resource (VStr ''Properties''))
                         (\<lambda>props. getitem props (VStr ''Value'')))
            else and_then (rec resource) (\<lambda>resolved rs.
                   let rs' = AList.update (str ref) resolved rs
                   in (get_ref_from_model env rs' ref, rs'))))
      else if attribute = VStr ''Arn'' then raise Exception ''invalid''
      else
        and_then (\<lambda>rs. (get (VDict rs) ref, rs)) (\<lambda>resource.
        and_then (if truthy resource then lift (get resource attribute) else ret VNull) (\<lambda>direct.
          if truthy resource
             \<and> (case direct of VStr s \<Rightarrow> True | VInt i \<Rightarrow> True | VBool b \<Rightarrow> True
                 | VDict d \<Rightarrow> True | _ \<Rightarrow> False)
          then lift (getitem resource attribute)
          else
            and_then (retrieve_resource_details env ref (VDict [])) (\<lambda>resource_new.
              if \<not> truthy resource_new
              then raise DependencyNotYetSatisfied
                     (''Unable to fetch details for resource '' @ str ref)
              else and_then (\<lambda>rs. (get (VDict rs) ref, rs)) (\<lambda>resource.
                   and_then (lift (get_resource_type resource)) (\<lambda>resource_type.
                     extract_resource_attribute env resource_type resource_new attribute ref
                       resource))))))"

definition evaluate_condition :: "evaluator \<Rightarrow> env \<Rightarrow> val \<Rightarrow> val comp" where
  "evaluate_condition rec env condition =
     and_then (rec condition) (\<lambda>condition.
     and_then (resolve_ref rec env condition (VStr ''Ref'')) (\<lambda>condition.
     rec condition))"

text \<open>
  \<^verbatim>\<open>resolve_placeholders_in_string\<close>: every placeholder of the string is replaced by
  what \<^verbatim>\<open>_replace\<close> returns for it, from the left.
\<close>

definition replace_placeholder :: "evaluator \<Rightarrow> env \<Rightarrow> string \<Rightarrow> string comp" where
  "replace_placeholder rec env ref_expression =
     (let parts = split_from ''.'' [] ref_expression
      in if length parts \<ge> 2 then
           (let resource_name = hd parts;
                attr_name = drop (length resource_name + 1) ref_expression
            in and_then (\<lambda>rs. (getitem (VDict rs) (VStr resource_name), rs)) (\<lambda>resource.
               and_then (lift (get_resource_type resource)) (\<lambda>resource_type.
               and_then (lift (get_attr_from_model_instance env resource (VStr attr_name)
                                 resource_type (VStr resource_name))) (\<lambda>resolved.
                 if resolved = VNull
                 then raise DependencyNotYetSatisfied
                        (''Unable to resolve attribute ref '' @ ref_expression)
                 else ret (str resolved)))))
         else (\<lambda>rs.
           if length parts = 1 \<and> map_of rs (hd parts) \<noteq> None
           then and_then (resolve_ref rec env (VStr (hd parts)) (VStr ''Ref'')) (\<lambda>result.
                  if result = VNull
                  then raise DependencyNotYetSatisfied
                         (''Unable to resolve attribute ref '' @ ref_expression)
                  else and_then (rec result) (\<lambda>result.
                         ret (if result = VNull then [] else str result))) rs
           else ret (''${'' @ ref_expression @ ''}'') rs))"

primrec sub_placeholders :: "(string \<Rightarrow> string comp) \<Rightarrow> (string + string) list \<Rightarrow> string comp" where
  "sub_placeholders f [] = ret []"
| "sub_placeholders f (t # ts) =
     and_then (case t of Inl literal \<Rightarrow> ret literal | Inr name \<Rightarrow> f name) (\<lambda>s.
     and_then (sub_placeholders f ts) (\<lambda>rest. ret (s @ rest)))"

definition resolve_placeholders_in_string :: "evaluator \<Rightarrow> env \<Rightarrow> val \<Rightarrow> val comp" where
  "resolve_placeholders_in_string rec env result =
     (case result of
        VStr s \<Rightarrow>
          and_then (sub_placeholders (replace_placeholder rec env) (placeholders [] s))
            (\<lambda>s'. ret (VStr s'))
      | _ \<Rightarrow> raise TypeError ''expected string or bytes-like object'')"

section \<open>Intrinsic evaluator: the intrinsic functions\<close>

text \<open>
  One definition for each branch of \<^verbatim>\<open>_resolve_refs_recursively\<close>, in the order of
  the source. \<open>arg\<close> is \<^verbatim>\<open>value[keys_list[0]]\<close>, the argument of the intrinsic.
\<close>

definition fn_ref :: "evaluator \<Rightarrow> env \<Rightarrow> val \<Rightarrow> val comp" where
  "fn_ref rec env arg =
     and_then (resolve_ref rec env arg (VStr ''Ref'')) (\<lambda>ref.
       if ref = VNull
       then raise DependencyNotYetSatisfied
              (''Unable to resolve Ref for resource \"'' @ str arg @ ''\" (yet)'')
       else rec ref)"

definition fn_getatt :: "evaluator \<Rightarrow> env \<Rightarrow> val \<Rightarrow> val comp" where
  "fn_getatt rec env arg =
     (let attr_ref = (case arg of VStr s \<Rightarrow> VList (map VStr (split_from ''.'' [] s)) | _ \<Rightarrow> arg)
      in and_then (lift (getitem attr_ref (VInt 0))) (\<lambda>resource_logical_id.
         and_then (lift (getitem attr_ref (VInt 1))) (\<lambda>attribute_name.
         and_then (rec attribute_name) (\<lambda>attribute_name.
         and_then (\<lambda>rs. (get (VDict rs) resource_logical_id, rs)) (\<lambda>resource.
         and_then (lift (get_resource_type resource)) (\<lambda>resource_type.
         and_then (lift (get_attr_from_model_instance env resource attribute_name
                           resource_type VNull)) (\<lambda>resolved_getatt.
           if resolved_getatt = VNull then raise DependencyNotYetSatisfied []
           else ret resolved_getatt)))))))"

definition fn_join :: "evaluator \<Rightarrow> env \<Rightarrow> val \<Rightarrow> val \<Rightarrow> val comp" where
  "fn_join rec env value arg =
     and_then (lift (getitem arg (VInt 1))) (\<lambda>join_values.
     and_then (lift (iter join_values)) (\<lambda>join_values.
     and_then (map_comp rec join_values) (\<lambda>join_values.
       if filter (\<lambda>v. v = VNull) join_values \<noteq> []
       then raise Exception
              (''Cannot resolve CF fn::Join '' @ str value @ '' due to null values: ''
                 @ str (VList join_values))
       else and_then (lift (getitem arg (VInt 0))) (\<lambda>sep.
              lift (join_method sep (map str join_values))))))"

primrec sub_items :: "evaluator \<Rightarrow> (string \<times> val) list \<Rightarrow> val \<Rightarrow> val comp" where
  "sub_items rec [] result = ret result"
| "sub_items rec (item # items) result =
     and_then (rec (snd item)) (\<lambda>v.
     and_then (lift (replace_method result (''${'' @ fst item @ ''}'') v)) (\<lambda>result.
     sub_items rec items result))"

definition dict_update_method :: "val \<Rightarrow> val dict \<Rightarrow> exn + val dict" where
  "dict_update_method obj other =
     (case obj of
        VDict d \<Rightarrow> Inr (fold (\<lambda>kv. AList.update (fst kv) (snd kv)) other d)
      | _ \<Rightarrow> Inl (Raise AttributeError (quoted (type_name obj) @ '' object has no attribute '' @ quoted ''update'')))"

definition fn_sub :: "evaluator \<Rightarrow> env \<Rightarrow> val \<Rightarrow> val comp" where
  "fn_sub rec env arg =
     (let attr_refs = map (\<lambda>r. (r, VDict [(''Ref'', VStr r)])) STATIC_REFS;
          item_to_sub = (case arg of VList xs \<Rightarrow> arg | _ \<Rightarrow> VList [arg, VDict []])
      in and_then (lift (getitem item_to_sub (VInt 0))) (\<lambda>result.
         and_then (lift (getitem item_to_sub (VInt 1))) (\<lambda>variables.
         and_then (lift (dict_update_method variables attr_refs)) (\<lambda>variables.
         and_then (sub_items rec variables result) (\<lambda>result.
         resolve_placeholders_in_string rec env result)))))"

definition fn_findinmap :: "evaluator \<Rightarrow> env \<Rightarrow> val \<Rightarrow> val comp" where
  "fn_findinmap rec env arg =
     and_then (lift (getitem arg (VInt 1))) (\<lambda>attribute.
     and_then (rec attribute) (\<lambda>attr.
     and_then (lift (getitem arg (VInt 0))) (\<lambda>selected_map.
     and_then (case selected_map of
                 VDict d \<Rightarrow>
                   (case map_of d ''Ref'' of
                      Some r \<Rightarrow> resolve_ref rec env r (VStr ''Ref'')
                    | None \<Rightarrow> ret selected_map)
               | _ \<Rightarrow> ret selected_map) (\<lambda>selected_map.
     and_then (resolve_ref rec env selected_map attr) (\<lambda>result.
       if \<not> truthy result
       then raise Exception (''Cannot resolve fn::FindInMap: '' @ str arg)
       else and_then (lift (getitem arg (VInt 2))) (\<lambda>key.
            and_then (case key of VStr s \<Rightarrow> ret key | _ \<Rightarrow> rec key) (\<lambda>key.
            lift (get result key))))))))"

definition fn_importvalue :: "evaluator \<Rightarrow> env \<Rightarrow> val \<Rightarrow> val comp" where
  "fn_importvalue rec env arg =
     and_then (rec arg) (\<lambda>import_value_key.
     and_then (lift (get (VDict (exports_map env)) import_value_key)) (\<lambda>export.
       let stack_export = or_else export (VDict [])
       in and_then (lift (get stack_export (VStr ''Value''))) (\<lambda>v.
            if \<not> truthy v then ret VNull
            else lift (getitem stack_export (VStr ''Value'')))))"

definition fn_if :: "evaluator \<Rightarrow> env \<Rightarrow> val \<Rightarrow> val comp" where
  "fn_if rec env arg =
     and_then (lift (unpack3 arg)) (\<lambda>(condition, option1, option2).
     and_then (evaluate_condition rec env condition) (\<lambda>condition.
     rec (if truthy condition then option1 else option2)))"

definition fn_not :: "evaluator \<Rightarrow> env \<Rightarrow> val \<Rightarrow> val comp" where
  "fn_not rec env arg =
     and_then (lift (getitem arg (VInt 0))) (\<lambda>condition.
     and_then (rec condition) (\<lambda>condition.
     ret (VBool (\<not> truthy condition))))"

definition fn_and_or :: "evaluator \<Rightarrow> env \<Rightarrow> string \<Rightarrow> val \<Rightarrow> val comp" where
  "fn_and_or rec env stripped_fn_lower arg =
     and_then (lift (iter arg)) (\<lambda>conditions.
     and_then (map_comp rec conditions) (\<lambda>results.
     ret (VBool (if stripped_fn_lower = ''and'' then list_all truthy results
                 else list_ex truthy results))))"

definition fn_equals :: "evaluator \<Rightarrow> env \<Rightarrow> val \<Rightarrow> val comp" where
  "fn_equals rec env arg =
     and_then (lift (unpack2 arg)) (\<lambda>(operand1, operand2).
     and_then (rec operand1) (\<lambda>operand1.
     and_then (rec operand2) (\<lambda>operand2.
     ret (VBool (str operand1 = str operand2)))))"

definition fn_select :: "evaluator \<Rightarrow> env \<Rightarrow> val \<Rightarrow> val comp" where
  "fn_select rec env arg =
     and_then (lift (unpack2 arg)) (\<lambda>(index, values).
     and_then (rec index) (\<lambda>index.
     and_then (rec values) (\<lambda>values.
     lift (select values index))))"

definition fn_split :: "evaluator \<Rightarrow> env \<Rightarrow> val \<Rightarrow> val comp" where
  "fn_split rec env arg =
     and_then (lift (unpack2 arg)) (\<lambda>(delimiter, string).
     and_then (rec delimiter) (\<lambda>delimiter.
     and_then (rec string) (\<lambda>string.
     lift (split_method string delimiter))))"

definition fn_getazs :: "evaluator \<Rightarrow> env \<Rightarrow> val dict \<Rightarrow> val comp" where
  "fn_getazs rec env value =
     and_then (lift (getitem (VDict value) (VStr ''Fn::GetAZs''))) (\<lambda>arg.
     and_then (rec arg) (\<lambda>resolved.
       let region = or_else resolved (VStr (get_region env))
       in ret (VList (map (\<lambda>az. VStr (str region @ az)) [''a'', ''b'', ''c'', ''d'']))))"

definition fn_base64 :: "evaluator \<Rightarrow> env \<Rightarrow> val \<Rightarrow> val comp" where
  "fn_base64 rec env arg =
     and_then (rec arg) (\<lambda>value_to_encode. lift (base64 value_to_encode))"

text \<open>
  The traversal of a dictionary that is no intrinsic: every value is replaced by its
  evaluation, in the order of the items.
\<close>

primrec resolve_items :: "evaluator \<Rightarrow> (string \<times> val) list \<Rightarrow> val dict \<Rightarrow> val dict comp" where
  "resolve_items rec [] value = ret value"
| "resolve_items rec (item # items) value =
     and_then (rec (snd item)) (\<lambda>v. resolve_items rec items (AList.update (fst item) v value))"

text \<open>
  A list. The one-element list that holds a pair \<^verbatim>\<open>[name, argument]\<close> whose name
  starts with \<^verbatim>\<open>fn::\<close> stands for the intrinsic \<^verbatim>\<open>{name: argument}\<close>; only a string
  can be such a name.
\<close>

definition intrinsic_of_list :: "val list \<Rightarrow> (val \<times> val) option" where
  "intrinsic_of_list value =
     (case value of
        [VList [name, argument]] \<Rightarrow>
          if prefix ''fn::'' (lower (str name)) then Some (name, argument) else None
      | _ \<Rightarrow> None)"

definition resolve_list :: "evaluator \<Rightarrow> val list \<Rightarrow> val comp" where
  "resolve_list rec value =
     (case intrinsic_of_list value of
        Some (name, argument) \<Rightarrow>
          (case name of
             VStr s \<Rightarrow> rec (VDict [(s, argument)])
           | _ \<Rightarrow> raise TypeError (''unhashable type: '' @ quoted (type_name name)))
      | None \<Rightarrow> and_then (map_comp rec value) (\<lambda>vs. ret (VList vs)))"

definition stripped_fn_lower :: "val dict \<Rightarrow> string option" where
  "stripped_fn_lower value =
     (case value of
        [item] \<Rightarrow> Some (last (split_from ''::'' [] (lower (fst item))))
      | _ \<Rightarrow> None)"

text \<open>\<^verbatim>\<open>_resolve_refs_recursively\<close>, with the recursion as the parameter \<open>rec\<close>.\<close>

definition inner_resolve_refs_recursively :: "evaluator \<Rightarrow> env \<Rightarrow> val \<Rightarrow> val comp" where
  "inner_resolve_refs_recursively rec env value =
     (case value of
        VDict d \<Rightarrow>
          (let fn = stripped_fn_lower d;
               arg = snd (hd d)
           in if map fst d = [''Ref''] then fn_ref rec env arg
              else if fn = Some ''getatt'' then fn_getatt rec env arg
              else if fn = Some ''join'' then fn_join rec env value arg
              else if fn = Some ''sub'' then fn_sub rec env arg
              else if fn = Some ''findinmap'' then fn_findinmap rec env arg
              else if fn = Some ''importvalue'' then fn_importvalue rec env arg
              else if fn = Some ''if'' then fn_if rec env arg
              else if fn = Some ''condition'' then evaluate_condition rec env arg
              else if fn = Some ''not'' then fn_not rec env arg
              else if fn = Some ''and'' \<or> fn = Some ''or'' then fn_and_or rec env (the fn) arg
              else if fn = Some ''equals'' then fn_equals rec env arg
              else if fn = Some ''select'' then fn_select rec env arg
              else if fn = Some ''split'' then fn_split rec env arg
              else if fn = Some ''getazs'' then fn_getazs rec env d
              else if fn = Some ''base64'' then fn_base64 rec env arg
              else and_then (resolve_items rec d d) (\<lambda>d'. ret (VDict d')))
      | VList xs \<Rightarrow> resolve_list rec xs
      | _ \<Rightarrow> ret value)"

text \<open>
  The patches that \<^verbatim>\<open>resolve_refs_recursively\<close> applies to a string result: the URL
  of an API Gateway, then a dynamic reference. The parts of a secret reference that
  are not given are empty strings here, where the source has \<^verbatim>\<open>None\<close>; both are false.
\<close>

definition contains :: "val \<Rightarrow> string \<Rightarrow> exn + bool" where
  "contains obj key =
     (case obj of
        VDict d \<Rightarrow> Inr (map_of d key \<noteq> None)
      | VStr s \<Rightarrow> Inr (sublist key s)
      | VList xs \<Rightarrow> Inr (VStr key \<in> set xs)
      | _ \<Rightarrow> Inl (Raise TypeError (''argument of type '' @ quoted (type_name obj) @ '' is not iterable'')))"

definition parse_secret_reference :: "string \<Rightarrow> exn + string \<times> string \<times> string \<times> string" where
  "parse_secret_reference reference_key =
     (if sublist ''SecretString'' reference_key
      then (case split_from '':SecretString:'' [] reference_key of
              secret_id # rest # remainder \<Rightarrow>
                (case split_from '':'' [] (rest @ ''::'') of
                   json_key # version_stage # version_id # others \<Rightarrow>
                     Inr (secret_id, json_key, version_stage, version_id)
                 | _ \<Rightarrow> Inl (Raise ValueError ''not enough values to unpack (expected 3)''))
            | _ \<Rightarrow> Inl (Raise IndexError ''list index out of range''))
      else Inr (reference_key, [], [], []))"

definition resolve_secret :: "env \<Rightarrow> string \<Rightarrow> exn + val" where
  "resolve_secret env reference_key =
     bind_exn (parse_secret_reference reference_key) (\<lambda>(secret_id, json_key, version_stage, version_id).
     bind_exn (get_secret_value env secret_id
                 (if version_id \<noteq> [] then Some version_id else None)
                 (if version_stage \<noteq> [] then Some version_stage else None)) (\<lambda>secret_value.
       if json_key \<noteq> []
       then bind_exn (json_loads env secret_value) (\<lambda>json_secret.
            bind_exn (contains json_secret json_key) (\<lambda>present.
              if \<not> present
              then Inl (Raise DependencyNotYetSatisfied
                         (''Key '' @ json_key @ '' is not yet available in secret '' @ secret_id @ ''.''))
              else getitem json_secret (VStr json_key)))
       else Inr secret_value))"

definition localstack_patches :: "env \<Rightarrow> val \<Rightarrow> exn + val" where
  "localstack_patches env result =
     (case result of
        VStr s \<Rightarrow>
          (case match_apigateway s of
             Some (pre, host, path) \<Rightarrow>
               Inr (VStr (pre @ host @ '':'' @ string_of_int (service_port_apigateway env)
                            @ ''/'' @ path))
           | None \<Rightarrow>
               (case match_dynamic_ref s of
                  Some (service_name, reference_key) \<Rightarrow>
                    (if service_name = ''ssm'' then ssm_get_parameter env reference_key False
                     else if service_name = ''ssm-secure''
                       then ssm_get_parameter env reference_key True
                     else if service_name = ''secretsmanager'' then resolve_secret env reference_key
                     else Inr result)
                | None \<Rightarrow> Inr result))
      | _ \<Rightarrow> Inr result)"

text \<open>
  \<^verbatim>\<open>resolve_refs_recursively\<close>. The first argument is the depth that the recursion
  may still reach.

  Modelled from the spec: the decorator \<^verbatim>\<open>prevent_stack_overflow\<close> is not among the
  sources; the evaluator bounds its own call depth and returns the original value if
  the depth cap is exceeded.
\<close>

primrec resolve_refs_recursively :: "nat \<Rightarrow> env \<Rightarrow> val \<Rightarrow> val comp" where
  "resolve_refs_recursively 0 env value = ret value"
| "resolve_refs_recursively (Suc depth) env value =
     and_then (inner_resolve_refs_recursively (resolve_refs_recursively depth env) env value)
       (\<lambda>result. lift (localstack_patches env result))"

section \<open>Intrinsic evaluator: trees that evaluation leaves alone\<close>




section \<open>Intrinsic evaluator: examples\<close>

text \<open>
  An environment with no resource model, no export and no secret, whose SSM holds the
  parameter \<^verbatim>\<open>/foo\<close> with the value \<^verbatim>\<open>bar\<close> and the parameter \<^verbatim>\<open>/link\<close> whose value
  is itself the dynamic reference to \<^verbatim>\<open>/foo\<close>.
\<close>

definition example_ssm :: "string \<Rightarrow> bool \<Rightarrow> exn + val" where
  "example_ssm name with_decryption =
     (if name = ''/foo'' then Inr (VStr ''bar'')
      else if name = ''/link'' then Inr (VStr ''{{resolve:ssm:/foo}}'')
      else Inl (Raise Exception ''ParameterNotFound''))"

definition example_env :: env where
  "example_env =
     \<lparr> env_stack_name = ''stack'',
       get_region = ''us-east-1'',
       get_aws_account_id = ''000000000000'',
       service_port_apigateway = 4566,
       exports_map = [(''shared-bucket'', VDict [(''Name'', VStr ''shared-bucket''),
                                                 (''Value'', VStr ''bucket-1'')]),
                      (''empty'', VDict [(''Name'', VStr ''empty''), (''Value'', VStr [])])],
       RESOURCE_MODELS = (\<lambda>t. None),
       ssm_get_parameter = example_ssm,
       get_secret_value = (\<lambda>secret_id version_id version_stage.
                             Inl (Raise Exception ''ResourceNotFoundException'')),
       json_loads = (\<lambda>v. Inl (Raise ValueError ''JSONDecodeError'')),
       resolve_ssm_parameter_value = (\<lambda>t v. Inr v) \<rparr>"

definition example_resources :: resource_map where
  "example_resources =
     [(''Stage'', VDict [(''Type'', VStr ''Parameter''),
                         (''Properties'', VDict [(''Value'', VStr ''prod'')])])]"


definition split_tree :: val where
  "split_tree =
     VDict [(''Endpoints'', VDict [(''Fn::Split'', VList [VStr '','', VStr ''x,{{resolve:ssm:/foo}}''])])]"


text \<open>
  A resource model for topics that answers \<^verbatim>\<open>get_ref\<close> with the physical id of the
  resource and \<^verbatim>\<open>get_cfn_attribute\<close> with the property of that name, and a stack whose
  topic has a name that is still an intrinsic.
\<close>

definition topic_model :: model_class where
  "topic_model =
     \<lparr> get_ref = (\<lambda>name resource. get resource (VStr ''PhysicalResourceId'')),
       get_cfn_attribute = (\<lambda>name resource attribute.
          bind_exn (get resource (VStr ''Properties'')) (\<lambda>props. get props attribute)),
       fetch_and_update_state = (\<lambda>name resource_id. ret VNull) \<rparr>"

definition topic_env :: env where
  "topic_env =
     example_env\<lparr>RESOURCE_MODELS :=
       (\<lambda>t. if t = ''AWS::SNS::Topic'' then Some topic_model else None)\<rparr>"

definition topic_resources :: resource_map where
  "topic_resources =
     [(''Topic'',
       VDict [(''Type'', VStr ''AWS::SNS::Topic''),
              (''PhysicalResourceId'', VStr ''arn:aws:sns:us-east-1:000000000000:orders''),
              (''Properties'',
               VDict [(''TopicName'',
                       VDict [(''Fn::Join'',
                               VList [VStr ''-'',
                                      VList [VStr ''orders'',
                                             VDict [(''Ref'', VStr ''AWS::Region'')]]])])])])]"

section \<open>Properties of the action invoker\<close>

lemma check_not_found_exception_markers:
  "check_not_found_exception e rt r rs \<longleftrightarrow>
     sublist ''NoSuchBucket'' (str_exn e) \<or> sublist ''ResourceNotFound'' (str_exn e) \<or>
     sublist ''NoSuchEntity'' (str_exn e) \<or> sublist ''NotFoundException'' (str_exn e) \<or>
     sublist ''404'' (str_exn e) \<or> sublist ''not found'' (str_exn e) \<or>
     sublist ''not exist'' (str_exn e)"
  unfolding check_not_found_exception_def markers_def Let_def
  by (simp add: filter_empty_conv del: sublist_code)

text \<open>
  Claim C6. A failure is the exception that reaches the handler of the outer \<^verbatim>\<open>try\<close>:
  the exception of the first service call when it is not a parameter-validation error
  with a report; otherwise the exception of the parameter conversion or of the single
  retry; and, before any call, the exception of reading \<^verbatim>\<open>func_details["function"]\<close>
  when \<open>func_details\<close> has no such entry. During a \<^verbatim>\<open>delete\<close> a failure whose text
  contains one of the seven markers is swallowed and \<^verbatim>\<open>invoke_function\<close> returns
  \<^verbatim>\<open>None\<close>; every other failure, and every failure of another action, is raised to the
  caller unchanged.
\<close>

theorem invoke_function_swallows_not_found_on_delete:
  assumes "getitem func_details (VStr ''function'') = Inl e \<or>
           (\<exists>logged. getitem func_details (VStr ''function'') = Inr logged \<and>
              ((function params = Inl e \<and> report_of e = None) \<or>
               (\<exists>e0 report. function params = Inl e0 \<and> report_of e0 = Some report \<and>
                  (fix_params params report = Inl e \<or>
                   (\<exists>converted. fix_params params report = Inr converted \<and>
                      function converted = Inl e)))))"
  shows "invoke_function fix_params function params resource_type func_details action_name resource =
           (if action_name = ''delete'' \<and>
               (sublist ''NoSuchBucket'' (str_exn e) \<or> sublist ''ResourceNotFound'' (str_exn e) \<or>
                sublist ''NoSuchEntity'' (str_exn e) \<or> sublist ''NotFoundException'' (str_exn e) \<or>
                sublist ''404'' (str_exn e) \<or> sublist ''not found'' (str_exn e) \<or>
                sublist ''not exist'' (str_exn e))
            then Inr VNull else Inl e)"
proof -
  have rep: "report_of x = Some r \<Longrightarrow> is_param_validation x" for x r
    by (auto simp: report_of_def is_param_validation_def split: exn.splits exn_class.splits option.splits)
  from assms consider
      (lookup) "getitem func_details (VStr ''function'') = Inl e"
    | (first) logged where "getitem func_details (VStr ''function'') = Inr logged"
        "function params = Inl e" "report_of e = None"
    | (convert) logged e0 report where "getitem func_details (VStr ''function'') = Inr logged"
        "function params = Inl e0" "report_of e0 = Some report" "fix_params params report = Inl e"
    | (retry) logged e0 report converted where "getitem func_details (VStr ''function'') = Inr logged"
        "function params = Inl e0" "report_of e0 = Some report"
        "fix_params params report = Inr converted" "function converted = Inl e"
    by blast
  then show ?thesis
  proof cases
    case lookup
    then show ?thesis
      unfolding invoke_function_def Let_def
      by (simp add: check_not_found_exception_markers del: sublist_code)
  next
    case first
    then show ?thesis
      unfolding invoke_function_def Let_def
      by (simp add: check_not_found_exception_markers del: sublist_code)
  next
    case convert
    with rep [OF convert(3)] show ?thesis
      unfolding invoke_function_def Let_def
      by (simp add: check_not_found_exception_markers del: sublist_code)
  next
    case retry
    with rep [OF retry(3)] show ?thesis
      unfolding invoke_function_def Let_def
      by (simp add: check_not_found_exception_markers del: sublist_code)
  qed
qed

theorem invoke_function_swallows_not_found_on_delete_witness:
  "invoke_function (\<lambda>p r. Inr p)
       (\<lambda>p. Inl (Raise Exception ''An error occurred (NoSuchBucket) when calling DeleteBucket''))
       [] ''AWS::S3::Bucket'' (VDict [(''function'', VStr ''delete_bucket'')]) ''delete'' VNull
     = Inr VNull \<and>
   invoke_function (\<lambda>p r. Inr p)
       (\<lambda>p. Inl (Raise Exception ''An error occurred (NoSuchBucket) when calling PutObject''))
       [] ''AWS::S3::Bucket'' (VDict [(''function'', VStr ''put_object'')]) ''create'' VNull
     = Inl (Raise Exception ''An error occurred (NoSuchBucket) when calling PutObject'') \<and>
   invoke_function (\<lambda>p r. Inr [(''k'', VNull)])
       (\<lambda>p. if p = [] then Inl (Raise (ParamValidationError (Some ''bad type'')) ''invalid'')
            else Inl (Raise Exception ''AccessDenied''))
       [] ''AWS::S3::Bucket'' (VDict [(''function'', VStr ''delete_bucket'')]) ''delete'' VNull
     = Inl (Raise Exception ''AccessDenied'') \<and>
   invoke_function (\<lambda>p r. Inr p) (\<lambda>p. Inr VNull)
       [] ''AWS::S3::Bucket'' (VDict [(''parameters'', VNull)]) ''delete'' VNull
     = Inl (Raise KeyError (quoted ''function''))"
proof -
  let ?fix = "\<lambda>(p :: val dict) (r :: string). (Inr p :: exn + val dict)"
  let ?fix2 = "\<lambda>(p :: val dict) (r :: string). (Inr [(''k'', VNull)] :: exn + val dict)"
  let ?e1 = "Raise Exception ''An error occurred (NoSuchBucket) when calling DeleteBucket''"
  let ?e2 = "Raise Exception ''An error occurred (NoSuchBucket) when calling PutObject''"
  let ?del = "VDict [(''function'', VStr ''delete_bucket'')]"
  let ?put = "VDict [(''function'', VStr ''put_object'')]"
  have a: "invoke_function ?fix (\<lambda>p. Inl ?e1) [] ''AWS::S3::Bucket'' ?del ''delete'' VNull = Inr VNull"
    using invoke_function_swallows_not_found_on_delete
            [of ?del ?e1 "\<lambda>p. Inl ?e1" "[]" ?fix "''AWS::S3::Bucket''" "''delete''" VNull]
    by (simp add: report_of_def sublist_code prefix_code getitem_def lookup_def)
  have b: "invoke_function ?fix (\<lambda>p. Inl ?e2) [] ''AWS::S3::Bucket'' ?put ''create'' VNull = Inl ?e2"
    using invoke_function_swallows_not_found_on_delete
            [of ?put ?e2 "\<lambda>p. Inl ?e2" "[]" ?fix "''AWS::S3::Bucket''" "''create''" VNull]
    by (simp add: report_of_def getitem_def lookup_def)
  let ?f = "\<lambda>p :: val dict. if p = [] then Inl (Raise (ParamValidationError (Some ''bad type'')) ''invalid'')
            else (Inl (Raise Exception ''AccessDenied'') :: exn + val)"
  have c: "invoke_function ?fix2 ?f [] ''AWS::S3::Bucket'' ?del ''delete'' VNull
             = Inl (Raise Exception ''AccessDenied'')"
    using invoke_function_swallows_not_found_on_delete
            [of ?del "Raise Exception ''AccessDenied''" ?f "[]" ?fix2 "''AWS::S3::Bucket''" "''delete''" VNull]
    by (simp add: report_of_def sublist_code prefix_code getitem_def lookup_def)
  let ?g = "\<lambda>p :: val dict. (Inr VNull :: exn + val)"
  let ?none = "VDict [(''parameters'', VNull)]"
  have d: "invoke_function ?fix ?g [] ''AWS::S3::Bucket'' ?none ''delete'' VNull
             = Inl (Raise KeyError (quoted ''function''))"
    using invoke_function_swallows_not_found_on_delete
            [of ?none "Raise KeyError (quoted ''function'')" ?g "[]" ?fix "''AWS::S3::Bucket''" "''delete''" VNull]
    by (simp add: getitem_def lookup_def repr_str_def repr_char_def quoted_def Let_def
          sublist_code prefix_code)
  from a b c d show ?thesis by simp
qed

section \<open>Parameter merging\<close>

text \<open>
  Claim C5. The existing stack holds \<^verbatim>\<open>Env = prod\<close> and \<^verbatim>\<open>Size = small\<close>. The new
  template declares \<^verbatim>\<open>Env\<close> with the default \<^verbatim>\<open>dev\<close>, and the new stack supplies
  \<^verbatim>\<open>Size = large\<close> and, for \<^verbatim>\<open>Env\<close>, an entry with \<^verbatim>\<open>UsePreviousValue\<close> true.
  The claim gives \<^verbatim>\<open>Env\<close> the previous value \<^verbatim>\<open>prod\<close>: there is a current value,
  so the default does not apply, and the supplied entry asks to keep it.
  \<^verbatim>\<open>apply_parameter_changes\<close> ends with \<^verbatim>\<open>Env = dev\<close>: the overlay of the template
  parameters has replaced the current value by the default before the supplied entry is
  looked at, and that entry then keeps the default.
\<close>

theorem apply_parameter_changes_default_replaces_previous:
  "find (\<lambda>p. ParameterKey p = ''Env'') (metadata_Parameters (params_heap 0)) =
     Some (Param ''Env'' (PStr ''prod'') None False) \<and>
   map_of (template_Parameters (params_heap 1)) ''Env'' =
     Some \<lparr>tp_Type = Some ''String'', tp_Default = Some ''dev''\<rparr> \<and>
   metadata_Parameters (params_heap 1) =
     [Param ''Size'' (PStr ''large'') None False, Param ''Env'' PNone None True] \<and>
   fst (apply_parameter_changes no_ssm params_heap 0 1) = Inr () \<and>
   metadata_Parameters (snd (apply_parameter_changes no_ssm params_heap 0 1) 0) =
     [Param ''Env'' (PStr ''dev'') None False, Param ''Size'' (PStr ''large'') None False]"
  by (simp add: apply_parameter_changes_def params_heap_def params_old_stack_def
        params_new_stack_def empty_stack_def update_params_def resolve_param_def no_ssm_def Let_def)

section \<open>Properties of the change planner\<close>

lemma get_change_config_Properties [simp]:
  "get_change_config action (item\<lparr>Properties := p\<rparr>) change_set_id =
     get_change_config action item change_set_id"
  by (simp add: get_change_config_def resource_get_def)

lemma get_change_config_with_default_properties [simp]:
  "get_change_config action (with_default_properties item) change_set_id =
     get_change_config action item change_set_id"
  by (simp add: with_default_properties_def)

lemma construct_changes_loop_unfiltered:
  "fst (construct_changes_loop self False change_set_id items h acc) =
     Inr (acc @ map (\<lambda>(action, owner, key, item). get_change_config action item change_set_id) items)"
proof (induction items arbitrary: h acc)
  case Nil
  then show ?case by simp
next
  case (Cons a items)
  obtain action owner key item where a: "a = (action, owner, key, item)"
    by (cases a) auto
  show ?case unfolding a by (simp add: Let_def Cons.IH)
qed



text \<open>
  When the caller asks for \<^verbatim>\<open>filter_unchanged_resources\<close>, a Modify whose configuration
  does not differ is left out (section 4.5 of the specification): resource \<open>B\<close> is
  unchanged between the two templates.
\<close>

lemma construct_changes_filter_unchanged_example:
  "fst (construct_changes 0 plan_heap 0 1 False None False True) =
     Inr [get_change_config ''Remove'' (res ''A'' ''AWS::SNS::Topic'' []) None,
          get_change_config ''Add'' (res ''C'' ''AWS::S3::Bucket'' []) None]"
  by (simp add: construct_changes_def plan_heap_def plan_old_stack_def plan_new_stack_def
        empty_stack_def res_def Let_def resource_config_differs_def ignored_keys_def
        previous_state_of_def resources_def with_default_properties_def)

section \<open>Properties of the deployment loop\<close>

declare pass_loop.simps [simp del]
declare deployment_loop.simps [simp del]

lemma pass_loop_bounds:
  "j \<le> length changes \<Longrightarrow>
   p = pass_loop ops self stack j changes done updated n w \<Longrightarrow>
   length (pass_changes p) \<le> length changes \<and>
   pass_steps p \<le> n + (length changes - j) \<and>
   length done \<le> length (pass_changes_done p) \<and>
   length (pass_changes p) + length (pass_changes_done p) \<le> length changes + length done \<and>
   (pass_updated p \<longrightarrow> updated \<or> length done < length (pass_changes_done p))"
proof (induction ops self stack j changes "done" updated n w arbitrary: p rule: pass_loop.induct)
  case (1 ops self stack j changes changes_done updated n w)
  show ?case
  proof (cases "j < length changes")
    case False
    with "1.prems" show ?thesis by (simp add: pass_loop.simps)
  next
    case True
    obtain s change' w' where lb: "loop_body ops self stack (changes ! j) w = (s, change', w')"
      by (cases "loop_body ops self stack (changes ! j) w") auto
    let ?del = "take j changes @ drop (Suc j) changes"
    have ldel: "length ?del = length changes - 1" using True by simp
    show ?thesis
    proof (cases s)
      case Dropped
      have eq: "p = pass_loop ops self stack j ?del changes_done updated (Suc n) w'"
        using "1.prems"(2) True lb Dropped by (subst (asm) pass_loop.simps) simp
      have "j \<le> length ?del" using True by simp
      from "1.IH"(1) [OF True lb [symmetric] Dropped refl this eq] ldel True
      show ?thesis by auto
    next
      case Postponed
      have eq: "p = pass_loop ops self stack (Suc j) (changes[j := change']) changes_done updated (Suc n) w'"
        using "1.prems"(2) True lb Postponed by (subst (asm) pass_loop.simps) simp
      have "Suc j \<le> length (changes[j := change'])" using True by simp
      from "1.IH"(2) [OF True lb [symmetric] Postponed refl this eq] True
      show ?thesis by auto
    next
      case Applied
      have eq: "p = pass_loop ops self stack j ?del (changes_done @ [change']) True (Suc n) w'"
        using "1.prems"(2) True lb Applied by (subst (asm) pass_loop.simps) simp
      have "j \<le> length ?del" using True by simp
      from "1.IH"(3) [OF True lb [symmetric] Applied refl this eq] ldel True
      show ?thesis by auto
    next
      case (Failed e)
      have eq: "p = \<lparr>raised = Some e, pass_changes = changes[j := change'],
              pass_changes_done = changes_done, pass_updated = updated,
              pass_steps = Suc n, pass_world = w'\<rparr>"
        using "1.prems"(2) True lb Failed by (subst (asm) pass_loop.simps) simp
      show ?thesis using True by (simp add: eq)
    qed
  qed
qed

lemma pass_loop_applied:
  "p = pass_loop ops self stack j changes done updated n w \<Longrightarrow>
   \<exists>applied. pass_changes_done p = done @ applied \<and>
     (pass_updated p \<longleftrightarrow> updated \<or> applied \<noteq> [])"
proof (induction ops self stack j changes "done" updated n w arbitrary: p rule: pass_loop.induct)
  case (1 ops self stack j changes changes_done updated n w)
  show ?case
  proof (cases "j < length changes")
    case False
    with "1.prems" show ?thesis by (simp add: pass_loop.simps)
  next
    case True
    obtain s change' w' where lb: "loop_body ops self stack (changes ! j) w = (s, change', w')"
      by (cases "loop_body ops self stack (changes ! j) w") auto
    let ?del = "take j changes @ drop (Suc j) changes"
    show ?thesis
    proof (cases s)
      case Dropped
      have eq: "p = pass_loop ops self stack j ?del changes_done updated (Suc n) w'"
        using "1.prems" True lb Dropped by (subst (asm) pass_loop.simps) simp
      from "1.IH"(1) [OF True lb [symmetric] Dropped refl eq]
      show ?thesis .
    next
      case Postponed
      have eq: "p = pass_loop ops self stack (Suc j) (changes[j := change']) changes_done updated (Suc n) w'"
        using "1.prems" True lb Postponed by (subst (asm) pass_loop.simps) simp
      from "1.IH"(2) [OF True lb [symmetric] Postponed refl eq]
      show ?thesis .
    next
      case Applied
      have eq: "p = pass_loop ops self stack j ?del (changes_done @ [change']) True (Suc n) w'"
        using "1.prems" True lb Applied by (subst (asm) pass_loop.simps) simp
      from "1.IH"(3) [OF True lb [symmetric] Applied refl eq]
      obtain applied where "pass_changes_done p = (changes_done @ [change']) @ applied"
        and "pass_updated p"
        by auto
      then have "pass_changes_done p = changes_done @ (change' # applied) \<and>
                 (pass_updated p \<longleftrightarrow> updated \<or> change' # applied \<noteq> [])"
        by simp
      then show ?thesis by blast
    next
      case (Failed e)
      have eq: "p = \<lparr>raised = Some e, pass_changes = changes[j := change'],
              pass_changes_done = changes_done, pass_updated = updated,
              pass_steps = Suc n, pass_world = w'\<rparr>"
        using "1.prems" True lb Failed by (subst (asm) pass_loop.simps) simp
      show ?thesis by (simp add: eq)
    qed
  qed
qed

text \<open>
  A pass that starts with the flag \<^verbatim>\<open>updated\<close> false ends with the flag set exactly when
  it has applied a change, that is, when the list of applied changes has grown.
\<close>

lemma pass_updated_iff_applied:
  assumes "p = pass_loop ops self stack 0 changes done False n w"
  shows "pass_updated p \<longleftrightarrow> pass_changes_done p \<noteq> done"
    and "length done \<le> length (pass_changes_done p)"
    and "pass_updated p \<longleftrightarrow> length done < length (pass_changes_done p)"
proof -
  from pass_loop_applied [OF assms]
  obtain applied where a: "pass_changes_done p = done @ applied"
    and u: "pass_updated p \<longleftrightarrow> applied \<noteq> []"
    by auto
  show "pass_updated p \<longleftrightarrow> pass_changes_done p \<noteq> done" using a u by simp
  show "length done \<le> length (pass_changes_done p)" using a by simp
  show "pass_updated p \<longleftrightarrow> length done < length (pass_changes_done p)" using a u by simp
qed

lemma deployment_loop_step:
  "i < max_iters \<Longrightarrow> p = pass_loop ops self stack 0 changes done False n w \<Longrightarrow>
   deployment_loop ops self stack i changes done n w =
     (case raised p of
        Some e \<Rightarrow>
          \<lparr>loop_raised = Some e, pending = pass_changes p,
           changes_done = pass_changes_done p, passes = Suc i,
           steps = pass_steps p, loop_world = pass_world p\<rparr>
      | None \<Rightarrow>
          if pass_changes p = [] then
            \<lparr>loop_raised = None, pending = [], changes_done = pass_changes_done p,
             passes = Suc i, steps = pass_steps p, loop_world = pass_world p\<rparr>
          else if \<not> pass_updated p then
            \<lparr>loop_raised = Some (Raise Exception
                ''Resource deployment loop completed, pending resource changes''),
             pending = pass_changes p, changes_done = pass_changes_done p,
             passes = Suc i, steps = pass_steps p, loop_world = pass_world p\<rparr>
          else deployment_loop ops self stack (Suc i) (pass_changes p)
                 (pass_changes_done p) (pass_steps p) (pass_world p))"
  by (subst deployment_loop.simps) (simp only: Let_def if_True)

lemma deployment_loop_bounds:
  "r = deployment_loop ops self stack i changes done n w \<Longrightarrow> i \<le> max_iters \<Longrightarrow>
     i \<le> passes r \<and> passes r \<le> max_iters \<and> passes r \<le> i + Suc (length changes) \<and>
     length (pending r) \<le> length changes \<and>
     steps r \<le> n + (passes r - i) * length changes \<and>
     (loop_raised r = None \<longrightarrow> pending r = [] \<or> passes r = max_iters)"
proof (induction ops self stack i changes "done" n w arbitrary: r rule: deployment_loop.induct)
  case (1 ops self stack i changes changes_done n w)
  show ?case
  proof (cases "i < max_iters")
    case False
    with "1.prems" show ?thesis by (simp add: deployment_loop.simps)
  next
    case True
    define p where "p = pass_loop ops self stack 0 changes changes_done False n w"
    have pb: "length (pass_changes p) \<le> length changes"
             "pass_steps p \<le> n + length changes"
             "length (pass_changes p) + length (pass_changes_done p) \<le> length changes + length changes_done"
             "pass_updated p \<longrightarrow> length changes_done < length (pass_changes_done p)"
      using pass_loop_bounds [OF _ p_def] by auto
    note step = deployment_loop_step [OF True p_def]
    show ?thesis
    proof (cases "raised p")
      case (Some e)
      with step "1.prems"(1) pb True show ?thesis by simp
    next
      case None
      show ?thesis
      proof (cases "pass_changes p = []")
        case True
        with step "1.prems"(1) pb None \<open>i < max_iters\<close> show ?thesis by simp
      next
        case ne: False
        show ?thesis
        proof (cases "pass_updated p")
          case False
          with step "1.prems"(1) pb None ne \<open>i < max_iters\<close> show ?thesis by simp
        next
          case upd: True
          have eq: "r = deployment_loop ops self stack (Suc i) (pass_changes p)
                       (pass_changes_done p) (pass_steps p) (pass_world p)"
            using step "1.prems"(1) None ne upd by simp
          have lt: "length (pass_changes p) < length changes" using pb upd by auto
          have si: "Suc i \<le> max_iters" using True by simp
          have c3: "\<not> \<not> pass_updated p" using upd by simp
          note ih = "1.IH" [OF True p_def None ne c3 eq si]
          have st: "steps r \<le> n + (passes r - i) * length changes"
          proof -
            from ih have a: "steps r \<le> pass_steps p + (passes r - Suc i) * length (pass_changes p)"
              and b: "Suc i \<le> passes r" by auto
            have "(passes r - Suc i) * length (pass_changes p) \<le> (passes r - Suc i) * length changes"
              using pb(1) by (rule mult_le_mono2)
            moreover have "(passes r - i) * length changes = length changes + (passes r - Suc i) * length changes"
              using b by (cases "passes r - i") (auto simp: Suc_diff_Suc)
            ultimately show ?thesis using a pb(2) by linarith
          qed
          from ih lt st show ?thesis by auto
        qed
      qed
    qed
  qed
qed

lemma deployment_loop_progress:
  "r = deployment_loop ops self stack i changes done n w \<Longrightarrow> i \<le> max_iters \<Longrightarrow>
     length done \<le> length (changes_done r) \<and>
     passes r + length done \<le> Suc i + length (changes_done r) \<and>
     length (pending r) + length (changes_done r) \<le> length changes + length done"
proof (induction ops self stack i changes "done" n w arbitrary: r rule: deployment_loop.induct)
  case (1 ops self stack i changes changes_done n w)
  show ?case
  proof (cases "i < max_iters")
    case False
    with "1.prems" show ?thesis by (simp add: deployment_loop.simps)
  next
    case True
    define p where "p = pass_loop ops self stack 0 changes changes_done False n w"
    have pb: "length (pass_changes p) + length (pass_changes_done p)
                \<le> length changes + length changes_done"
      using pass_loop_bounds [OF _ p_def] by auto
    note pu = pass_updated_iff_applied [OF p_def]
    note step = deployment_loop_step [OF True p_def]
    show ?thesis
    proof (cases "raised p")
      case (Some e)
      with step "1.prems"(1) pb pu(2) show ?thesis by simp
    next
      case None
      show ?thesis
      proof (cases "pass_changes p = []")
        case True
        with step "1.prems"(1) pb pu(2) None show ?thesis by simp
      next
        case ne: False
        show ?thesis
        proof (cases "pass_updated p")
          case False
          with step "1.prems"(1) pb pu(2) None ne show ?thesis by simp
        next
          case upd: True
          have eq: "r = deployment_loop ops self stack (Suc i) (pass_changes p)
                       (pass_changes_done p) (pass_steps p) (pass_world p)"
            using step "1.prems"(1) None ne upd by simp
          have lt: "length changes_done < length (pass_changes_done p)" using pu(3) upd by simp
          have si: "Suc i \<le> max_iters" using True by simp
          have c3: "\<not> \<not> pass_updated p" using upd by simp
          note ih = "1.IH" [OF True p_def None ne c3 eq si]
          from ih lt pb show ?thesis by linarith
        qed
      qed
    qed
  qed
qed

text \<open>
  Claim C1. The deployment loop runs at most 30 passes over the pending changes. Every
  pass but the last applies a change, so there is at most one more pass than changes
  applied, and at most one more than changes given. The list of pending changes never
  grows, and a pass takes at most as many inner iterations as there are pending changes;
  the loop therefore terminates, within \<open>30 * length changes\<close> inner iterations. A
  normal return leaves no pending change unless all 30 passes were used. For every pass
  (the loop from iteration \<open>i < 30\<close> on, whose first pass \<open>p\<close> raises nothing): if the
  pass leaves the list empty the loop stops there without raising; if it leaves changes
  pending and has applied none of them (the list of applied changes is as before the
  pass), the loop raises; and if it has applied a change, the loop goes on with the
  next pass.
\<close>

theorem do_apply_changes_in_loop_bounded:
  assumes "r = do_apply_changes_in_loop ops self changes stack w"
  shows "passes r \<le> 30 \<and> passes r \<le> Suc (length changes) \<and>
         passes r \<le> Suc (length (changes_done r)) \<and>
         length (pending r) + length (changes_done r) \<le> length changes \<and>
         steps r \<le> passes r * length changes \<and> steps r \<le> 30 * length changes \<and>
         length (pending r) \<le> length changes \<and>
         (loop_raised r = None \<longrightarrow> pending r = [] \<or> passes r = 30) \<and>
         (\<forall>i cs done n w' p q.
            i < 30 \<and> p = pass_loop ops self stack 0 cs done False n w' \<and> raised p = None \<and>
            q = deployment_loop ops self stack i cs done n w' \<longrightarrow>
              (pass_changes p = [] \<longrightarrow>
                 loop_raised q = None \<and> pending q = [] \<and> passes q = Suc i) \<and>
              (pass_changes p \<noteq> [] \<and> pass_changes_done p = done \<longrightarrow>
                 loop_raised q = Some (Raise Exception
                   ''Resource deployment loop completed, pending resource changes'') \<and>
                 pending q = pass_changes p \<and> passes q = Suc i) \<and>
              (pass_changes p \<noteq> [] \<and> pass_changes_done p \<noteq> done \<longrightarrow>
                 q = deployment_loop ops self stack (Suc i) (pass_changes p)
                       (pass_changes_done p) (pass_steps p) (pass_world p)))"
proof -
  have bounds: "passes r \<le> 30 \<and> passes r \<le> Suc (length changes) \<and>
         passes r \<le> Suc (length (changes_done r)) \<and>
         length (pending r) + length (changes_done r) \<le> length changes \<and>
         steps r \<le> passes r * length changes \<and>
         length (pending r) \<le> length changes \<and>
         (loop_raised r = None \<longrightarrow> pending r = [] \<or> passes r = 30)"
  proof (cases "apply_defaults ops stack (map fst (resources (heap w stack))) w")
    case (Pair res w0)
    show ?thesis
    proof (cases res)
      case (Inl e)
      with Pair assms show ?thesis by (simp add: do_apply_changes_in_loop_def)
    next
      case (Inr u)
      define d where "d = deployment_loop ops self stack 0 changes [] 0 w0"
      have db: "passes d \<le> 30" "passes d \<le> Suc (length changes)"
               "length (pending d) \<le> length changes"
               "steps d \<le> passes d * length changes"
               "loop_raised d = None \<longrightarrow> pending d = [] \<or> passes d = 30"
        using deployment_loop_bounds [OF d_def] by (auto simp: max_iters_def)
      have dp: "passes d \<le> Suc (length (changes_done d))"
               "length (pending d) + length (changes_done d) \<le> length changes"
        using deployment_loop_progress [OF d_def] by auto
      have same: "passes r = passes d \<and> steps r = steps d \<and> pending r = pending d \<and>
                  changes_done r = changes_done d \<and>
                  (loop_raised r = None \<longrightarrow> loop_raised d = None)"
        using assms Pair Inr d_def [symmetric]
        by (auto simp: do_apply_changes_in_loop_def Let_def split: option.splits prod.splits sum.splits)
      with db dp show ?thesis by auto
    qed
  qed
  then have "steps r \<le> passes r * length changes" "passes r \<le> 30" by auto
  then have "steps r \<le> 30 * length changes"
    by (meson le_trans mult_le_mono1)
  moreover have "\<forall>i cs done n w' p q.
            i < 30 \<and> p = pass_loop ops self stack 0 cs done False n w' \<and> raised p = None \<and>
            q = deployment_loop ops self stack i cs done n w' \<longrightarrow>
              (pass_changes p = [] \<longrightarrow>
                 loop_raised q = None \<and> pending q = [] \<and> passes q = Suc i) \<and>
              (pass_changes p \<noteq> [] \<and> pass_changes_done p = done \<longrightarrow>
                 loop_raised q = Some (Raise Exception
                   ''Resource deployment loop completed, pending resource changes'') \<and>
                 pending q = pass_changes p \<and> passes q = Suc i) \<and>
              (pass_changes p \<noteq> [] \<and> pass_changes_done p \<noteq> done \<longrightarrow>
                 q = deployment_loop ops self stack (Suc i) (pass_changes p)
                       (pass_changes_done p) (pass_steps p) (pass_world p))"
  proof (intro allI impI, elim conjE)
    fix i cs "done" n w' p q
    assume i: "i < 30" and p: "p = pass_loop ops self stack 0 cs done False n w'"
       and np: "raised p = None" and q: "q = deployment_loop ops self stack i cs done n w'"
    have "i < max_iters" using i by (simp add: max_iters_def)
    from deployment_loop_step [OF this p] q np pass_updated_iff_applied(1) [OF p]
    show "(pass_changes p = [] \<longrightarrow>
                 loop_raised q = None \<and> pending q = [] \<and> passes q = Suc i) \<and>
              (pass_changes p \<noteq> [] \<and> pass_changes_done p = done \<longrightarrow>
                 loop_raised q = Some (Raise Exception
                   ''Resource deployment loop completed, pending resource changes'') \<and>
                 pending q = pass_changes p \<and> passes q = Suc i) \<and>
              (pass_changes p \<noteq> [] \<and> pass_changes_done p \<noteq> done \<longrightarrow>
                 q = deployment_loop ops self stack (Suc i) (pass_changes p)
                       (pass_changes_done p) (pass_steps p) (pass_world p))"
      by simp
  qed
  ultimately show ?thesis using bounds by blast
qed

theorem do_apply_changes_in_loop_bounded_witness:
  "passes loop_run_example = 2 \<and> steps loop_run_example = 3 \<and>
   pending loop_run_example = [] \<and> loop_raised loop_run_example = None \<and>
   length (changes_done loop_run_example) = 2 \<and>
   ext (loop_world loop_run_example) = [''create A'', ''create B''] \<and>
   passes loop_run_example \<le> 30 \<and> steps loop_run_example \<le> 30 * 2 \<and>
   passes loop_run_example \<le> Suc (length (changes_done loop_run_example)) \<and>
   loop_raised loop_stuck_example =
     Some (Raise Exception ''Resource deployment loop completed, pending resource changes'') \<and>
   passes loop_stuck_example = 1 \<and> changes_done loop_stuck_example = [] \<and>
   length (pending loop_stuck_example) \<le> 1"
proof -
  have run: "passes loop_run_example = 2 \<and> steps loop_run_example = 3 \<and>
     pending loop_run_example = [] \<and> loop_raised loop_run_example = None \<and>
     length (changes_done loop_run_example) = 2 \<and>
     ext (loop_world loop_run_example) = [''create A'', ''create B'']"
    by code_simp
  have stuck: "loop_raised loop_stuck_example =
       Some (Raise Exception ''Resource deployment loop completed, pending resource changes'') \<and>
     passes loop_stuck_example = 1 \<and> changes_done loop_stuck_example = []"
    by code_simp
  from do_apply_changes_in_loop_bounded [OF loop_run_example_def]
  have a: "passes loop_run_example \<le> 30 \<and> steps loop_run_example \<le> 30 * 2 \<and>
           passes loop_run_example \<le> Suc (length (changes_done loop_run_example))"
    by simp
  from do_apply_changes_in_loop_bounded [OF loop_stuck_example_def]
  have b: "length (pending loop_stuck_example) \<le> 1"
    by simp
  from run stuck a b show ?thesis by blast
qed

lemma on_exception_simps [simp]:
  "on_exception (Raise DependencyNotYetSatisfied msg) = Postponed"
  "c \<noteq> DependencyNotYetSatisfied \<Longrightarrow> on_exception (Raise c msg) = Failed (Raise c msg)"
  by (cases c; simp add: on_exception_def)+

lemma add_of_deployed_resource_dropped:
  assumes "rc_Action a = ''Add''" "rc_LogicalResourceId a = rid"
      and "map_of (resources (heap x stack)) rid \<noteq> None"
      and "evaluate_resource_condition ops stack rid x = (Inr True, x1)"
      and "resolve_resource_refs ops stack rid x1 = (Inr u, x2)"
      and "is_deployable_resource ops stack rid x2"
      and "is_deployed ops self rid x2 = (Inr True, x3)"
  shows "loop_body ops self stack a x =
        (Dropped, a\<lparr>rc_deployed := Some True\<rparr>,
         x3\<lparr>heap := set_resource_status (heap x3) stack rid
                       (get_action_name_for_resource_change ops ''Add'' @ ''_COMPLETE'')\<rparr>)"
proof -
  from assms have "prepare_should_deploy_change ops self rid a stack x =
               (Inr False, a\<lparr>rc_deployed := Some True\<rparr>, x3)"
    by (auto simp: prepare_should_deploy_change_def Let_def)
  with assms show ?thesis
    by (auto simp: loop_body_def Let_def)
qed

text \<open>
  The claim that an Add change of a deployed resource is dropped without any service
  call fails: before the change is dropped, \<^verbatim>\<open>prepare_should_deploy_change\<close> resolves
  the references of the resource and asks \<^verbatim>\<open>is_deployed\<close>, which fetches the state of
  the resource from its service. With operations that log these look-ups, dropping the
  Add change of the deployed resource \<open>A\<close> adds both to the log.
\<close>

theorem add_of_deployed_resource_calls_counterexample:
  "fst (loop_body probe_ops 0 0 (add_change ''A'' ''AWS::SNS::Topic'')
          (loop_world0\<lparr>ext := [''create A'']\<rparr>)) = Dropped \<and>
   ext (snd (snd (loop_body probe_ops 0 0 (add_change ''A'' ''AWS::SNS::Topic'')
          (loop_world0\<lparr>ext := [''create A'']\<rparr>)))) =
     [''create A'', ''resolve_refs A'', ''fetch_state A'']"
  by (simp add: loop_body_def prepare_should_deploy_change_def probe_ops_def log_ops_def
        loop_world0_def loop_stack_def empty_stack_def add_change_def get_change_config_def
        res_def resources_def Let_def)

text \<open>
  Claim C10, amended. For a Modify change whose resource is not deployed,
  \<^verbatim>\<open>prepare_should_deploy_change\<close> records \<^verbatim>\<open>_deployed = False\<close> in the change and
  answers that the change is to be deployed; \<^verbatim>\<open>apply_change\<close> on a Modify change carrying
  \<^verbatim>\<open>_deployed = False\<close> runs the resource's \<^verbatim>\<open>create\<close> action and then records the
  result: \<^verbatim>\<open>update_resource\<close> is not called. An Add change whose resource is found
  deployed is dropped by the loop with the resource marked complete, and no resource
  action is run for it: the outcome is the world that the evaluation of the condition,
  the resolution of the references and the look-up of the deployed state leave, and it
  is the same whatever \<^verbatim>\<open>execute_resource_action\<close>, \<^verbatim>\<open>update_resource\<close> and
  \<^verbatim>\<open>update_resource_details\<close> would do.
\<close>

theorem modify_of_undeployed_resource_creates:
  "(rc_Action change = ''Modify'' \<and> map_of (resources (heap w stack)) resource_id \<noteq> None \<and>
    evaluate_resource_condition ops stack resource_id w = (Inr True, w1) \<and>
    resolve_resource_refs ops stack resource_id w1 = (Inr u, w2) \<and>
    is_deployed ops self resource_id w2 = (Inr False, w3) \<longrightarrow>
      prepare_should_deploy_change ops self resource_id change stack w =
        (Inr True, change\<lparr>rc_deployed := Some False\<rparr>, w3)) \<and>
   (rc_Action c = ''Modify'' \<and> rc_deployed c = Some False \<and>
    map_of (resources (heap v stack)) (rc_LogicalResourceId c) \<noteq> None \<and>
    evaluate_resource_condition ops stack (rc_LogicalResourceId c) v = (Inr True, v1) \<longrightarrow>
      apply_change ops self c stack v =
        (case execute_resource_action ops self (rc_LogicalResourceId c) ACTION_CREATE v1 of
           (Inl e, v2) \<Rightarrow> (Inl e, c\<lparr>rc_deployed := None\<rparr>, v2)
         | (Inr result, v2) \<Rightarrow>
             (case update_resource_details ops stack (rc_LogicalResourceId c) result
                     (get_action_name_for_resource_change ops ''Modify'') v2 of
                (Inl e, v3) \<Rightarrow> (Inl e, c\<lparr>rc_deployed := None\<rparr>, v3)
              | (Inr physical_id, v3) \<Rightarrow> (Inr result, c\<lparr>rc_deployed := None\<rparr>, v3)))) \<and>
   (rc_Action a = ''Add'' \<and> rc_LogicalResourceId a = rid \<and>
    map_of (resources (heap x stack)) rid \<noteq> None \<and>
    evaluate_resource_condition ops stack rid x = (Inr True, x1) \<and>
    resolve_resource_refs ops stack rid x1 = (Inr u', x2) \<and>
    is_deployable_resource ops stack rid x2 \<and>
    is_deployed ops self rid x2 = (Inr True, x3) \<longrightarrow>
      loop_body ops self stack a x =
        (Dropped, a\<lparr>rc_deployed := Some True\<rparr>,
         x3\<lparr>heap := set_resource_status (heap x3) stack rid
                       (get_action_name_for_resource_change ops ''Add'' @ ''_COMPLETE'')\<rparr>) \<and>
      (\<forall>f g k. loop_body (ops\<lparr>execute_resource_action := f, update_resource := g,
                                  update_resource_details := k\<rparr>) self stack a x =
                 loop_body ops self stack a x))"
proof (intro conjI impI)
  assume "rc_Action change = ''Modify'' \<and> map_of (resources (heap w stack)) resource_id \<noteq> None \<and>
    evaluate_resource_condition ops stack resource_id w = (Inr True, w1) \<and>
    resolve_resource_refs ops stack resource_id w1 = (Inr u, w2) \<and>
    is_deployed ops self resource_id w2 = (Inr False, w3)"
  then show "prepare_should_deploy_change ops self resource_id change stack w =
        (Inr True, change\<lparr>rc_deployed := Some False\<rparr>, w3)"
    by (auto simp: prepare_should_deploy_change_def Let_def)
next
  assume "rc_Action c = ''Modify'' \<and> rc_deployed c = Some False \<and>
    map_of (resources (heap v stack)) (rc_LogicalResourceId c) \<noteq> None \<and>
    evaluate_resource_condition ops stack (rc_LogicalResourceId c) v = (Inr True, v1)"
  then show "apply_change ops self c stack v =
        (case execute_resource_action ops self (rc_LogicalResourceId c) ACTION_CREATE v1 of
           (Inl e, v2) \<Rightarrow> (Inl e, c\<lparr>rc_deployed := None\<rparr>, v2)
         | (Inr result, v2) \<Rightarrow>
             (case update_resource_details ops stack (rc_LogicalResourceId c) result
                     (get_action_name_for_resource_change ops ''Modify'') v2 of
                (Inl e, v3) \<Rightarrow> (Inl e, c\<lparr>rc_deployed := None\<rparr>, v3)
              | (Inr physical_id, v3) \<Rightarrow> (Inr result, c\<lparr>rc_deployed := None\<rparr>, v3)))"
    by (auto simp: apply_change_def Let_def split: prod.splits sum.splits)
next
  assume h: "rc_Action a = ''Add'' \<and> rc_LogicalResourceId a = rid \<and>
    map_of (resources (heap x stack)) rid \<noteq> None \<and>
    evaluate_resource_condition ops stack rid x = (Inr True, x1) \<and>
    resolve_resource_refs ops stack rid x1 = (Inr u', x2) \<and>
    is_deployable_resource ops stack rid x2 \<and>
    is_deployed ops self rid x2 = (Inr True, x3)"
  then have hs: "rc_Action a = ''Add''" "rc_LogicalResourceId a = rid"
    "map_of (resources (heap x stack)) rid \<noteq> None"
    "evaluate_resource_condition ops stack rid x = (Inr True, x1)"
    "resolve_resource_refs ops stack rid x1 = (Inr u', x2)"
    "is_deployable_resource ops stack rid x2"
    "is_deployed ops self rid x2 = (Inr True, x3)"
    by blast+
  show dropped: "loop_body ops self stack a x =
        (Dropped, a\<lparr>rc_deployed := Some True\<rparr>,
         x3\<lparr>heap := set_resource_status (heap x3) stack rid
                       (get_action_name_for_resource_change ops ''Add'' @ ''_COMPLETE'')\<rparr>)"
    by (rule add_of_deployed_resource_dropped [OF hs])
  show "\<forall>f g k. loop_body (ops\<lparr>execute_resource_action := f, update_resource := g,
                                  update_resource_details := k\<rparr>) self stack a x =
                 loop_body ops self stack a x"
  proof (intro allI)
    fix f g k
    let ?ops = "ops\<lparr>execute_resource_action := f, update_resource := g,
                     update_resource_details := k\<rparr>"
    have "loop_body ?ops self stack a x =
        (Dropped, a\<lparr>rc_deployed := Some True\<rparr>,
         x3\<lparr>heap := set_resource_status (heap x3) stack rid
                       (get_action_name_for_resource_change ?ops ''Add'' @ ''_COMPLETE'')\<rparr>)"
      by (rule add_of_deployed_resource_dropped [where ?x1.0 = x1 and ?x2.0 = x2 and u = u'])
         (simp_all add: hs)
    with dropped show "loop_body ?ops self stack a x = loop_body ops self stack a x"
      by simp
  qed
qed

theorem modify_of_undeployed_resource_creates_witness:
  "prepare_should_deploy_change log_ops 0 ''A'' (modify_change ''A'' ''AWS::SNS::Topic'') 0 loop_world0 =
     (Inr True, (modify_change ''A'' ''AWS::SNS::Topic'')\<lparr>rc_deployed := Some False\<rparr>, loop_world0) \<and>
   ext (snd (snd (apply_change log_ops 0
          ((modify_change ''A'' ''AWS::SNS::Topic'')\<lparr>rc_deployed := Some False\<rparr>) 0 loop_world0)))
     = [''create A''] \<and>
   fst (loop_body log_ops 0 0 (add_change ''A'' ''AWS::SNS::Topic'')
          (loop_world0\<lparr>ext := [''create A'']\<rparr>)) = Dropped \<and>
   ext (snd (snd (loop_body log_ops 0 0 (add_change ''A'' ''AWS::SNS::Topic'')
          (loop_world0\<lparr>ext := [''create A'']\<rparr>)))) = [''create A''] \<and>
   loop_body (log_ops\<lparr>execute_resource_action := (\<lambda>self resource_id action_name w.
                  (Inl (Raise Exception ''AccessDenied''), w)),
                update_resource := (\<lambda>stack resource_id w. (Inl (Raise Exception ''AccessDenied''), w)),
                update_resource_details := (\<lambda>stack resource_id result action w.
                  (Inl (Raise Exception ''AccessDenied''), w))\<rparr>)
       0 0 (add_change ''A'' ''AWS::SNS::Topic'') (loop_world0\<lparr>ext := [''create A'']\<rparr>) =
     loop_body log_ops 0 0 (add_change ''A'' ''AWS::SNS::Topic'')
       (loop_world0\<lparr>ext := [''create A'']\<rparr>)"
proof -
  let ?m = "modify_change ''A'' ''AWS::SNS::Topic''"
  let ?a = "add_change ''A'' ''AWS::SNS::Topic''"
  let ?x = "loop_world0\<lparr>ext := [''create A'']\<rparr>"
  note inst = modify_of_undeployed_resource_creates
    [where change = ?m and w = loop_world0 and stack = 0 and resource_id = "''A''"
       and ops = log_ops and self = 0 and ?w1.0 = loop_world0 and ?w2.0 = loop_world0
       and ?w3.0 = loop_world0 and u = "()" and c = "?m\<lparr>rc_deployed := Some False\<rparr>"
       and v = loop_world0 and ?v1.0 = loop_world0 and a = ?a and rid = "''A''" and x = ?x
       and ?x1.0 = ?x and ?x2.0 = ?x and ?x3.0 = ?x and u' = "()"]
  have p1: "prepare_should_deploy_change log_ops 0 ''A'' ?m 0 loop_world0 =
     (Inr True, ?m\<lparr>rc_deployed := Some False\<rparr>, loop_world0)"
    using inst [THEN conjunct1]
    by (simp add: log_ops_def loop_world0_def loop_stack_def empty_stack_def
          modify_change_def add_change_def get_change_config_def res_def resources_def)
  have p2: "ext (snd (snd (apply_change log_ops 0 (?m\<lparr>rc_deployed := Some False\<rparr>) 0 loop_world0)))
     = [''create A'']"
    using inst [THEN conjunct2, THEN conjunct1]
    by (simp add: log_ops_def loop_world0_def loop_stack_def empty_stack_def ACTION_CREATE_def
          modify_change_def add_change_def get_change_config_def res_def resources_def)
  have hyp: "rc_Action ?a = ''Add'' \<and> rc_LogicalResourceId ?a = ''A'' \<and>
    map_of (resources (heap ?x 0)) ''A'' \<noteq> None \<and>
    evaluate_resource_condition log_ops 0 ''A'' ?x = (Inr True, ?x) \<and>
    resolve_resource_refs log_ops 0 ''A'' ?x = (Inr (), ?x) \<and>
    is_deployable_resource log_ops 0 ''A'' ?x \<and>
    is_deployed log_ops 0 ''A'' ?x = (Inr True, ?x)"
    by (simp add: log_ops_def loop_world0_def loop_stack_def empty_stack_def
          add_change_def get_change_config_def res_def resources_def)
  note third = inst [THEN conjunct2, THEN conjunct2, rule_format, OF hyp]
  have p3: "loop_body log_ops 0 0 ?a ?x =
        (Dropped, ?a\<lparr>rc_deployed := Some True\<rparr>,
         ?x\<lparr>heap := set_resource_status (heap ?x) 0 ''A''
                       (get_action_name_for_resource_change log_ops ''Add'' @ ''_COMPLETE'')\<rparr>)"
    using third by simp
  have p4: "loop_body (log_ops\<lparr>execute_resource_action := (\<lambda>self resource_id action_name w.
                  (Inl (Raise Exception ''AccessDenied''), w)),
                update_resource := (\<lambda>stack resource_id w. (Inl (Raise Exception ''AccessDenied''), w)),
                update_resource_details := (\<lambda>stack resource_id result action w.
                  (Inl (Raise Exception ''AccessDenied''), w))\<rparr>) 0 0 ?a ?x =
     loop_body log_ops 0 0 ?a ?x"
    using third by simp
  from p1 p2 p3 p4 show ?thesis by simp
qed

section \<open>Properties of the stack controller\<close>

declare delete_cycles.simps [simp del]

lemma apply_changes_in_loop_status:
  "fst (apply_changes_in_loop ops self changes stack action new_stack w) = Inr () \<and>
   status (heap (snd (apply_changes_in_loop ops self changes stack action new_stack w)) stack) =
     action @ (if loop_raised (do_apply_changes_in_loop ops self changes stack w) = None
               then ''_COMPLETE'' else ''_FAILED'')"
  by (simp add: apply_changes_in_loop_def Let_def set_stack_status_def split: option.splits)

lemma apply_changes_in_loop_execution_status:
  assumes "is_StackChangeSet (heap (loop_world (do_apply_changes_in_loop ops self changes stack w)) new_stack)"
      and "loop_raised (do_apply_changes_in_loop ops self changes stack w) = Some e"
  shows "metadata_ExecutionStatus
           (heap (snd (apply_changes_in_loop ops self changes stack action new_stack w)) new_stack) =
         Some ''EXECUTE_FAILED''"
proof -
  have sub: "sublist ''FAILED'' (action @ ''_FAILED'')"
    unfolding sublist_def by (rule exI [of _ "action @ ''_''"], rule exI [of _ "[]"]) simp
  show ?thesis
  proof (cases "new_stack = stack")
    case True
    with assms sub show ?thesis
      by (simp add: apply_changes_in_loop_def Let_def set_stack_status_def del: sublist_code)
  next
    case False
    with assms sub show ?thesis
      by (simp add: apply_changes_in_loop_def Let_def set_stack_status_def del: sublist_code)
  qed
qed

text \<open>
  Claim C2 fails as stated. The deployment of \<open>stuck_stack\<close> cannot make progress, so
  the deployment loop raises; \<^verbatim>\<open>deploy_stack\<close> sets \<^verbatim>\<open>CREATE_FAILED\<close> but returns
  normally: the exception is caught by the background runner, not propagated. And
  \<^verbatim>\<open>delete_stack\<close>, all of whose resource deletions fail in all ten cycles, ends in
  \<^verbatim>\<open>DELETE_COMPLETE\<close>, not \<^verbatim>\<open>DELETE_FAILED\<close>, with the resource still in
  \<^verbatim>\<open>CREATE_COMPLETE\<close>.
\<close>

theorem failing_loop_propagates_counterexample:
  "fst (deploy_stack log_ops no_ssm 0 stuck_world) = Inr () \<and>
   status (heap (snd (deploy_stack log_ops no_ssm 0 stuck_world)) 0) = ''CREATE_FAILED'' \<and>
   fst (delete_stack failing_ops 0 deployed_world) = Inr () \<and>
   status (heap (snd (delete_stack failing_ops 0 deployed_world)) 0) = ''DELETE_COMPLETE'' \<and>
   length (ext (snd (delete_stack failing_ops 0 deployed_world))) = 10 \<and>
   map_of (resource_states (heap (snd (delete_stack failing_ops 0 deployed_world)) 0)) ''A'' =
     Some \<lparr>PreviousResourceStatus = None, ResourceStatus = Some ''CREATE_COMPLETE''\<rparr>"
  by code_simp

text \<open>
  Claim C2, amended. For \<^verbatim>\<open>deploy_stack\<close>, \<^verbatim>\<open>update_stack\<close> and \<^verbatim>\<open>apply_change_set\<close>, when
  the changes were planned without error and the deployment loop raises, the stack's
  status is set to the \<^verbatim>\<open>CREATE_FAILED\<close> or \<^verbatim>\<open>UPDATE_FAILED\<close> variant of the action (and
  a change set gets \<^verbatim>\<open>EXECUTE_FAILED\<close>), never to the \<^verbatim>\<open>_COMPLETE\<close> variant; the
  exception is caught by the background runner and the operation returns normally.
  \<^verbatim>\<open>delete_stack\<close> does not run the deployment loop: it tolerates failing resource
  deletions, always returns normally and always ends in \<^verbatim>\<open>DELETE_COMPLETE\<close>.
\<close>

theorem failing_loop_sets_failed_status:
  "(plan_changes ssm self self self None True
        (set_stack_status (heap w) self ''CREATE_IN_PROGRESS'') = (Inr changes, h') \<and>
    loop_raised (do_apply_changes_in_loop ops self changes self (w\<lparr>heap := h'\<rparr>)) = Some e \<longrightarrow>
      fst (deploy_stack ops ssm self w) = Inr () \<and>
      status (heap (snd (deploy_stack ops ssm self w)) self) = ''CREATE_FAILED'') \<and>
   (plan_changes ssm self self new_stack None False
        (set_stack_status (heap w) self ''UPDATE_IN_PROGRESS'') = (Inr changes, h') \<and>
    loop_raised (do_apply_changes_in_loop ops self changes self (w\<lparr>heap := h'\<rparr>)) = Some e \<longrightarrow>
      fst (update_stack ops ssm self new_stack w) = Inr () \<and>
      status (heap (snd (update_stack ops ssm self new_stack w)) self) = ''UPDATE_FAILED'') \<and>
   (cs_stack = parent_stack (heap w change_set) \<and>
    action = (if status (heap w cs_stack) \<in> set [''CREATE_COMPLETE'', ''UPDATE_COMPLETE'']
              then ''UPDATE'' else ''CREATE'') \<and>
    h1 = set_stack_status (heap w) cs_stack (action @ ''_IN_PROGRESS'') \<and>
    plan_changes ssm self cs_stack change_set None False
        (h1(cs_stack := (h1 cs_stack)\<lparr>metadata_Capabilities := metadata_Capabilities (h1 change_set)\<rparr>))
      = (Inr changes, h') \<and>
    loop_raised (do_apply_changes_in_loop ops self changes cs_stack (w\<lparr>heap := h'\<rparr>)) = Some e \<longrightarrow>
      fst (apply_change_set ops ssm self change_set w) = Inr () \<and>
      status (heap (snd (apply_change_set ops ssm self change_set w)) cs_stack) = action @ ''_FAILED'' \<and>
      (is_StackChangeSet
         (heap (loop_world (do_apply_changes_in_loop ops self changes cs_stack (w\<lparr>heap := h'\<rparr>)))
            change_set) \<longrightarrow>
       metadata_ExecutionStatus (heap (snd (apply_change_set ops ssm self change_set w)) change_set)
         = Some ''EXECUTE_FAILED'')) \<and>
   fst (delete_stack ops self w) = Inr () \<and>
   status (heap (snd (delete_stack ops self w)) self) = ''DELETE_COMPLETE''"
proof (intro conjI impI)
  assume a: "plan_changes ssm self self self None True
        (set_stack_status (heap w) self ''CREATE_IN_PROGRESS'') = (Inr changes, h') \<and>
    loop_raised (do_apply_changes_in_loop ops self changes self (w\<lparr>heap := h'\<rparr>)) = Some e"
  let ?w1 = "w\<lparr>heap := h'\<rparr>"
  note st = apply_changes_in_loop_status [of ops self changes self "''CREATE''" self ?w1]
  have eq: "deploy_stack ops ssm self w = apply_changes_in_loop ops self changes self ''CREATE'' self ?w1"
    using a st
    by (cases "apply_changes_in_loop ops self changes self ''CREATE'' self ?w1")
       (simp add: deploy_stack_def apply_changes_def Let_def)
  show "fst (deploy_stack ops ssm self w) = Inr ()" using eq st by simp
  show "status (heap (snd (deploy_stack ops ssm self w)) self) = ''CREATE_FAILED''"
    using eq st a by simp
next
  assume a: "plan_changes ssm self self new_stack None False
        (set_stack_status (heap w) self ''UPDATE_IN_PROGRESS'') = (Inr changes, h') \<and>
    loop_raised (do_apply_changes_in_loop ops self changes self (w\<lparr>heap := h'\<rparr>)) = Some e"
  let ?w1 = "w\<lparr>heap := h'\<rparr>"
  let ?r = "apply_changes_in_loop ops self changes self ''UPDATE'' new_stack ?w1"
  note st = apply_changes_in_loop_status [of ops self changes self "''UPDATE''" new_stack ?w1]
  have eq: "update_stack ops ssm self new_stack w =
              (Inr (), (snd ?r)\<lparr>heap := set_time_attribute (heap (snd ?r)) self ''LastUpdatedTime''\<rparr>)"
    using a st
    by (cases ?r) (simp add: update_stack_def apply_changes_def Let_def)
  show "fst (update_stack ops ssm self new_stack w) = Inr ()" using eq by simp
  show "status (heap (snd (update_stack ops ssm self new_stack w)) self) = ''UPDATE_FAILED''"
    using eq st a by (simp add: set_time_attribute_def)
next
  assume a: "cs_stack = parent_stack (heap w change_set) \<and>
    action = (if status (heap w cs_stack) \<in> set [''CREATE_COMPLETE'', ''UPDATE_COMPLETE'']
              then ''UPDATE'' else ''CREATE'') \<and>
    h1 = set_stack_status (heap w) cs_stack (action @ ''_IN_PROGRESS'') \<and>
    plan_changes ssm self cs_stack change_set None False
        (h1(cs_stack := (h1 cs_stack)\<lparr>metadata_Capabilities := metadata_Capabilities (h1 change_set)\<rparr>))
      = (Inr changes, h') \<and>
    loop_raised (do_apply_changes_in_loop ops self changes cs_stack (w\<lparr>heap := h'\<rparr>)) = Some e"
  let ?w1 = "w\<lparr>heap := h'\<rparr>"
  let ?r = "apply_changes_in_loop ops self changes cs_stack action change_set ?w1"
  note st = apply_changes_in_loop_status [of ops self changes cs_stack action change_set ?w1]
  from a have plan: "plan_changes ssm self cs_stack change_set None False
        (h1(cs_stack := (h1 cs_stack)\<lparr>metadata_Capabilities := metadata_Capabilities (h1 change_set)\<rparr>))
      = (Inr changes, h')" by blast
  from a have cs: "parent_stack (heap w change_set) = cs_stack" by blast
  from a have h1: "set_stack_status (heap w) cs_stack (action @ ''_IN_PROGRESS'') = h1" by blast
  from a have raised: "loop_raised (do_apply_changes_in_loop ops self changes cs_stack ?w1) = Some e"
    by blast
  from a have action: "action = (if status (heap w cs_stack) \<in> set [''CREATE_COMPLETE'', ''UPDATE_COMPLETE'']
              then ''UPDATE'' else ''CREATE'')" by blast
  have eq: "apply_change_set ops ssm self change_set w = ?r"
  proof (cases "status (heap w cs_stack) \<in> set [''CREATE_COMPLETE'', ''UPDATE_COMPLETE'']")
    case True
    with action have act: "action = ''UPDATE''" by simp
    show ?thesis
      using True plan st h1
      unfolding apply_change_set_def apply_changes_def Let_def cs act
      by (cases "apply_changes_in_loop ops self changes cs_stack ''UPDATE'' change_set ?w1") simp
  next
    case False
    with action have act: "action = ''CREATE''" by simp
    show ?thesis
      using False plan st h1
      unfolding apply_change_set_def apply_changes_def Let_def cs act
      by (cases "apply_changes_in_loop ops self changes cs_stack ''CREATE'' change_set ?w1") simp
  qed
  show "fst (apply_change_set ops ssm self change_set w) = Inr ()" using eq st by simp
  show "status (heap (snd (apply_change_set ops ssm self change_set w)) cs_stack) = action @ ''_FAILED''"
    using eq st raised by simp
  assume "is_StackChangeSet
         (heap (loop_world (do_apply_changes_in_loop ops self changes cs_stack (w\<lparr>heap := h'\<rparr>)))
            change_set)"
  from apply_changes_in_loop_execution_status [OF this raised, of action] eq
  show "metadata_ExecutionStatus (heap (snd (apply_change_set ops ssm self change_set w)) change_set)
         = Some ''EXECUTE_FAILED''"
    by simp
next
  show "fst (delete_stack ops self w) = Inr ()"
    by (simp add: delete_stack_def Let_def)
  show "status (heap (snd (delete_stack ops self w)) self) = ''DELETE_COMPLETE''"
    by (simp add: delete_stack_def Let_def set_stack_status_def set_time_attribute_def)
qed

theorem failing_loop_sets_failed_status_witness:
  "fst (update_stack log_ops no_ssm 0 1 update_world) = Inr () \<and>
   status (heap (snd (update_stack log_ops no_ssm 0 1 update_world)) 0) = ''UPDATE_FAILED''"
proof -
  let ?h = "set_stack_status (heap update_world) 0 ''UPDATE_IN_PROGRESS''"
  let ?p = "plan_changes no_ssm 0 0 1 None False ?h"
  let ?cs = "[add_change ''B'' ''AWS::SQS::Queue'']"
  let ?e = "Raise Exception ''Resource deployment loop completed, pending resource changes''"
  have "fst ?p = Inr ?cs" by code_simp
  then have plan: "?p = (Inr ?cs, snd ?p)" by (metis prod.collapse)
  have raised: "loop_raised (do_apply_changes_in_loop log_ops 0 ?cs 0 (update_world\<lparr>heap := snd ?p\<rparr>))
                  = Some ?e"
    by code_simp
  from failing_loop_sets_failed_status
         [where ssm = no_ssm and self = 0 and w = update_world and new_stack = 1
            and changes = ?cs and h' = "snd ?p" and ops = log_ops and e = ?e]
       plan raised
  show ?thesis by blast
qed

section \<open>An update without changes\<close>

lemma fold_set_resource_status_frame:
  "(\<forall>x. x \<noteq> self \<longrightarrow>
      fold (\<lambda>(resource_id, resource) h'. set_resource_status h' self resource_id v) rs h x = h x) \<and>
   (\<exists>st. fold (\<lambda>(resource_id, resource) h'. set_resource_status h' self resource_id v) rs h self
          = (h self)\<lparr>resource_states := st\<rparr>)"
proof (induction rs arbitrary: h)
  case Nil
  have "h self = (h self)\<lparr>resource_states := resource_states (h self)\<rparr>" by simp
  then have "\<exists>st. h self = (h self)\<lparr>resource_states := st\<rparr>" by (rule exI)
  then show ?case by simp
next
  case (Cons a rs)
  obtain rid r where a: "a = (rid, r)" by (cases a)
  let ?h1 = "set_resource_status h self rid v"
  have s1: "(\<forall>x. x \<noteq> self \<longrightarrow> ?h1 x = h x) \<and> (\<exists>st. ?h1 self = (h self)\<lparr>resource_states := st\<rparr>)"
    by (auto simp: set_resource_status_def Let_def)
  from Cons.IH [of ?h1] s1 show ?case unfolding a by auto
qed

lemma init_resource_status_frame:
  "(\<forall>x. x \<noteq> self \<longrightarrow> init_resource_status self h rs a x = h x) \<and>
   (\<exists>st. init_resource_status self h rs a self = (h self)\<lparr>resource_states := st\<rparr>)"
  unfolding init_resource_status_def Let_def by (rule fold_set_resource_status_frame)

lemma apply_parameter_changes_frame:
  "apply_parameter_changes ssm h old new = (Inr u, h') \<Longrightarrow>
   (\<forall>x. x \<noteq> old \<longrightarrow> h' x = h x) \<and> (\<exists>ps. h' old = (h old)\<lparr>metadata_Parameters := ps\<rparr>)"
  by (auto simp: apply_parameter_changes_def Let_def split: sum.splits)

lemma update_append_notin:
  "k \<notin> fst ` set pre \<Longrightarrow> AList.update k x (pre @ (k, r) # suf) = pre @ (k, x) # suf"
  by (induction pre) auto

lemma construct_changes_loop_heap:
  "distinct (map fst (pre @ suf)) \<Longrightarrow> template_Resources (h n) = pre @ suf \<Longrightarrow>
   h' = snd (construct_changes_loop self False csid (map (\<lambda>b. (a, n, b)) suf) h acc) \<Longrightarrow>
   (\<forall>x. x \<noteq> n \<longrightarrow> h' x = h x) \<and>
   h' n = (h n)\<lparr>template_Resources := pre @ map (\<lambda>(k, v). (k, with_default_properties v)) suf\<rparr>"
proof (induction suf arbitrary: pre h acc)
  case Nil
  then show ?case by simp
next
  case (Cons x suf)
  obtain k r where x: "x = (k, r)" by (cases x)
  have nin: "k \<notin> fst ` set pre" using Cons.prems(1) x by auto
  let ?h1 = "h(n := (h n)\<lparr>template_Resources := (pre @ [(k, with_default_properties r)]) @ suf\<rparr>)"
  have d: "distinct (map fst ((pre @ [(k, with_default_properties r)]) @ suf))"
    using Cons.prems(1) x by auto
  have t: "template_Resources (?h1 n) = (pre @ [(k, with_default_properties r)]) @ suf" by simp
  have h': "h' = snd (construct_changes_loop self False csid (map (\<lambda>b. (a, n, b)) suf) ?h1
                  (acc @ [get_change_config a (with_default_properties r) csid]))"
    using Cons.prems(2,3) x by (simp add: Let_def update_append_notin [OF nin])
  from Cons.IH [OF d t h'] show ?case unfolding x by simp
qed

lemma resource_config_differs_cong:
  "map_of (template_Resources (h self)) (LogicalResourceId r) =
     map_of (template_Resources (h' self)) (LogicalResourceId r) \<Longrightarrow>
   map_of (resource_states (h self)) (LogicalResourceId r) =
     map_of (resource_states (h' self)) (LogicalResourceId r) \<Longrightarrow>
   resource_config_differs self h r = resource_config_differs self h' r"
  unfolding resource_config_differs_def resources_def Let_def
  by (simp cong: option.case_cong if_cong)

lemma merge_properties_effect:
  assumes "s \<noteq> n" "map_of (template_Resources (h n)) k = Some r" "Properties r = Some p"
      and "map_of (template_original_Resources (h n)) k = Some orig"
  shows "\<exists>h'. merge_properties k h s n = (Inr (), h') \<and> h' n = h n \<and>
           (\<forall>x. status (h' x) = status (h x)) \<and>
           resource_states (h' s) = resource_states (h s) \<and>
           (\<forall>k'. k' \<noteq> k \<longrightarrow>
              map_of (template_Resources (h' s)) k' = map_of (template_Resources (h s)) k')"
  using assms
  by (simp add: merge_properties_def Let_def update_conv')

lemma map_of_defaults:
  "distinct (map fst rs) \<Longrightarrow> (k, r0) \<in> set rs \<Longrightarrow>
   map_of (map (\<lambda>(k, v). (k, with_default_properties v)) rs) k = Some (with_default_properties r0)"
  by (induction rs) (auto simp: rev_image_eqI)

lemma check_and_merge_unchanged:
  assumes "s \<noteq> n"
      and "distinct (map fst rs)"
      and "\<forall>(k, r0) \<in> set rs. LogicalResourceId r0 = k"
  shows "template_Resources (h n) = map (\<lambda>(k, v). (k, with_default_properties v)) rs \<Longrightarrow>
         fst ` set rs \<subseteq> fst ` set (template_original_Resources (h n)) \<Longrightarrow>
         set suf \<subseteq> set rs \<Longrightarrow> distinct (map fst suf) \<Longrightarrow>
         \<forall>(k, r0) \<in> set suf. resource_config_differs s h (with_default_properties r0) = Inr False \<Longrightarrow>
         \<exists>h'. check_and_merge s s n (map (\<lambda>(k, r0). get_change_config ''Modify'' r0 csid) suf) h False
                 = (Inr False, h') \<and> (\<forall>x. status (h' x) = status (h x))"
proof (induction suf arbitrary: h)
  case Nil
  then show ?case by simp
next
  case (Cons x suf)
  obtain k r0 where x: "x = (k, r0)" by (cases x)
  have mem: "(k, r0) \<in> set rs" using Cons.prems(3) x by auto
  have lid: "LogicalResourceId r0 = k" using assms(3) mem by blast
  have look: "map_of (template_Resources (h n)) k = Some (with_default_properties r0)"
    using Cons.prems(1) map_of_defaults [OF assms(2) mem] by simp
  have props: "Properties (with_default_properties r0) =
                 Some (case Properties r0 of None \<Rightarrow> [] | Some p \<Rightarrow> p)"
    by (simp add: with_default_properties_def)
  have "k \<in> fst ` set rs" using mem by (simp add: rev_image_eqI)
  then have "k \<in> fst ` set (template_original_Resources (h n))" using Cons.prems(2) by blast
  then obtain orig where orig: "map_of (template_original_Resources (h n)) k = Some orig"
    by (metis domD dom_map_of_conv_image_fst)
  from merge_properties_effect [where h = h and s = s and n = n and k = k, OF assms(1) look props orig]
  obtain h1 where
    m: "merge_properties k h s n = (Inr (), h1)" and hn: "h1 n = h n" and
    st: "\<forall>x. status (h1 x) = status (h x)" and
    rs1: "resource_states (h1 s) = resource_states (h s)" and
    other: "\<forall>k'. k' \<noteq> k \<longrightarrow>
              map_of (template_Resources (h1 s)) k' = map_of (template_Resources (h s)) k'"
    by blast
  have nd: "resource_config_differs s h (with_default_properties r0) = Inr False"
    using Cons.prems(5) x by auto
  have t1: "template_Resources (h1 n) = map (\<lambda>(k, v). (k, with_default_properties v)) rs"
    using hn Cons.prems(1) by simp
  have o1: "fst ` set rs \<subseteq> fst ` set (template_original_Resources (h1 n))"
    using hn Cons.prems(2) by simp
  have s1: "set suf \<subseteq> set rs" using Cons.prems(3) by auto
  have d1: "distinct (map fst suf)" using Cons.prems(4) by simp
  have nd1: "\<forall>(k', r') \<in> set suf. resource_config_differs s h1 (with_default_properties r') = Inr False"
  proof (intro ballI, clarify)
    fix k' r' assume kr: "(k', r') \<in> set suf"
    have ne: "k' \<noteq> k" using Cons.prems(4) x kr by (auto simp: rev_image_eqI)
    have "LogicalResourceId r' = k'" using assms(3) s1 kr by blast
    then have l': "LogicalResourceId (with_default_properties r') = k'"
      by (simp add: with_default_properties_def)
    have "resource_config_differs s h1 (with_default_properties r') =
          resource_config_differs s h (with_default_properties r')"
      by (rule resource_config_differs_cong) (simp_all add: l' other ne rs1)
    then show "resource_config_differs s h1 (with_default_properties r') = Inr False"
      using Cons.prems(5) kr by auto
  qed
  from Cons.IH [OF t1 o1 s1 d1 nd1] obtain h' where
    r: "check_and_merge s s n (map (\<lambda>(k, r0). get_change_config ''Modify'' r0 csid) suf) h1 False
          = (Inr False, h')" and st': "\<forall>x. status (h' x) = status (h1 x)"
    by auto
  have lid': "LogicalResourceId (with_default_properties r0) = k"
    using lid by (simp add: with_default_properties_def)
  show ?case
    unfolding x
    using look nd m r st st' lid lid'
    by (simp add: get_change_config_def Let_def)
qed

lemma filter_all: "(\<And>x. x \<in> set xs \<Longrightarrow> P x) \<Longrightarrow> filter P xs = xs"
  by (induction xs) auto

lemma filter_none: "(\<And>x. x \<in> set xs \<Longrightarrow> \<not> P x) \<Longrightarrow> filter P xs = []"
  by (induction xs) auto

text \<open>
  Let the existing stack (the deployer's own) and the new stack be two stack objects
  whose templates declare the same resource keys, so that the diff has no Remove and no
  Add, and let \<^verbatim>\<open>resource_config_differs\<close> be false for every resource of the new
  template at the point where \<^verbatim>\<open>apply_changes\<close> asks. Then \<^verbatim>\<open>apply_changes\<close> raises
  \<^verbatim>\<open>NoStackUpdates\<close> before the deployment loop starts, and it writes no status. The new
  template is well formed (unique keys, each resource stored under its logical id and
  present in the original template) and parameter merging does not fail.
\<close>

lemma apply_changes_unchanged:
  assumes ne: "existing_stack \<noteq> new_stack"
      and dist: "distinct (map fst (template_Resources (heap w new_stack)))"
      and ids: "\<forall>(key, r) \<in> set (template_Resources (heap w new_stack)). LogicalResourceId r = key"
      and orig: "fst ` set (template_Resources (heap w new_stack))
                   \<subseteq> fst ` set (template_original_Resources (heap w new_stack))"
      and params: "fst (apply_parameter_changes ssm
                     (init_resource_status existing_stack (heap w)
                        (template_Resources (heap w existing_stack)) ''UPDATE'')
                     existing_stack new_stack) = Inr ()"
      and no_remove: "fst ` set (template_Resources (heap w existing_stack))
                        \<subseteq> fst ` set (template_Resources (heap w new_stack))"
      and no_add: "(initialize \<longrightarrow> template_Resources (heap w new_stack) = []) \<and>
                   fst ` set (template_Resources (heap w new_stack))
                     \<subseteq> fst ` set (template_Resources (heap w existing_stack))"
      and no_modify: "\<forall>(key, r) \<in> set (template_Resources (heap w new_stack)).
                        resource_config_differs existing_stack
                          (init_resource_status existing_stack (heap w)
                             (template_Resources (heap w existing_stack)) ''UPDATE'')
                          (with_default_properties r) = Inr False"
  shows "\<exists>h'. apply_changes ops ssm existing_stack existing_stack new_stack change_set_id
                initialize action w =
                (Inl (Raise NoStackUpdates ''No updates are to be performed.''), w\<lparr>heap := h'\<rparr>) \<and>
              (\<forall>x. status (h' x) = status (heap w x))"
proof -
  let ?s = existing_stack and ?n = new_stack
  let ?h0 = "heap w"
  let ?rs = "template_Resources (?h0 ?n)"
  let ?old = "template_Resources (?h0 ?s)"
  let ?h1 = "init_resource_status ?s ?h0 ?old ''UPDATE''"
  from init_resource_status_frame [of ?s ?h0 ?old "''UPDATE''"] ne
  obtain st where h1n: "?h1 ?n = ?h0 ?n" and h1s: "?h1 ?s = (?h0 ?s)\<lparr>resource_states := st\<rparr>"
    and h1o: "\<forall>x. x \<noteq> ?s \<longrightarrow> ?h1 x = ?h0 x"
    by auto
  have st1: "\<forall>x. status (?h1 x) = status (?h0 x)"
  proof
    fix x show "status (?h1 x) = status (?h0 x)"
      using h1s h1o by (cases "x = ?s") auto
  qed
  obtain h2 where p: "apply_parameter_changes ssm ?h1 ?s ?n = (Inr (), h2)"
    using params by (cases "apply_parameter_changes ssm ?h1 ?s ?n") auto
  from apply_parameter_changes_frame [OF p] ne
  obtain ps where h2n: "h2 ?n = ?h1 ?n" and h2s: "h2 ?s = (?h1 ?s)\<lparr>metadata_Parameters := ps\<rparr>"
    and h2o: "\<forall>x. x \<noteq> ?s \<longrightarrow> h2 x = ?h1 x"
    by auto
  have st2: "\<forall>x. status (h2 x) = status (?h0 x)"
  proof
    fix x show "status (h2 x) = status (?h0 x)"
      using st1 h2s h2o by (cases "x = ?s") auto
  qed
  have new2: "template_Resources (h2 ?n) = ?rs" using h2n h1n by simp
  have old2: "template_Resources (h2 ?s) = ?old" using h2s h1s by simp
  have dels: "filter (\<lambda>(key, val). key \<notin> set (map fst ?rs)) ?old = []"
  proof (rule filter_none)
    fix x assume "x \<in> set ?old"
    then have "fst x \<in> fst ` set ?old" by (rule imageI)
    with no_remove have "fst x \<in> fst ` set ?rs" by (simp add: subset_iff)
    then show "\<not> (case x of (key, val) \<Rightarrow> key \<notin> set (map fst ?rs))"
      by (simp add: case_prod_unfold)
  qed
  have sub: "x \<in> set ?rs \<Longrightarrow> fst x \<in> fst ` set ?old" for x
  proof -
    assume "x \<in> set ?rs"
    then have "fst x \<in> fst ` set ?rs" by (rule imageI)
    with no_add show ?thesis by (simp add: subset_iff)
  qed
  have ini: "x \<in> set ?rs \<Longrightarrow> \<not> initialize" for x
    using no_add by (cases initialize) auto
  have adds: "filter (\<lambda>(key, val). initialize \<or> key \<notin> set (map fst ?old)) ?rs = []"
  proof (rule filter_none)
    fix x assume x: "x \<in> set ?rs"
    from sub [OF x] ini [OF x]
    show "\<not> (case x of (key, val) \<Rightarrow> initialize \<or> key \<notin> set (map fst ?old))"
      by (simp add: case_prod_unfold)
  qed
  have mods: "filter (\<lambda>(key, val). \<not> initialize \<and> key \<in> set (map fst ?old)) ?rs = ?rs"
  proof (rule filter_all)
    fix x assume x: "x \<in> set ?rs"
    from sub [OF x] ini [OF x]
    show "case x of (key, val) \<Rightarrow> \<not> initialize \<and> key \<in> set (map fst ?old)"
      by (simp add: case_prod_unfold)
  qed
  let ?items = "map (\<lambda>b. (''Modify'', ?n, b)) ?rs"
  let ?cl = "construct_changes_loop ?s False change_set_id ?items h2 []"
  let ?changes = "map (\<lambda>(k, r0). get_change_config ''Modify'' r0 change_set_id) ?rs"
  let ?h3 = "snd ?cl"
  have cl1: "fst ?cl = Inr ?changes"
    by (simp add: construct_changes_loop_unfiltered case_prod_unfold)
  have cc: "construct_changes ?s h2 ?s ?n initialize change_set_id False False = (Inr ?changes, ?h3)"
  proof -
    obtain a b where ab: "?cl = (a, b)" by (cases ?cl)
    with cl1 have a: "a = Inr ?changes" by simp
    have lam: "(\<lambda>(key, val). (''Modify'', ?n, key, val)) = (\<lambda>b. (''Modify'', ?n, b))"
      by auto
    show ?thesis
      unfolding construct_changes_def Let_def new2 old2 dels adds mods lam
      using ab a by simp
  qed
  from construct_changes_loop_heap [where pre = "[]" and suf = ?rs and h = h2 and n = ?n
         and h' = ?h3 and self = ?s and csid = change_set_id and a = "''Modify''" and acc = "[]"]
       dist new2
  have h3o: "\<forall>x. x \<noteq> ?n \<longrightarrow> ?h3 x = h2 x"
   and h3n: "?h3 ?n = (h2 ?n)\<lparr>template_Resources := map (\<lambda>(k, v). (k, with_default_properties v)) ?rs\<rparr>"
    by auto
  have st3: "\<forall>x. status (?h3 x) = status (?h0 x)"
  proof
    fix x show "status (?h3 x) = status (?h0 x)"
      using st2 h3n h3o by (cases "x = ?n") auto
  qed
  have t3: "template_Resources (?h3 ?n) = map (\<lambda>(k, v). (k, with_default_properties v)) ?rs"
    using h3n by simp
  have o3: "fst ` set ?rs \<subseteq> fst ` set (template_original_Resources (?h3 ?n))"
    using orig h3n h2n h1n by simp
  have s3: "?h3 ?s = h2 ?s" using h3o ne by simp
  have nd3: "\<forall>(k, r0) \<in> set ?rs. resource_config_differs ?s ?h3 (with_default_properties r0) = Inr False"
  proof (intro ballI, clarify)
    fix k r0 assume kr: "(k, r0) \<in> set ?rs"
    have "resource_config_differs ?s ?h3 (with_default_properties r0) =
          resource_config_differs ?s ?h1 (with_default_properties r0)"
      by (rule resource_config_differs_cong) (simp_all add: s3 h2s)
    then show "resource_config_differs ?s ?h3 (with_default_properties r0) = Inr False"
      using no_modify kr by auto
  qed
  from check_and_merge_unchanged [OF ne dist ids t3 o3 subset_refl dist nd3, of change_set_id]
  obtain h4 where cm: "check_and_merge ?s ?s ?n ?changes ?h3 False = (Inr False, h4)"
    and st4: "\<forall>x. status (h4 x) = status (?h3 x)"
    by blast
  have plan: "plan_changes ssm ?s ?s ?n change_set_id initialize ?h0 =
                (Inl (Raise NoStackUpdates ''No updates are to be performed.''), h4)"
    using p cc cm by (simp add: plan_changes_def Let_def)
  then have "apply_changes ops ssm ?s ?s ?n change_set_id initialize action w =
               (Inl (Raise NoStackUpdates ''No updates are to be performed.''), w\<lparr>heap := h4\<rparr>)"
    by (simp add: apply_changes_def Let_def)
  moreover have "\<forall>x. status (h4 x) = status (?h0 x)" using st4 st3 by simp
  ultimately show ?thesis by blast
qed

text \<open>
  The claim that the status of the stack is left unchanged fails for the operations
  that reach \<^verbatim>\<open>apply_changes\<close>. The stack is in \<^verbatim>\<open>CREATE_COMPLETE\<close> and the new
  template declares the same resource with the same properties: \<^verbatim>\<open>update_stack\<close>
  raises \<^verbatim>\<open>NoStackUpdates\<close> and leaves the stack in \<^verbatim>\<open>UPDATE_IN_PROGRESS\<close>, the status
  it has written before the call of \<^verbatim>\<open>apply_changes\<close>.
\<close>

theorem update_stack_without_changes_counterexample:
  "status (heap unchanged_world 0) = ''CREATE_COMPLETE'' \<and>
   fst (update_stack log_ops no_ssm 0 1 unchanged_world) =
     Inl (Raise NoStackUpdates ''No updates are to be performed.'') \<and>
   status (heap (snd (update_stack log_ops no_ssm 0 1 unchanged_world)) 0) = ''UPDATE_IN_PROGRESS''"
  by code_simp

text \<open>
  Claim C3, amended. For a pair of stacks whose diff produces no actual change, in the
  state \<open>v\<close> in which \<^verbatim>\<open>apply_changes\<close> is entered: \<^verbatim>\<open>apply_changes\<close> raises
  \<^verbatim>\<open>NoStackUpdates\<close>, leaves the status of every stack as it was at its entry and runs
  no operation of the deployment loop. The status that the entry point has written
  before the call therefore stays. \<^verbatim>\<open>update_stack\<close>, which enters \<^verbatim>\<open>apply_changes\<close>
  after setting \<^verbatim>\<open>UPDATE_IN_PROGRESS\<close>, lets the exception through and leaves the stack
  in \<^verbatim>\<open>UPDATE_IN_PROGRESS\<close>; \<^verbatim>\<open>apply_change_set\<close>, which enters it after setting the
  status \<^verbatim>\<open>_IN_PROGRESS\<close> of its action and copying the capabilities of the change
  set, sets the status \<^verbatim>\<open>_FAILED\<close> of its action and raises the exception again.
\<close>

theorem no_stack_updates_keeps_entry_status:
  assumes ne: "existing_stack \<noteq> new_stack"
      and dist: "distinct (map fst (template_Resources (heap v new_stack)))"
      and ids: "\<forall>(key, r) \<in> set (template_Resources (heap v new_stack)). LogicalResourceId r = key"
      and orig: "fst ` set (template_Resources (heap v new_stack))
                   \<subseteq> fst ` set (template_original_Resources (heap v new_stack))"
      and params: "fst (apply_parameter_changes ssm
                     (init_resource_status existing_stack (heap v)
                        (template_Resources (heap v existing_stack)) ''UPDATE'')
                     existing_stack new_stack) = Inr ()"
      and no_remove: "fst ` set (template_Resources (heap v existing_stack))
                        \<subseteq> fst ` set (template_Resources (heap v new_stack))"
      and no_add: "(initialize \<longrightarrow> template_Resources (heap v new_stack) = []) \<and>
                   fst ` set (template_Resources (heap v new_stack))
                     \<subseteq> fst ` set (template_Resources (heap v existing_stack))"
      and no_modify: "\<forall>(key, r) \<in> set (template_Resources (heap v new_stack)).
                        resource_config_differs existing_stack
                          (init_resource_status existing_stack (heap v)
                             (template_Resources (heap v existing_stack)) ''UPDATE'')
                          (with_default_properties r) = Inr False"
  shows "fst (apply_changes ops ssm existing_stack existing_stack new_stack change_set_id
                initialize action v) = Inl (Raise NoStackUpdates ''No updates are to be performed.'') \<and>
         (\<forall>s. status (heap (snd (apply_changes ops ssm existing_stack existing_stack new_stack
                                    change_set_id initialize action v)) s) = status (heap v s)) \<and>
         ext (snd (apply_changes ops ssm existing_stack existing_stack new_stack
                     change_set_id initialize action v)) = ext v \<and>
         (\<forall>w. v = w\<lparr>heap := set_stack_status (heap w) existing_stack ''UPDATE_IN_PROGRESS''\<rparr> \<longrightarrow>
              fst (update_stack ops ssm existing_stack new_stack w) =
                Inl (Raise NoStackUpdates ''No updates are to be performed.'') \<and>
              status (heap (snd (update_stack ops ssm existing_stack new_stack w)) existing_stack) =
                ''UPDATE_IN_PROGRESS'' \<and>
              (\<forall>s. s \<noteq> existing_stack \<longrightarrow>
                 status (heap (snd (update_stack ops ssm existing_stack new_stack w)) s) =
                   status (heap w s)) \<and>
              ext (snd (update_stack ops ssm existing_stack new_stack w)) = ext w) \<and>
         (\<forall>w act h1.
              parent_stack (heap w new_stack) = existing_stack \<and>
              act = (if status (heap w existing_stack) \<in> set [''CREATE_COMPLETE'', ''UPDATE_COMPLETE'']
                     then ''UPDATE'' else ''CREATE'') \<and>
              h1 = set_stack_status (heap w) existing_stack (act @ ''_IN_PROGRESS'') \<and>
              v = w\<lparr>heap := h1(existing_stack := (h1 existing_stack)
                     \<lparr>metadata_Capabilities := metadata_Capabilities (h1 new_stack)\<rparr>)\<rparr> \<longrightarrow>
              fst (apply_change_set ops ssm existing_stack new_stack w) =
                Inl (Raise NoStackUpdates ''No updates are to be performed.'') \<and>
              status (heap (snd (apply_change_set ops ssm existing_stack new_stack w)) existing_stack) =
                act @ ''_FAILED'' \<and>
              ext (snd (apply_change_set ops ssm existing_stack new_stack w)) = ext w)"
proof -
  note unchanged = apply_changes_unchanged [OF ne dist ids orig params no_remove _ no_modify]
  have general: "\<exists>h'. apply_changes ops ssm existing_stack existing_stack new_stack csid
                init act v =
                (Inl (Raise NoStackUpdates ''No updates are to be performed.''), v\<lparr>heap := h'\<rparr>) \<and>
              (\<forall>x. status (h' x) = status (heap v x))"
    if "init \<longrightarrow> initialize" for csid init act
    by (rule unchanged) (use no_add that in auto)
  from general [of initialize change_set_id action]
  obtain h' where ac: "apply_changes ops ssm existing_stack existing_stack new_stack change_set_id
                initialize action v =
                (Inl (Raise NoStackUpdates ''No updates are to be performed.''), v\<lparr>heap := h'\<rparr>)"
    and st: "\<forall>x. status (h' x) = status (heap v x)"
    by auto
  have part1: "fst (apply_changes ops ssm existing_stack existing_stack new_stack change_set_id
                initialize action v) = Inl (Raise NoStackUpdates ''No updates are to be performed.'') \<and>
         (\<forall>s. status (heap (snd (apply_changes ops ssm existing_stack existing_stack new_stack
                                    change_set_id initialize action v)) s) = status (heap v s)) \<and>
         ext (snd (apply_changes ops ssm existing_stack existing_stack new_stack
                     change_set_id initialize action v)) = ext v"
    using ac st by simp
  have part2: "fst (update_stack ops ssm existing_stack new_stack w) =
                Inl (Raise NoStackUpdates ''No updates are to be performed.'') \<and>
              status (heap (snd (update_stack ops ssm existing_stack new_stack w)) existing_stack) =
                ''UPDATE_IN_PROGRESS'' \<and>
              (\<forall>s. s \<noteq> existing_stack \<longrightarrow>
                 status (heap (snd (update_stack ops ssm existing_stack new_stack w)) s) =
                   status (heap w s)) \<and>
              ext (snd (update_stack ops ssm existing_stack new_stack w)) = ext w"
    if v: "v = w\<lparr>heap := set_stack_status (heap w) existing_stack ''UPDATE_IN_PROGRESS''\<rparr>" for w
  proof -
    from general [of False None "Some ''UPDATE''"]
    obtain h2 where a2: "apply_changes ops ssm existing_stack existing_stack new_stack None
                False (Some ''UPDATE'') v =
                (Inl (Raise NoStackUpdates ''No updates are to be performed.''), v\<lparr>heap := h2\<rparr>)"
      and s2: "\<forall>x. status (h2 x) = status (heap v x)"
      by auto
    have us: "update_stack ops ssm existing_stack new_stack w =
                (Inl (Raise NoStackUpdates ''No updates are to be performed.''), v\<lparr>heap := h2\<rparr>)"
      using a2 unfolding update_stack_def Let_def v [symmetric] by simp
    have hv: "heap v = set_stack_status (heap w) existing_stack ''UPDATE_IN_PROGRESS''"
      and ev: "ext v = ext w"
      using v by simp_all
    show ?thesis
      using s2 by (simp add: us hv ev set_stack_status_def)
  qed
  have part3: "fst (apply_change_set ops ssm existing_stack new_stack w) =
                Inl (Raise NoStackUpdates ''No updates are to be performed.'') \<and>
              status (heap (snd (apply_change_set ops ssm existing_stack new_stack w)) existing_stack) =
                act @ ''_FAILED'' \<and>
              ext (snd (apply_change_set ops ssm existing_stack new_stack w)) = ext w"
    if ps: "parent_stack (heap w new_stack) = existing_stack"
      and act: "act = (if status (heap w existing_stack) \<in> set [''CREATE_COMPLETE'', ''UPDATE_COMPLETE'']
                     then ''UPDATE'' else ''CREATE'')"
      and h1: "h1 = set_stack_status (heap w) existing_stack (act @ ''_IN_PROGRESS'')"
      and v: "v = w\<lparr>heap := h1(existing_stack := (h1 existing_stack)
                     \<lparr>metadata_Capabilities := metadata_Capabilities (h1 new_stack)\<rparr>)\<rparr>"
    for w act h1
  proof -
    from general [of False None "Some act"]
    obtain h2 where a2: "apply_changes ops ssm existing_stack existing_stack new_stack None
                False (Some act) v =
                (Inl (Raise NoStackUpdates ''No updates are to be performed.''), v\<lparr>heap := h2\<rparr>)"
      by auto
    have ev: "ext v = ext w" using v by simp
    have "apply_change_set ops ssm existing_stack new_stack w =
            (Inl (Raise NoStackUpdates ''No updates are to be performed.''),
             v\<lparr>heap := set_stack_status
                    (h2(new_stack := (h2 new_stack)\<lparr>metadata_Status := Some (act @ ''_FAILED'')\<rparr>))
                    existing_stack (act @ ''_FAILED'')\<rparr>)"
      using a2 unfolding apply_change_set_def Let_def ps act [symmetric] h1 [symmetric] v [symmetric]
      by simp
    then show ?thesis
      by (simp add: ev set_stack_status_def)
  qed
  from part1 part2 part3 show ?thesis by blast
qed

theorem no_stack_updates_keeps_entry_status_witness:
  "fst (apply_changes log_ops no_ssm 0 0 1 None False (Some ''UPDATE'') unchanged_entered_world) =
     Inl (Raise NoStackUpdates ''No updates are to be performed.'') \<and>
   status (heap (snd (apply_changes log_ops no_ssm 0 0 1 None False (Some ''UPDATE'')
                        unchanged_entered_world)) 0) = ''UPDATE_IN_PROGRESS'' \<and>
   fst (update_stack log_ops no_ssm 0 1 unchanged_world) =
     Inl (Raise NoStackUpdates ''No updates are to be performed.'') \<and>
   status (heap (snd (update_stack log_ops no_ssm 0 1 unchanged_world)) 0) = ''UPDATE_IN_PROGRESS'' \<and>
   status (heap (snd (update_stack log_ops no_ssm 0 1 unchanged_world)) 1) = ''REVIEW_IN_PROGRESS'' \<and>
   ext (snd (update_stack log_ops no_ssm 0 1 unchanged_world)) = [] \<and>
   fst (apply_change_set log_ops no_ssm 0 1 unchanged_world) =
     Inl (Raise NoStackUpdates ''No updates are to be performed.'') \<and>
   status (heap (snd (apply_change_set log_ops no_ssm 0 1 unchanged_world)) 0) = ''UPDATE_FAILED''"
proof -
  let ?v = unchanged_entered_world
  have hv: "heap ?v = set_stack_status (heap unchanged_world) 0 ''UPDATE_IN_PROGRESS''"
    by (simp add: unchanged_entered_world_def)
  have ne: "(0::nat) \<noteq> 1" by simp
  have dist: "distinct (map fst (template_Resources (heap ?v 1)))"
    by (simp add: hv set_stack_status_def unchanged_world_def unchanged_new_stack_def empty_stack_def)
  have ids: "\<forall>(key, r) \<in> set (template_Resources (heap ?v 1)). LogicalResourceId r = key"
    by (simp add: hv set_stack_status_def unchanged_world_def unchanged_new_stack_def
          empty_stack_def res_def)
  have orig: "fst ` set (template_Resources (heap ?v 1))
                \<subseteq> fst ` set (template_original_Resources (heap ?v 1))"
    by (simp add: hv set_stack_status_def unchanged_world_def unchanged_new_stack_def empty_stack_def)
  have params: "fst (apply_parameter_changes no_ssm
                     (init_resource_status 0 (heap ?v)
                        (template_Resources (heap ?v 0)) ''UPDATE'') 0 1) = Inr ()"
    by code_simp
  have no_remove: "fst ` set (template_Resources (heap ?v 0))
                     \<subseteq> fst ` set (template_Resources (heap ?v 1))"
    by (simp add: hv set_stack_status_def unchanged_world_def unchanged_new_stack_def
          unchanged_old_stack_def empty_stack_def)
  have no_add: "(False \<longrightarrow> template_Resources (heap ?v 1) = []) \<and>
                fst ` set (template_Resources (heap ?v 1))
                  \<subseteq> fst ` set (template_Resources (heap ?v 0))"
    by (simp add: hv set_stack_status_def unchanged_world_def unchanged_new_stack_def
          unchanged_old_stack_def empty_stack_def)
  have no_modify: "\<forall>(key, r) \<in> set (template_Resources (heap ?v 1)).
                     resource_config_differs 0
                       (init_resource_status 0 (heap ?v)
                          (template_Resources (heap ?v 0)) ''UPDATE'')
                       (with_default_properties r) = Inr False"
    by code_simp
  note inst = no_stack_updates_keeps_entry_status
         [OF ne dist ids orig params no_remove no_add no_modify,
          of log_ops None "Some ''UPDATE''"]
  have entered: "?v = unchanged_world\<lparr>heap := set_stack_status (heap unchanged_world) 0
                                            ''UPDATE_IN_PROGRESS''\<rparr>"
    by (simp add: unchanged_entered_world_def)
  have a: "fst (apply_changes log_ops no_ssm 0 0 1 None False (Some ''UPDATE'') ?v) =
     Inl (Raise NoStackUpdates ''No updates are to be performed.'') \<and>
     status (heap (snd (apply_changes log_ops no_ssm 0 0 1 None False (Some ''UPDATE'') ?v)) 0)
       = ''UPDATE_IN_PROGRESS''"
    using inst by (simp add: hv set_stack_status_def)
  have b: "fst (update_stack log_ops no_ssm 0 1 unchanged_world) =
     Inl (Raise NoStackUpdates ''No updates are to be performed.'') \<and>
   status (heap (snd (update_stack log_ops no_ssm 0 1 unchanged_world)) 0) = ''UPDATE_IN_PROGRESS'' \<and>
   status (heap (snd (update_stack log_ops no_ssm 0 1 unchanged_world)) 1) = ''REVIEW_IN_PROGRESS'' \<and>
   ext (snd (update_stack log_ops no_ssm 0 1 unchanged_world)) = []"
    using inst [THEN conjunct2, THEN conjunct2, THEN conjunct2, THEN conjunct1, rule_format, OF entered]
    by (simp add: unchanged_world_def unchanged_new_stack_def empty_stack_def)
  have cs: "parent_stack (heap unchanged_world 1) = 0 \<and>
      ''UPDATE'' = (if status (heap unchanged_world 0) \<in> set [''CREATE_COMPLETE'', ''UPDATE_COMPLETE'']
                     then ''UPDATE'' else ''CREATE'') \<and>
      set_stack_status (heap unchanged_world) 0 ''UPDATE_IN_PROGRESS'' =
        set_stack_status (heap unchanged_world) 0 (''UPDATE'' @ ''_IN_PROGRESS'') \<and>
      ?v = unchanged_world\<lparr>heap :=
             (set_stack_status (heap unchanged_world) 0 ''UPDATE_IN_PROGRESS'')
               (0 := (set_stack_status (heap unchanged_world) 0 ''UPDATE_IN_PROGRESS'' 0)
                 \<lparr>metadata_Capabilities :=
                    metadata_Capabilities (set_stack_status (heap unchanged_world) 0
                                             ''UPDATE_IN_PROGRESS'' 1)\<rparr>)\<rparr>"
    by (auto simp: unchanged_entered_world_def unchanged_world_def unchanged_new_stack_def
          unchanged_old_stack_def empty_stack_def set_stack_status_def fun_eq_iff)
  have c: "fst (apply_change_set log_ops no_ssm 0 1 unchanged_world) =
     Inl (Raise NoStackUpdates ''No updates are to be performed.'') \<and>
   status (heap (snd (apply_change_set log_ops no_ssm 0 1 unchanged_world)) 0) = ''UPDATE_FAILED''"
    using inst [THEN conjunct2, THEN conjunct2, THEN conjunct2, THEN conjunct2, rule_format, OF cs]
    by simp
  from a b c show ?thesis by simp
qed

section \<open>Properties of the Route 53 record set provider\<close>




section \<open>Properties of the intrinsic evaluator\<close>

lemma stripped_fn_lower_Ref: "stripped_fn_lower [(''Ref'', arg)] = Some ''ref''"
  by (simp add: stripped_fn_lower_def lower_def lower_char_def)

text \<open>
  Claim C7. Let the argument of \<^verbatim>\<open>Fn::ImportValue\<close> (any spelling of the key whose
  lower-case form ends in \<^verbatim>\<open>importvalue\<close> after the last \<^verbatim>\<open>::\<close>) evaluate to an export
  name. If the exports hold no entry for the name, or an empty one, or a dictionary
  without a \<^verbatim>\<open>Value\<close> or with an empty one, the evaluation of the intrinsic returns
  \<^verbatim>\<open>None\<close>; it raises nothing and leaves the resources as the evaluation of the
  argument left them.
\<close>

theorem importvalue_of_missing_export_is_null:
  assumes "stripped_fn_lower [(key, arg)] = Some ''importvalue''"
      and "resolve_refs_recursively depth env arg rs = (Inr (VStr export_name), rs')"
      and "map_of (exports_map env) export_name = None \<or>
           (\<exists>export. map_of (exports_map env) export_name = Some export \<and>
              (\<not> truthy export \<or> (\<exists>d. export = VDict d \<and> \<not> truthy (dict_get d ''Value''))))"
  shows "resolve_refs_recursively (Suc depth) env (VDict [(key, arg)]) rs = (Inr VNull, rs')"
proof -
  have key: "key \<noteq> ''Ref''"
    using assms(1) stripped_fn_lower_Ref [of arg] by auto
  have dispatch: "inner_resolve_refs_recursively (resolve_refs_recursively depth env) env
                    (VDict [(key, arg)]) =
                  fn_importvalue (resolve_refs_recursively depth env) env arg"
    using assms(1) key by (simp add: inner_resolve_refs_recursively_def Let_def)
  have "fn_importvalue (resolve_refs_recursively depth env) env arg rs = (Inr VNull, rs')"
    using assms(3)
  proof (elim disjE exE conjE)
    assume "map_of (exports_map env) export_name = None"
    then show ?thesis
      using assms(2)
      by (simp add: fn_importvalue_def and_then_def lift_def ret_def get_def lookup_def
            or_else_def Let_def)
  next
    fix export
    assume e: "map_of (exports_map env) export_name = Some export" and "\<not> truthy export"
    then show ?thesis
      using assms(2)
      by (simp add: fn_importvalue_def and_then_def lift_def ret_def get_def lookup_def
            or_else_def Let_def)
  next
    fix export d
    assume e: "map_of (exports_map env) export_name = Some export" and d: "export = VDict d"
       and v: "\<not> truthy (dict_get d ''Value'')"
    then show ?thesis
      using assms(2)
      by (cases "map_of d ''Value''")
         (simp_all add: fn_importvalue_def and_then_def lift_def ret_def get_def lookup_def
            or_else_def dict_get_def Let_def)
  qed
  then show ?thesis
    by (simp add: dispatch and_then_def lift_def localstack_patches_def)
qed

theorem importvalue_of_missing_export_is_null_witness:
  "resolve_refs_recursively 1 example_env (VDict [(''Fn::ImportValue'', VStr ''missing'')])
     example_resources = (Inr VNull, example_resources) \<and>
   resolve_refs_recursively 3 example_env (VDict [(''Fn::ImportValue'', VStr ''empty'')])
     example_resources = (Inr VNull, example_resources) \<and>
   fst (resolve_refs_recursively 3 example_env (VDict [(''Fn::ImportValue'', VStr ''shared-bucket'')])
     example_resources) = Inr (VStr ''bucket-1'')"
proof -
  have fn: "stripped_fn_lower [(''Fn::ImportValue'', a)] = Some ''importvalue''" for a
    by (simp add: stripped_fn_lower_def lower_def lower_char_def)
  have name0: "resolve_refs_recursively 0 example_env (VStr ''missing'') example_resources =
                 (Inr (VStr ''missing''), example_resources)"
    by (simp add: ret_def)
  have name2: "resolve_refs_recursively 2 example_env (VStr ''empty'') example_resources =
                 (Inr (VStr ''empty''), example_resources)"
    by code_simp
  have absent: "map_of (exports_map example_env) ''missing'' = None"
    by (simp add: example_env_def)
  have empty: "\<exists>export. map_of (exports_map example_env) ''empty'' = Some export \<and>
              (\<not> truthy export \<or> (\<exists>d. export = VDict d \<and> \<not> truthy (dict_get d ''Value'')))"
    by (simp add: example_env_def dict_get_def)
  have a: "resolve_refs_recursively 1 example_env (VDict [(''Fn::ImportValue'', VStr ''missing'')])
     example_resources = (Inr VNull, example_resources)"
    using importvalue_of_missing_export_is_null [OF fn name0 disjI1, OF absent] by simp
  have b: "resolve_refs_recursively 3 example_env (VDict [(''Fn::ImportValue'', VStr ''empty'')])
     example_resources = (Inr VNull, example_resources)"
    using importvalue_of_missing_export_is_null [OF fn name2 disjI2, OF empty]
    by (simp add: eval_nat_numeral)
  have c: "fst (resolve_refs_recursively 3 example_env
                  (VDict [(''Fn::ImportValue'', VStr ''shared-bucket'')]) example_resources) =
           Inr (VStr ''bucket-1'')"
    by code_simp
  from a b c show ?thesis by simp
qed











text \<open>
  The same happens without chained parameters: the list that \<^verbatim>\<open>Fn::Split\<close> returns is
  stored in the tree as it is, and its dynamic reference is resolved by the next
  evaluation.
\<close>

lemma second_evaluation_of_split_differs:
  "resolve_refs_recursively 30 example_env split_tree example_resources =
     (Inr (VDict [(''Endpoints'', VList [VStr ''x'', VStr ''{{resolve:ssm:/foo}}''])]),
      example_resources) \<and>
   resolve_refs_recursively 30 example_env
       (VDict [(''Endpoints'', VList [VStr ''x'', VStr ''{{resolve:ssm:/foo}}''])])
       example_resources =
     (Inr (VDict [(''Endpoints'', VList [VStr ''x'', VStr ''bar''])]), example_resources)"
  by code_simp

text \<open>
  The evaluator also rewrites the resources of the stack: \<^verbatim>\<open>Ref\<close> of a resource
  resolves the resource in place before it asks the model for the reference. Here the
  name of the topic is an intrinsic until \<^verbatim>\<open>Ref\<close> is evaluated, and \<^verbatim>\<open>Fn::GetAtt\<close> of
  the name yields the intrinsic before and the resolved name after.
\<close>

lemma evaluation_rewrites_resources_example:
  "fst (resolve_refs_recursively 30 topic_env (VDict [(''Fn::GetAtt'', VStr ''Topic.TopicName'')])
          topic_resources) =
     Inr (VDict [(''Fn::Join'', VList [VStr ''-'', VList [VStr ''orders'',
                                       VDict [(''Ref'', VStr ''AWS::Region'')]]])]) \<and>
   fst (resolve_refs_recursively 30 topic_env (VDict [(''Ref'', VStr ''Topic'')]) topic_resources) =
     Inr (VStr ''arn:aws:sns:us-east-1:000000000000:orders'') \<and>
   snd (resolve_refs_recursively 30 topic_env (VDict [(''Ref'', VStr ''Topic'')]) topic_resources) \<noteq>
     topic_resources \<and>
   fst (resolve_refs_recursively 30 topic_env (VDict [(''Fn::GetAtt'', VStr ''Topic.TopicName'')])
          (snd (resolve_refs_recursively 30 topic_env (VDict [(''Ref'', VStr ''Topic'')])
                  topic_resources))) =
     Inr (VStr ''orders-us-east-1'')"
  by code_simp



end
